(* ===== verification/MCM_Prelude.thy ===== *)
theory MCM_Prelude
  imports Complex_Main "HOL-Library.Sublist" "HOL-Library.State_Monad"
begin

text \<open>
  Shared vocabulary of the development: the types that stand for Python values, the
  collections of facts the component theories fill, and the generic lemmas on lists and
  on the state monad that more than one component uses.

  \<^item> A Python \<open>str\<close> is a \<open>string\<close> holding its UTF-8 encoding (\<open>pystr\<close>); the program
    never measures or indexes a string, so bytes and code points cannot be told apart.
  \<^item> What \<open>print\<close> writes is a list of lines, oldest first (\<open>console\<close>): one entry per
    call of \<open>print\<close>.
  \<^item> \<open>strip_right\<close> is \<open>str.rstrip\<close> for a set of characters given as a predicate,
    \<open>all_of\<close> the test \<open>s == c * len(s)\<close>.
  \<^item> \<open>exec_state\<close> and \<open>eval_state\<close> read the two halves of a run of the state monad of
    \<open>HOL-Library.State_Monad\<close>, which threads the Qt object store through the
    construction of the user interface.
\<close>

section \<open>Collections\<close>

named_theorems model_defs \<open>definitions unfolded to evaluate the model at a concrete input\<close>
named_theorems frame \<open>fields an operation leaves unchanged\<close>
named_theorems inv_keep \<open>operations that keep an invariant\<close>

section \<open>Python values\<close>

type_synonym pystr = string
type_synonym console = "pystr list"

section \<open>Strings as lists\<close>

definition strip_right :: "('a \<Rightarrow> bool) \<Rightarrow> 'a list \<Rightarrow> 'a list" where
  "strip_right P xs = rev (dropWhile P (rev xs))"

definition all_of :: "'a \<Rightarrow> 'a list \<Rightarrow> bool" where
  "all_of c xs \<longleftrightarrow> xs = replicate (length xs) c"

lemma strip_right_Nil [simp]: "strip_right P [] = []"
  by (simp add: strip_right_def)

lemma strip_right_snoc [simp]:
  "strip_right P (xs @ [x]) = (if P x then strip_right P xs else xs @ [x])"
  by (simp add: strip_right_def)

lemma strip_right_Cons:
  "strip_right P (x # xs) = (if strip_right P xs = [] \<and> P x then [] else x # strip_right P xs)"
  by (auto simp: strip_right_def dropWhile_append)

lemma strip_right_append_keep:
  "ys \<noteq> [] \<Longrightarrow> \<not> P (last ys) \<Longrightarrow> strip_right P (xs @ ys) = xs @ ys"
  by (induction ys rule: rev_induct) (simp_all flip: append_assoc)

lemma strip_right_id: "xs = [] \<or> \<not> P (last xs) \<Longrightarrow> strip_right P xs = xs"
  by (cases xs rule: rev_cases) simp_all

lemma strip_right_last: "strip_right P xs \<noteq> [] \<Longrightarrow> \<not> P (last (strip_right P xs))"
  by (induction xs rule: rev_induct) (simp_all split: if_splits)

lemma strip_right_idem [simp]: "strip_right P (strip_right P xs) = strip_right P xs"
  by (metis strip_right_id strip_right_last)

lemma strip_right_prefix: "prefix (strip_right P xs) xs"
  by (induction xs rule: rev_induct) (auto intro: prefix_order.trans)

lemma strip_right_empty_iff: "strip_right P xs = [] \<longleftrightarrow> (\<forall>x \<in> set xs. P x)"
  by (induction xs rule: rev_induct) auto

lemma all_of_Nil [simp]: "all_of c []"
  by (simp add: all_of_def)

lemma all_of_Cons [simp]: "all_of c (x # xs) \<longleftrightarrow> x = c \<and> all_of c xs"
  by (auto simp: all_of_def)

lemma all_of_set: "all_of c xs \<longleftrightarrow> (\<forall>x \<in> set xs. x = c)"
  by (induction xs) auto

lemma all_of_append [simp]: "all_of c (xs @ ys) \<longleftrightarrow> all_of c xs \<and> all_of c ys"
  by (auto simp: all_of_set)

lemma all_of_last: "all_of c xs \<Longrightarrow> xs \<noteq> [] \<Longrightarrow> last xs = c"
  by (simp add: all_of_set)

lemma strip_right_all_of: "strip_right (\<lambda>x. x = c) xs = [] \<longleftrightarrow> all_of c xs"
  by (simp add: strip_right_empty_iff all_of_set)

section \<open>Runs of calls\<close>

text \<open>
  A sequence of calls on one object is run with \<open>fold\<close>; what every call keeps, the run
  keeps.
\<close>

lemma fold_keeps:
  assumes "\<And>x s. x \<in> set xs \<Longrightarrow> P s \<Longrightarrow> P (f x s)" and "P s"
  shows "P (fold f xs s)"
  using assms by (induction xs arbitrary: s) auto

section \<open>The state monad\<close>

definition exec_state :: "('s, 'a) state \<Rightarrow> 's \<Rightarrow> 's" where
  "exec_state m s = snd (run_state m s)"

definition eval_state :: "('s, 'a) state \<Rightarrow> 's \<Rightarrow> 'a" where
  "eval_state m s = fst (run_state m s)"

lemma run_state_exec_eval: "run_state m s = (eval_state m s, exec_state m s)"
  by (simp add: exec_state_def eval_state_def)

lemma exec_state_bind [simp]:
  "exec_state (State_Monad.bind m f) s = exec_state (f (eval_state m s)) (exec_state m s)"
  by (simp add: exec_state_def eval_state_def split: prod.splits)

lemma eval_state_bind [simp]:
  "eval_state (State_Monad.bind m f) s = eval_state (f (eval_state m s)) (exec_state m s)"
  by (simp add: exec_state_def eval_state_def split: prod.splits)

lemma exec_state_return [simp]: "exec_state (State_Monad.return x) s = s"
  by (simp add: exec_state_def)

lemma eval_state_return [simp]: "eval_state (State_Monad.return x) s = x"
  by (simp add: eval_state_def)

lemma exec_state_State [simp]: "exec_state (State f) s = snd (f s)"
  by (simp add: exec_state_def)

lemma eval_state_State [simp]: "eval_state (State f) s = fst (f s)"
  by (simp add: eval_state_def)

end
