(* ===== verification/Os_Path.thy ===== *)
theory Os_Path
  imports MCM_Prelude
begin

text \<open>
  The functions of Python's \<open>os.path\<close> that \<open>src/main.py\<close> calls, in their POSIX flavour
  (\<open>posixpath\<close>): \<open>join\<close>, \<open>dirname\<close>, \<open>abspath\<close> with the \<open>normpath\<close> and \<open>isabs\<close> it is built
  from. They are library code, modelled from the library's documented behaviour, one
  definition per function and one equation per branch. The Windows flavour (\<open>ntpath\<close>:
  drive letters, two separators) is not modelled.

  The helpers follow the string methods the library uses: \<open>startswith_sep\<close> is
  \<open>p.startswith('/')\<close>, \<open>endswith_sep\<close> is \<open>p.endswith('/')\<close>, \<open>dir_head\<close> is
  \<open>p[:p.rfind('/') + 1]\<close>, \<open>split_sep\<close> is \<open>p.split('/')\<close> and \<open>sep_join\<close> is \<open>'/'.join(comps)\<close>.

  The lemmas give, for each function, its value on every branch; that \<open>split_sep\<close> and
  \<open>sep_join\<close> are inverse; that \<open>os_path_dirname\<close> undoes \<open>os_path_join\<close> of a plain file
  name; that \<open>os_path_abspath\<close> returns an absolute path that \<open>os_path_normpath\<close> leaves
  alone; that \<open>os_path_normpath\<close> is idempotent, with the shape of its results on
  absolute and on relative paths, and what \<open>os_path_dirname\<close> and \<open>os_path_join\<close> return
  on absolute paths of that shape.
\<close>

section \<open>String helpers\<close>

abbreviation sep :: char where
  "sep \<equiv> CHR ''/''"

fun startswith_sep :: "pystr \<Rightarrow> bool" where
  "startswith_sep [] = False"
| "startswith_sep (c # cs) = (c = sep)"

definition endswith_sep :: "pystr \<Rightarrow> bool" where
  "endswith_sep p \<longleftrightarrow> p \<noteq> [] \<and> last p = sep"

definition dir_head :: "pystr \<Rightarrow> pystr" where
  "dir_head p = strip_right (\<lambda>c. c \<noteq> sep) p"

fun split_sep :: "pystr \<Rightarrow> pystr list" where
  "split_sep [] = [[]]"
| "split_sep (c # cs) =
     (if c = sep then [] # split_sep cs
      else (case split_sep cs of [] \<Rightarrow> [[c]] | x # xs \<Rightarrow> (c # x) # xs))"

fun sep_join :: "pystr list \<Rightarrow> pystr" where
  "sep_join [] = []"
| "sep_join [x] = x"
| "sep_join (x # y # ys) = x @ sep # sep_join (y # ys)"

section \<open>The library functions\<close>

text \<open>\<open>os.path.isabs(s)\<close>: the path starts with the separator.\<close>

definition os_path_isabs :: "pystr \<Rightarrow> bool" where
  "os_path_isabs s = startswith_sep s"

text \<open>
  \<open>os.path.join(a, *p)\<close>: each further component replaces what was joined so far when it
  is absolute, is appended directly when the path so far is empty or ends with the
  separator, and is appended after a separator otherwise.
\<close>

fun os_path_join :: "pystr \<Rightarrow> pystr list \<Rightarrow> pystr" where
  "os_path_join path [] = path"
| "os_path_join path (b # bs) =
     os_path_join
       (if startswith_sep b then b
        else if path = [] \<or> endswith_sep path then path @ b
        else path @ sep # b) bs"

text \<open>
  \<open>os.path.dirname(p)\<close>: everything up to and including the last separator, with
  trailing separators stripped unless nothing else is left.
\<close>

definition os_path_dirname :: "pystr \<Rightarrow> pystr" where
  "os_path_dirname p =
     (let head = dir_head p
      in if head \<noteq> [] \<and> \<not> all_of sep head then strip_right (\<lambda>c. c = sep) head else head)"

text \<open>
  \<open>os.path.normpath(path)\<close>: the loop over the components drops empty ones and \<open>.\<close>, and
  lets \<open>..\<close> cancel the component before it; at the root \<open>..\<close> is dropped, and in a relative
  path leading \<open>..\<close> are kept. One or two leading separators are kept, three or more
  become one.
\<close>

definition initial_slashes :: "pystr \<Rightarrow> nat" where
  "initial_slashes path =
     (if \<not> startswith_sep path then 0
      else if prefix [sep, sep] path \<and> \<not> prefix [sep, sep, sep] path then 2
      else 1)"

fun norm_comps :: "nat \<Rightarrow> pystr list \<Rightarrow> pystr list \<Rightarrow> pystr list" where
  "norm_comps slashes [] new_comps = new_comps"
| "norm_comps slashes (cmp # comps) new_comps =
     (if cmp = [] \<or> cmp = ''.'' then norm_comps slashes comps new_comps
      else if cmp \<noteq> ''..'' \<or> (slashes = 0 \<and> new_comps = [])
              \<or> (new_comps \<noteq> [] \<and> last new_comps = ''..'')
        then norm_comps slashes comps (new_comps @ [cmp])
      else if new_comps \<noteq> [] then norm_comps slashes comps (butlast new_comps)
      else norm_comps slashes comps new_comps)"

definition os_path_normpath :: "pystr \<Rightarrow> pystr" where
  "os_path_normpath path =
     (if path = [] then ''.''
      else
        let slashes = initial_slashes path;
            comps = norm_comps slashes (split_sep path) [];
            joined = sep_join comps;
            result = (if slashes \<noteq> 0 then replicate slashes sep @ joined else joined)
        in if result = [] then ''.'' else result)"

text \<open>
  \<open>os.path.abspath(path)\<close>: a relative path is joined to the current directory (the
  argument \<open>cwd\<close> stands for \<open>os.getcwd()\<close>), and the result is normalised.
\<close>

definition os_path_abspath :: "pystr \<Rightarrow> pystr \<Rightarrow> pystr" where
  "os_path_abspath cwd path =
     os_path_normpath (if \<not> os_path_isabs path then os_path_join cwd [path] else path)"

text \<open>
  A path in normal form is the separator followed by plain components joined by the
  separator: no component is empty, \<open>.\<close> or \<open>..\<close>, and none holds a separator.
\<close>

definition plain_comps :: "pystr list \<Rightarrow> bool" where
  "plain_comps comps \<longleftrightarrow> (\<forall>c \<in> set comps. c \<noteq> [] \<and> c \<noteq> ''.'' \<and> c \<noteq> ''..'' \<and> sep \<notin> set c)"

text \<open>
  The components of a relative path in normal form are a run of \<open>..\<close> followed by plain
  components.
\<close>

definition updirs :: "nat \<Rightarrow> pystr list" where
  "updirs k = replicate k ''..''"

definition rel_normal :: "pystr list \<Rightarrow> bool" where
  "rel_normal comps \<longleftrightarrow> plain_comps (dropWhile (\<lambda>c. c = ''..'') comps)"

lemmas os_path_defs [model_defs] =
  os_path_isabs_def endswith_sep_def dir_head_def os_path_dirname_def initial_slashes_def
  os_path_normpath_def os_path_abspath_def strip_right_def Let_def

section \<open>Splitting and joining at the separator\<close>

lemma split_sep_nonempty [simp]: "split_sep p \<noteq> []"
  by (induction p) (auto split: list.splits)

lemma sep_join_Cons: "xs \<noteq> [] \<Longrightarrow> sep_join (x # xs) = x @ sep # sep_join xs"
  by (cases xs) simp_all

lemma sep_join_Cons_Cons [simp]: "sep_join ((a # x) # xs) = a # sep_join (x # xs)"
  by (cases xs) simp_all

lemma sep_join_split [simp]: "sep_join (split_sep p) = p"
  by (induction p) (auto split: list.splits simp: sep_join_Cons)

lemma split_sep_no_sep: "x \<in> set (split_sep p) \<Longrightarrow> sep \<notin> set x"
  by (induction p arbitrary: x) (auto split: list.splits if_splits)

section \<open>Joining\<close>

lemma endswith_sep_snoc [simp]: "endswith_sep (p @ [c]) \<longleftrightarrow> c = sep"
  by (simp add: endswith_sep_def)

lemma endswith_sep_Nil [simp]: "\<not> endswith_sep []"
  by (simp add: endswith_sep_def)

lemma startswith_sep_append [simp]:
  "startswith_sep (p @ q) \<longleftrightarrow> (if p = [] then startswith_sep q else startswith_sep p)"
  by (cases p) simp_all

lemma startswith_sep_mem: "startswith_sep p \<Longrightarrow> sep \<in> set p"
  by (cases p) simp_all

lemma os_path_join_one:
  "os_path_join path [b] =
     (if startswith_sep b then b
      else if path = [] \<or> endswith_sep path then path @ b
      else path @ sep # b)"
  by simp

lemma os_path_join_absolute: "startswith_sep b \<Longrightarrow> os_path_join path [b] = b"
  by simp

lemma os_path_join_relative:
  "\<not> startswith_sep b \<Longrightarrow> prefix path (os_path_join path [b]) \<and> suffix b (os_path_join path [b])"
  by (auto simp: suffix_def)

lemma os_path_join_append:
  "os_path_join path (bs @ cs) = os_path_join (os_path_join path bs) cs"
  by (induction bs arbitrary: path) simp_all

section \<open>The directory part\<close>

lemma dir_head_Nil [simp]: "dir_head [] = []"
  by (simp add: dir_head_def)

lemma dir_head_no_sep: "sep \<notin> set name \<Longrightarrow> dir_head (p @ name) = dir_head p"
  by (induction name rule: rev_induct) (auto simp: dir_head_def simp flip: append_assoc)

lemma dir_head_snoc_sep [simp]: "dir_head (p @ [sep]) = p @ [sep]"
  by (simp add: dir_head_def)

lemma dir_head_endswith: "endswith_sep p \<Longrightarrow> dir_head p = p"
  by (cases p rule: rev_cases) (simp_all add: endswith_sep_def)

lemma os_path_dirname_join:
  assumes "sep \<notin> set name"
  shows "os_path_dirname (os_path_join d [name]) =
           (if all_of sep d then d else strip_right (\<lambda>c. c = sep) d)"
proof -
  from assms have rel: "\<not> startswith_sep name"
    by (auto dest: startswith_sep_mem)
  show ?thesis
  proof (cases "d = [] \<or> endswith_sep d")
    case True
    with rel assms have "dir_head (os_path_join d [name]) = d"
      using dir_head_no_sep [of name d] dir_head_no_sep [of name "[]"]
      by (auto simp: dir_head_endswith)
    then show ?thesis
      by (auto simp: os_path_dirname_def)
  next
    case False
    with rel assms have "dir_head (os_path_join d [name]) = d @ [sep]"
      using dir_head_no_sep [of name "d @ [sep]"] by simp
    with False show ?thesis
      by (auto simp: os_path_dirname_def endswith_sep_def strip_right_id dest: all_of_last)
  qed
qed

lemma os_path_dirname_tail:
  "\<not> all_of sep (os_path_dirname p) \<Longrightarrow> \<not> endswith_sep (os_path_dirname p)"
  by (auto simp: os_path_dirname_def Let_def endswith_sep_def
      dest: strip_right_last [of "\<lambda>c. c = sep"] split: if_splits)

section \<open>Normalised and absolute paths\<close>

lemma initial_slashes_pos: "startswith_sep p \<Longrightarrow> 0 < initial_slashes p"
  by (simp add: initial_slashes_def)

lemma initial_slashes_zero: "\<not> startswith_sep p \<Longrightarrow> initial_slashes p = 0"
  by (simp add: initial_slashes_def)

lemma set_butlast_subset: "set (butlast xs) \<subseteq> set xs"
  by (auto dest: in_set_butlastD)

lemma norm_comps_subset:
  "set (norm_comps slashes comps new_comps) \<subseteq> set new_comps \<union> (set comps - {[], ''.''})"
proof (induction comps arbitrary: new_comps)
  case Nil
  then show ?case by simp
next
  case (Cons c comps)
  from Cons.IH [of new_comps] Cons.IH [of "new_comps @ [c]"] Cons.IH [of "butlast new_comps"]
  show ?case
    using set_butlast_subset [of new_comps] by (auto split: if_splits)
qed

lemma sep_join_relative:
  "\<forall>c \<in> set comps. c \<noteq> [] \<and> sep \<notin> set c \<Longrightarrow> \<not> startswith_sep (sep_join comps)"
  by (cases comps rule: sep_join.cases) (auto dest: startswith_sep_mem)

lemma norm_comps_split_relative:
  "\<not> startswith_sep (sep_join (norm_comps slashes (split_sep p) []))"
proof (rule sep_join_relative, rule ballI)
  fix c assume "c \<in> set (norm_comps slashes (split_sep p) [])"
  with norm_comps_subset [of slashes "split_sep p" "[]"]
  have "c \<in> set (split_sep p)" and "c \<noteq> []" by auto
  then show "c \<noteq> [] \<and> sep \<notin> set c"
    by (simp add: split_sep_no_sep)
qed

lemma os_path_normpath_isabs [simp]:
  "os_path_isabs (os_path_normpath p) \<longleftrightarrow> os_path_isabs p"
proof (cases "startswith_sep p")
  case True
  then have "p \<noteq> []" and "0 < initial_slashes p"
    by (auto simp: initial_slashes_pos)
  with True show ?thesis
    by (cases "initial_slashes p") (simp_all add: os_path_normpath_def os_path_isabs_def Let_def)
next
  case False
  then show ?thesis
    using norm_comps_split_relative [of 0 p]
    by (simp add: os_path_normpath_def os_path_isabs_def Let_def initial_slashes_zero)
qed

lemma os_path_abspath_isabs:
  assumes "os_path_isabs cwd"
  shows "os_path_isabs (os_path_abspath cwd p)"
proof -
  from assms have "os_path_isabs (if \<not> os_path_isabs p then os_path_join cwd [p] else p)"
    by (cases cwd) (auto simp: os_path_isabs_def)
  then show ?thesis
    by (simp add: os_path_abspath_def)
qed

section \<open>Paths in normal form\<close>

lemma plain_comps_simps [simp]:
  "plain_comps []"
  "plain_comps (c # cs) \<longleftrightarrow> c \<noteq> [] \<and> c \<noteq> ''.'' \<and> c \<noteq> ''..'' \<and> sep \<notin> set c \<and> plain_comps cs"
  "plain_comps (as @ bs) \<longleftrightarrow> plain_comps as \<and> plain_comps bs"
  by (auto simp: plain_comps_def)

lemma split_sep_no_sep_id: "sep \<notin> set c \<Longrightarrow> split_sep c = [c]"
  by (induction c) auto

lemma split_sep_append:
  "sep \<notin> set c \<Longrightarrow> split_sep (c @ sep # p) = c # split_sep p"
  by (induction c) auto

lemma split_sep_join:
  "comps \<noteq> [] \<Longrightarrow> \<forall>c \<in> set comps. sep \<notin> set c \<Longrightarrow> split_sep (sep_join comps) = comps"
  by (induction comps rule: sep_join.induct) (simp_all add: split_sep_no_sep_id split_sep_append)

lemma norm_comps_plain:
  "plain_comps comps \<Longrightarrow> norm_comps slashes comps new_comps = new_comps @ comps"
  by (induction comps arbitrary: new_comps) simp_all

lemma initial_slashes_one:
  "\<not> startswith_sep p \<Longrightarrow> initial_slashes (sep # p) = 1"
  by (cases p) (simp_all add: initial_slashes_def)

lemma os_path_normpath_plain:
  assumes "plain_comps comps"
  shows "os_path_normpath (sep # sep_join comps) = sep # sep_join comps"
proof (cases "comps = []")
  case True
  then show ?thesis
    by (simp add: os_path_normpath_def initial_slashes_def)
next
  case False
  with assms have split: "split_sep (sep # sep_join comps) = [] # comps"
    by (simp add: split_sep_join plain_comps_def)
  from assms have "\<not> startswith_sep (sep_join comps)"
    by (intro sep_join_relative) (simp add: plain_comps_def)
  then have "initial_slashes (sep # sep_join comps) = 1"
    by (rule initial_slashes_one)
  with assms split show ?thesis
    by (simp add: os_path_normpath_def norm_comps_plain)
qed

lemma sep_join_snoc:
  "dirs \<noteq> [] \<Longrightarrow> sep_join (dirs @ [name]) = sep_join dirs @ sep # name"
  by (induction dirs rule: sep_join.induct) simp_all

lemma sep_join_plain_last:
  "plain_comps dirs \<Longrightarrow> dirs \<noteq> [] \<Longrightarrow> sep_join dirs \<noteq> [] \<and> last (sep_join dirs) \<noteq> sep"
  by (induction dirs rule: sep_join.induct) (auto dest: last_in_set)

lemma os_path_join_plain:
  assumes "plain_comps dirs" and "\<not> startswith_sep rel"
  shows "os_path_join (sep # sep_join dirs) [rel] =
           (if dirs = [] then sep # rel else sep # sep_join dirs @ sep # rel)"
  using assms sep_join_plain_last [of dirs] by (auto simp: endswith_sep_def)

lemma os_path_dirname_plain:
  assumes "plain_comps dirs" and "sep \<notin> set name"
  shows "os_path_dirname (sep # sep_join (dirs @ [name])) = sep # sep_join dirs"
proof -
  define d where "d = sep # sep_join dirs"
  from assms have rel: "\<not> startswith_sep name"
    by (auto dest: startswith_sep_mem)
  have "sep # sep_join (dirs @ [name]) = os_path_join d [name]"
    unfolding d_def using os_path_join_plain [OF assms(1) rel]
    by (cases "dirs = []") (simp_all add: sep_join_snoc del: os_path_join.simps)
  then have "os_path_dirname (sep # sep_join (dirs @ [name])) =
      (if all_of sep d then d else strip_right (\<lambda>c. c = sep) d)"
    by (simp only: os_path_dirname_join [OF assms(2)])
  also have "\<dots> = d"
  proof (cases "dirs = []")
    case True
    then show ?thesis by (simp add: d_def)
  next
    case False
    with assms(1) have "sep_join dirs \<noteq> [] \<and> last (sep_join dirs) \<noteq> sep"
      by (rule sep_join_plain_last)
    then show ?thesis
      by (simp add: d_def strip_right_id)
  qed
  finally show ?thesis
    by (simp add: d_def)
qed

section \<open>Absolute paths in normal form\<close>

text \<open>
  An absolute path in normal form is one or two separators followed by plain components
  joined by the separator. \<open>os_path_normpath\<close> brings every absolute path into this form
  and leaves a path of this form alone; \<open>os_path_dirname\<close> of such a path drops its last
  component, and \<open>os_path_join\<close> of such a path with plain components adds them.
\<close>

lemma initial_slashes_range:
  "startswith_sep p \<Longrightarrow> initial_slashes p = 1 \<or> initial_slashes p = 2"
  by (simp add: initial_slashes_def)

lemma initial_slashes_replicate:
  "s = 1 \<or> s = 2 \<Longrightarrow> \<not> startswith_sep q \<Longrightarrow> initial_slashes (replicate s sep @ q) = s"
  by (cases q) (auto simp: initial_slashes_def numeral_2_eq_2)

lemma split_sep_replicate: "split_sep (replicate s sep @ q) = replicate s [] @ split_sep q"
  by (induction s) simp_all

lemma norm_comps_empties [simp]:
  "norm_comps slashes (replicate k [] @ comps) acc = norm_comps slashes comps acc"
  by (induction k) simp_all

lemma norm_comps_absolute:
  assumes "slashes \<noteq> 0" and "\<forall>c \<in> set comps. sep \<notin> set c" and "plain_comps acc"
  shows "plain_comps (norm_comps slashes comps acc)"
  using assms(2,3)
proof (induction comps arbitrary: acc)
  case Nil
  then show ?case by simp
next
  case (Cons c comps)
  from Cons.prems(2) have "plain_comps (butlast acc)"
    by (auto simp: plain_comps_def dest: in_set_butlastD)
  moreover from Cons.prems(2) have "acc \<noteq> [] \<Longrightarrow> last acc \<noteq> ''..''"
    by (auto simp: plain_comps_def dest: last_in_set)
  ultimately show ?case
    using Cons.prems assms(1) by (auto intro!: Cons.IH)
qed

lemma os_path_normpath_normal:
  assumes "plain_comps comps" and "s = 1 \<or> s = 2"
  shows "os_path_normpath (replicate s sep @ sep_join comps) = replicate s sep @ sep_join comps"
proof -
  let ?p = "replicate s sep @ sep_join comps"
  from assms(1) have rel: "\<not> startswith_sep (sep_join comps)"
    by (intro sep_join_relative) (simp add: plain_comps_def)
  with assms(2) have s: "initial_slashes ?p = s"
    by (rule initial_slashes_replicate)
  have "norm_comps s (split_sep ?p) [] = comps"
  proof (cases "comps = []")
    case True
    with split_sep_replicate [of s "[]"] show ?thesis by simp
  next
    case False
    with assms(1) have "split_sep (sep_join comps) = comps"
      by (simp add: split_sep_join plain_comps_def)
    with assms(1) show ?thesis
      by (simp add: split_sep_replicate norm_comps_plain)
  qed
  with s assms(2) show ?thesis
    by (auto simp: os_path_normpath_def Let_def)
qed

lemma os_path_normpath_shape:
  assumes "startswith_sep p"
  shows "\<exists>comps. plain_comps comps \<and>
           os_path_normpath p = replicate (initial_slashes p) sep @ sep_join comps"
proof -
  let ?s = "initial_slashes p"
  let ?N = "norm_comps ?s (split_sep p) []"
  from assms have s: "?s \<noteq> 0" and p: "p \<noteq> []"
    by (auto simp: initial_slashes_def)
  then have "plain_comps ?N"
    by (intro norm_comps_absolute) (simp_all add: split_sep_no_sep)
  moreover from s p have "os_path_normpath p = replicate ?s sep @ sep_join ?N"
    by (cases ?s) (simp_all add: os_path_normpath_def Let_def)
  ultimately show ?thesis by blast
qed

lemma os_path_normpath_idem:
  assumes "startswith_sep p"
  shows "os_path_normpath (os_path_normpath p) = os_path_normpath p"
proof -
  from os_path_normpath_shape [OF assms] obtain comps where
    "plain_comps comps" "os_path_normpath p = replicate (initial_slashes p) sep @ sep_join comps"
    by blast
  with initial_slashes_range [OF assms] show ?thesis
    by (simp only: os_path_normpath_normal)
qed

lemma all_of_replicate [simp]: "all_of c (replicate n c)"
  by (simp add: all_of_def)

lemma os_path_dirname_root [simp]: "os_path_dirname (replicate s sep) = replicate s sep"
proof (cases s)
  case 0
  then show ?thesis by (simp add: os_path_dirname_def)
next
  case (Suc n)
  then have "endswith_sep (replicate s sep)"
    by (simp add: endswith_sep_def)
  then show ?thesis
    by (simp add: os_path_dirname_def dir_head_endswith)
qed

lemma os_path_dirname_normal:
  assumes "plain_comps dirs" and "sep \<notin> set name" and "0 < s"
  shows "os_path_dirname (replicate s sep @ sep_join (dirs @ [name])) =
           replicate s sep @ sep_join dirs"
proof -
  define d where "d = replicate s sep @ sep_join dirs"
  from assms(2) have rel: "\<not> startswith_sep name"
    by (auto dest: startswith_sep_mem)
  from assms(3) have root: "endswith_sep (replicate s sep)"
    by (cases s) (simp_all add: endswith_sep_def)
  show ?thesis
  proof (cases "dirs = []")
    case True
    with rel root have "replicate s sep @ sep_join (dirs @ [name]) = os_path_join d [name]"
      by (simp add: d_def)
    with True show ?thesis
      by (simp add: os_path_dirname_join [OF assms(2)] d_def del: os_path_join.simps)
  next
    case False
    with assms(1) have last: "sep_join dirs \<noteq> [] \<and> last (sep_join dirs) \<noteq> sep"
      by (rule sep_join_plain_last)
    with rel False have "replicate s sep @ sep_join (dirs @ [name]) = os_path_join d [name]"
      by (simp add: d_def sep_join_snoc endswith_sep_def)
    moreover from last have "\<not> all_of sep d" "strip_right (\<lambda>c. c = sep) d = d"
      by (auto simp: d_def strip_right_id dest: all_of_last)
    ultimately show ?thesis
      by (simp add: os_path_dirname_join [OF assms(2)] d_def del: os_path_join.simps)
  qed
qed

lemma os_path_normpath_dirname:
  assumes "startswith_sep p"
  shows "\<exists>s dirs. (s = 1 \<or> s = 2) \<and> plain_comps dirs \<and>
           os_path_dirname (os_path_normpath p) = replicate s sep @ sep_join dirs"
proof -
  let ?s = "initial_slashes p"
  from os_path_normpath_shape [OF assms] obtain comps where
    comps: "plain_comps comps" "os_path_normpath p = replicate ?s sep @ sep_join comps"
    by blast
  from assms have s: "?s = 1 \<or> ?s = 2"
    by (rule initial_slashes_range)
  show ?thesis
  proof (cases comps rule: rev_cases)
    case Nil
    with comps s show ?thesis
      by (intro exI [of _ ?s] exI [of _ "[]"]) simp
  next
    case (snoc dirs name)
    from comps(1) snoc s
    have "os_path_dirname (replicate ?s sep @ sep_join (dirs @ [name])) =
        replicate ?s sep @ sep_join dirs"
      by (intro os_path_dirname_normal) auto
    with comps(2) snoc
    have "os_path_dirname (os_path_normpath p) = replicate ?s sep @ sep_join dirs"
      by (simp only:)
    with comps(1) snoc s show ?thesis
      by (intro exI [of _ ?s] exI [of _ dirs]) simp
  qed
qed

lemma normal_no_trailing_sep:
  assumes "plain_comps dirs" and "0 < s"
  shows "os_path_join (replicate s sep @ sep_join dirs) [name] =
           (if startswith_sep name then name
            else if dirs = [] then replicate s sep @ name
            else replicate s sep @ sep_join dirs @ sep # name)"
proof (cases "dirs = []")
  case True
  with assms(2) show ?thesis
    by (cases s) (simp_all add: endswith_sep_def)
next
  case False
  with assms(1) have "sep_join dirs \<noteq> [] \<and> last (sep_join dirs) \<noteq> sep"
    by (rule sep_join_plain_last)
  with False show ?thesis
    by (simp add: endswith_sep_def)
qed

lemma normal_endswith_sep:
  assumes "plain_comps dirs" and "endswith_sep (replicate s sep @ sep_join dirs)"
  shows "dirs = []"
proof (rule ccontr)
  assume "dirs \<noteq> []"
  from sep_join_plain_last [OF assms(1) this] assms(2) show False
    by (simp add: endswith_sep_def)
qed

lemma normal_strip_right:
  assumes "plain_comps dirs"
  shows "all_of sep (replicate s sep @ sep_join dirs) \<or>
         strip_right (\<lambda>c. c = sep) (replicate s sep @ sep_join dirs) =
           replicate s sep @ sep_join dirs"
proof (cases "dirs = []")
  case True
  then show ?thesis by simp
next
  case False
  from sep_join_plain_last [OF assms this] show ?thesis
    by (simp add: strip_right_id)
qed

lemma sep_join_append:
  "as \<noteq> [] \<Longrightarrow> bs \<noteq> [] \<Longrightarrow> sep_join (as @ bs) = sep_join as @ sep # sep_join bs"
  by (induction as rule: sep_join.induct) (simp_all add: sep_join_Cons)

lemma os_path_join_normal:
  assumes "plain_comps dirs" and "plain_comps names" and "names \<noteq> []" and "0 < s"
  shows "os_path_join (replicate s sep @ sep_join dirs) [sep_join names] =
           replicate s sep @ sep_join (dirs @ names)"
proof -
  from assms(2) have "\<not> startswith_sep (sep_join names)"
    by (intro sep_join_relative) (simp add: plain_comps_def)
  with assms(3) show ?thesis
    by (simp add: normal_no_trailing_sep [OF assms(1,4)] sep_join_append
        del: os_path_join.simps)
qed

section \<open>Relative paths in normal form\<close>

text \<open>
  A relative path in normal form is a run of \<open>..\<close> followed by plain components, or \<open>.\<close>
  when nothing is left. \<open>os_path_normpath\<close> brings every relative path into this form and
  leaves a path of this form alone, so it is idempotent on all paths.
\<close>

lemma rel_normal_iff:
  "rel_normal comps \<longleftrightarrow> (\<exists>k plain. comps = updirs k @ plain \<and> plain_comps plain)"
proof
  assume "rel_normal comps"
  moreover have "takeWhile (\<lambda>c. c = ''..'') comps =
      updirs (length (takeWhile (\<lambda>c. c = ''..'') comps))"
    unfolding updirs_def by (rule replicate_length_same [symmetric]) (auto dest: set_takeWhileD)
  then have "comps = updirs (length (takeWhile (\<lambda>c. c = ''..'') comps)) @
      dropWhile (\<lambda>c. c = ''..'') comps"
    by (metis takeWhile_dropWhile_id)
  ultimately show "\<exists>k plain. comps = updirs k @ plain \<and> plain_comps plain"
    unfolding rel_normal_def by blast
next
  assume "\<exists>k plain. comps = updirs k @ plain \<and> plain_comps plain"
  then obtain k plain where comps: "comps = updirs k @ plain" and plain: "plain_comps plain"
    by blast
  from plain have "dropWhile (\<lambda>c. c = ''..'') plain = plain"
    by (cases plain) simp_all
  with comps plain show "rel_normal comps"
    by (simp add: rel_normal_def updirs_def dropWhile_append)
qed

lemma rel_normal_Nil [simp]: "rel_normal []"
  by (simp add: rel_normal_def)

lemma rel_normal_no_sep:
  assumes "rel_normal comps" and "c \<in> set comps"
  shows "c \<noteq> [] \<and> sep \<notin> set c"
proof -
  from assms(1) obtain k plain where "comps = updirs k @ plain" "plain_comps plain"
    unfolding rel_normal_iff by blast
  with assms(2) consider "c = ''..''" | "c \<in> set plain" "plain_comps plain"
    by (auto simp: updirs_def)
  then show ?thesis
  proof cases
    case 1
    then show ?thesis by simp
  next
    case 2
    then show ?thesis by (simp add: plain_comps_def)
  qed
qed

lemma rel_normal_snoc_plain:
  assumes "rel_normal acc" and "plain_comps [c]"
  shows "rel_normal (acc @ [c])"
proof -
  from assms(1) obtain k plain where "acc = updirs k @ plain" "plain_comps plain"
    by (auto simp: rel_normal_iff)
  with assms(2) have "acc @ [c] = updirs k @ (plain @ [c])" "plain_comps (plain @ [c])"
    by simp_all
  then show ?thesis
    unfolding rel_normal_iff by (intro exI conjI)
qed

lemma rel_normal_snoc_up:
  assumes "rel_normal acc" and "acc = [] \<or> last acc = ''..''"
  shows "rel_normal (acc @ [''..''])"
proof -
  from assms(1) obtain k plain where acc: "acc = updirs k @ plain" "plain_comps plain"
    by (auto simp: rel_normal_iff)
  with assms(2) have "plain = []"
    by (cases plain rule: rev_cases) (auto simp: updirs_def)
  with acc have "acc @ [''..''] = updirs (Suc k) @ []"
    by (simp add: updirs_def replicate_append_same)
  moreover have "plain_comps []" by simp
  ultimately show ?thesis
    unfolding rel_normal_iff by (intro exI conjI)
qed

lemma rel_normal_butlast:
  assumes "rel_normal acc" and "acc \<noteq> []" and "last acc \<noteq> ''..''"
  shows "rel_normal (butlast acc)"
proof -
  from assms(1) obtain k plain where acc: "acc = updirs k @ plain" "plain_comps plain"
    by (auto simp: rel_normal_iff)
  with assms(2,3) have "plain \<noteq> []"
    by (auto simp: updirs_def)
  with acc have "butlast acc = updirs k @ butlast plain" "plain_comps (butlast plain)"
    by (auto simp: butlast_append plain_comps_def dest: in_set_butlastD)
  then show ?thesis
    unfolding rel_normal_iff by (intro exI conjI)
qed

lemma norm_comps_relative:
  assumes "\<forall>c \<in> set comps. sep \<notin> set c" and "rel_normal acc"
  shows "rel_normal (norm_comps 0 comps acc)"
  using assms
proof (induction comps arbitrary: acc)
  case Nil
  then show ?case by simp
next
  case (Cons c comps)
  from Cons.prems(1) have rest: "\<forall>c \<in> set comps. sep \<notin> set c" by simp
  define skip where "skip \<longleftrightarrow> c = [] \<or> c = ''.''"
  define up where "up \<longleftrightarrow> c = ''..''"
  define top where "top \<longleftrightarrow> acc = [] \<or> last acc = ''..''"
  have step: "norm_comps 0 (c # comps) acc =
      norm_comps 0 comps
        (if skip then acc else if \<not> up \<or> top then acc @ [c] else butlast acc)"
    by (auto simp: skip_def up_def top_def)
  have "rel_normal (if skip then acc else if \<not> up \<or> top then acc @ [c] else butlast acc)"
  proof (cases skip)
    case True
    with Cons.prems(2) show ?thesis by simp
  next
    case False
    show ?thesis
    proof (cases up)
      case True
      with rel_normal_snoc_up [OF Cons.prems(2)] rel_normal_butlast [OF Cons.prems(2)] False
      show ?thesis by (auto simp: up_def top_def)
    next
      case False
      with \<open>\<not> skip\<close> Cons.prems(1) have "plain_comps [c]"
        by (simp add: skip_def up_def)
      from rel_normal_snoc_plain [OF Cons.prems(2) this] False \<open>\<not> skip\<close> show ?thesis by simp
    qed
  qed
  with Cons.IH [OF rest] show ?case
    by (simp only: step)
qed

lemma norm_comps_updirs: "norm_comps 0 (updirs k) (updirs j) = updirs (j + k)"
proof (induction k arbitrary: j)
  case 0
  show ?case by (simp add: updirs_def)
next
  case (Suc k)
  have "updirs j = [] \<or> last (updirs j) = ''..''"
    by (cases j) (simp_all add: updirs_def)
  moreover have "updirs j @ [''..''] = updirs (Suc j)"
    by (simp add: updirs_def replicate_append_same)
  ultimately show ?case
    using Suc [of "Suc j"] by (auto simp: updirs_def)
qed

lemma norm_comps_rel_normal:
  assumes "rel_normal comps"
  shows "norm_comps 0 comps [] = comps"
proof -
  from assms obtain k plain where comps: "comps = updirs k @ plain" "plain_comps plain"
    by (auto simp: rel_normal_iff)
  have "norm_comps 0 (cs @ ds) acc = norm_comps 0 ds (norm_comps 0 cs acc)" for cs ds acc
    by (induction cs arbitrary: acc) simp_all
  with comps norm_comps_updirs [of k 0] show ?thesis
    by (simp add: norm_comps_plain updirs_def)
qed

lemma os_path_normpath_relative:
  assumes "\<not> startswith_sep p"
  shows "os_path_normpath p =
           (let comps = norm_comps 0 (split_sep p) [] in if comps = [] then ''.'' else sep_join comps)"
proof -
  have "sep_join comps = [] \<longleftrightarrow> comps = []" if "rel_normal comps" for comps
    using that rel_normal_no_sep [of comps]
    by (cases comps rule: sep_join.cases) auto
  moreover have "rel_normal (norm_comps 0 (split_sep p) [])"
    by (intro norm_comps_relative) (simp_all add: split_sep_no_sep)
  moreover have "norm_comps 0 (split_sep []) [] = []" by simp
  ultimately show ?thesis
    using assms by (auto simp: os_path_normpath_def Let_def initial_slashes_zero)
qed

lemma os_path_normpath_idem_relative:
  assumes "\<not> startswith_sep p"
  shows "os_path_normpath (os_path_normpath p) = os_path_normpath p"
proof -
  let ?N = "norm_comps 0 (split_sep p) []"
  have normal: "rel_normal ?N"
    by (intro norm_comps_relative) (simp_all add: split_sep_no_sep)
  show ?thesis
  proof (cases "?N = []")
    case True
    with assms have "os_path_normpath p = ''.''"
      by (simp add: os_path_normpath_relative)
    then show ?thesis
      by (simp add: os_path_normpath_def initial_slashes_def)
  next
    case False
    with assms have p: "os_path_normpath p = sep_join ?N"
      by (simp add: os_path_normpath_relative)
    from normal have rel: "\<not> startswith_sep (sep_join ?N)"
      by (intro sep_join_relative) (auto dest: rel_normal_no_sep)
    from normal False have "split_sep (sep_join ?N) = ?N"
      by (intro split_sep_join) (auto dest: rel_normal_no_sep)
    with normal False show ?thesis
      by (simp add: p os_path_normpath_relative [OF rel] norm_comps_rel_normal)
  qed
qed

lemma os_path_normpath_idempotent:
  "os_path_normpath (os_path_normpath p) = os_path_normpath p"
  by (cases "startswith_sep p") (simp_all add: os_path_normpath_idem os_path_normpath_idem_relative)

end
