(* ===== verification/Resource_Path.thy ===== *)
theory Resource_Path
  imports Os_Path
begin

text \<open>
  The resource resolver of \<open>src/main.py\<close> (lines 17 to 29) and what it reads of the
  process it runs in.

  \<open>runtime\<close> is that part of the interpreter's state: \<open>meipass\<close> is \<open>sys._MEIPASS\<close>, with
  \<open>None\<close> when \<open>hasattr(sys, '_MEIPASS')\<close> is false (the program runs from its sources);
  \<open>module_file\<close> is \<open>__file__\<close>; \<open>getcwd\<close> is what \<open>os.getcwd()\<close> returns, which
  \<open>os.path.abspath\<close> reads; \<open>existing\<close> is the set of paths for which \<open>os.path.exists\<close>
  is true; \<open>argv\<close> is \<open>sys.argv\<close>.

  \<open>get_resource_path\<close> is the function of that name, \<open>base_path\<close> its local variable of
  that name (the branch on the run mode), \<open>icon_relative_path\<close> the argument both of its
  callers pass. The lemmas give the result in each of the two run modes,
  show that it is absolute whenever the base directory is, that with the script at a
  path in normal form the resource lies beside the script, and that an absolute
  argument is returned as it is, whatever the base directory. For a run from the
  sources they show the base directory in normal form, whatever the spelling of
  \<open>__file__\<close>, and the directory part of a resolved name to be the base directory.
\<close>

section \<open>The process environment\<close>

record runtime =
  meipass :: "pystr option"
  module_file :: pystr
  getcwd :: pystr
  existing :: "pystr set"
  argv :: "pystr list"

definition os_path_exists :: "runtime \<Rightarrow> pystr \<Rightarrow> bool" where
  "os_path_exists rt path \<longleftrightarrow> path \<in> existing rt"

section \<open>The resolver\<close>

definition base_path :: "runtime \<Rightarrow> pystr" where
  "base_path rt =
     (case meipass rt of
        Some d \<Rightarrow> d
      | None \<Rightarrow> os_path_dirname (os_path_abspath (getcwd rt) (module_file rt)))"

definition get_resource_path :: "runtime \<Rightarrow> pystr \<Rightarrow> pystr" where
  "get_resource_path rt relative_path = os_path_join (base_path rt) [relative_path]"

definition icon_relative_path :: pystr where
  "icon_relative_path = os_path_join ''resources'' [''icon.ico'']"

lemmas resource_defs [model_defs] =
  base_path_def get_resource_path_def icon_relative_path_def os_path_exists_def

section \<open>The two run modes\<close>

lemma icon_relative_path_eq: "icon_relative_path = ''resources/icon.ico''"
  by (simp add: icon_relative_path_def endswith_sep_def)

lemma icon_relative_path_relative [simp]: "\<not> startswith_sep icon_relative_path"
  by (simp add: icon_relative_path_eq)

lemma base_path_packaged [simp]: "meipass rt = Some d \<Longrightarrow> base_path rt = d"
  by (simp add: base_path_def)

lemma base_path_source:
  "meipass rt = None \<Longrightarrow>
   base_path rt = os_path_dirname (os_path_abspath (getcwd rt) (module_file rt))"
  by (simp add: base_path_def)

lemma base_path_frame [frame]:
  "base_path (rt\<lparr>existing := e\<rparr>) = base_path rt"
  "base_path (rt\<lparr>argv := a\<rparr>) = base_path rt"
  by (simp_all add: base_path_def split: option.splits)

lemma get_resource_path_frame [frame]:
  "get_resource_path (rt\<lparr>existing := e\<rparr>) rel = get_resource_path rt rel"
  "get_resource_path (rt\<lparr>argv := a\<rparr>) rel = get_resource_path rt rel"
  by (simp_all add: get_resource_path_def frame)

section \<open>Absolute results\<close>

lemma dir_head_isabs: "startswith_sep p \<Longrightarrow> startswith_sep (dir_head p)"
  by (cases p) (simp_all add: dir_head_def strip_right_Cons)

lemma strip_right_isabs:
  "startswith_sep p \<Longrightarrow> \<not> all_of sep p \<Longrightarrow> startswith_sep (strip_right (\<lambda>c. c = sep) p)"
  by (cases p) (simp_all add: strip_right_Cons strip_right_all_of)

lemma os_path_dirname_isabs:
  assumes "os_path_isabs p"
  shows "os_path_isabs (os_path_dirname p)"
proof -
  from assms have "startswith_sep (dir_head p)"
    by (simp add: os_path_isabs_def dir_head_isabs)
  then show ?thesis
    by (auto simp: os_path_dirname_def os_path_isabs_def Let_def intro: strip_right_isabs)
qed

lemma os_path_join_isabs: "os_path_isabs base \<Longrightarrow> os_path_isabs (os_path_join base [rel])"
  by (cases base) (auto simp: os_path_isabs_def)

lemma base_path_isabs:
  "(case meipass rt of Some d \<Rightarrow> os_path_isabs d | None \<Rightarrow> os_path_isabs (getcwd rt)) \<Longrightarrow>
   os_path_isabs (base_path rt)"
  by (auto simp: base_path_def os_path_dirname_isabs os_path_abspath_isabs split: option.splits)

section \<open>Beside the script\<close>

lemma resource_beside_script:
  assumes "meipass rt = None"
    and "module_file rt = sep # sep_join (dirs @ [name])"
    and "plain_comps (dirs @ [name])"
    and "\<not> startswith_sep rel"
  shows "get_resource_path rt rel =
           (if dirs = [] then sep # rel else sep # sep_join dirs @ sep # rel)"
proof -
  from assms(2,3) have "os_path_abspath (getcwd rt) (module_file rt) = module_file rt"
    by (simp add: os_path_abspath_def os_path_isabs_def os_path_normpath_plain)
  with assms(1-3) have "base_path rt = sep # sep_join dirs"
    by (simp add: base_path_source os_path_dirname_plain)
  with assms(3,4) show ?thesis
    by (simp add: get_resource_path_def os_path_join_plain del: os_path_join.simps)
qed

section \<open>Normal form\<close>

lemma base_path_source_shape:
  assumes "meipass rt = None" and "os_path_isabs (getcwd rt)"
  shows "\<exists>s dirs. (s = 1 \<or> s = 2) \<and> plain_comps dirs \<and>
           base_path rt = replicate s sep @ sep_join dirs"
proof -
  let ?q = "if \<not> os_path_isabs (module_file rt)
            then os_path_join (getcwd rt) [module_file rt] else module_file rt"
  from assms(2) have "startswith_sep ?q"
    using os_path_join_isabs [of "getcwd rt" "module_file rt"]
    by (auto simp: os_path_isabs_def simp del: os_path_join.simps)
  from os_path_normpath_dirname [OF this] assms(1) show ?thesis
    by (simp add: base_path_def os_path_abspath_def)
qed

lemma icon_relative_path_comps: "icon_relative_path = sep_join [''resources'', ''icon.ico'']"
  by (simp add: icon_relative_path_eq)

text \<open>
  What follows from a base directory in normal form, in either run mode.
\<close>

lemma resource_normal:
  assumes s: "s = 1 \<or> s = 2" and dirs: "plain_comps dirs"
    and base: "base_path rt = replicate s sep @ sep_join dirs"
  shows "sep \<notin> set name \<Longrightarrow> os_path_dirname (get_resource_path rt name) = base_path rt"
    and "os_path_dirname (os_path_dirname (get_resource_path rt icon_relative_path)) =
           base_path rt"
    and "os_path_normpath (get_resource_path rt icon_relative_path) =
           get_resource_path rt icon_relative_path"
proof -
  from s have pos: "0 < s" by auto
  show "os_path_dirname (get_resource_path rt name) = base_path rt" if "sep \<notin> set name"
    using normal_strip_right [OF dirs, of s]
    by (auto simp: get_resource_path_def base os_path_dirname_join [OF that]
        simp del: os_path_join.simps)
  have icon: "get_resource_path rt icon_relative_path =
      replicate s sep @ sep_join (dirs @ [''resources'', ''icon.ico''])"
    unfolding get_resource_path_def base icon_relative_path_comps
    by (rule os_path_join_normal [OF dirs _ _ pos]) simp_all
  show "os_path_dirname (os_path_dirname (get_resource_path rt icon_relative_path)) =
      base_path rt"
    using os_path_dirname_normal [OF _ _ pos, of "dirs @ [''resources'']" "''icon.ico''"]
      os_path_dirname_normal [OF dirs _ pos, of "''resources''"] dirs
    by (simp add: icon base)
  show "os_path_normpath (get_resource_path rt icon_relative_path) =
      get_resource_path rt icon_relative_path"
    unfolding icon using dirs s by (intro os_path_normpath_normal) simp_all
qed

lemma os_path_abspath_idem:
  assumes "os_path_isabs cwd"
  shows "os_path_abspath cwd (os_path_abspath cwd p) = os_path_abspath cwd p"
proof -
  let ?q = "if \<not> os_path_isabs p then os_path_join cwd [p] else p"
  from assms have "startswith_sep ?q"
    using os_path_join_isabs [of cwd p]
    by (auto simp: os_path_isabs_def simp del: os_path_join.simps)
  then have "os_path_normpath (os_path_normpath ?q) = os_path_normpath ?q"
    by (rule os_path_normpath_idem)
  moreover from assms have "os_path_isabs (os_path_abspath cwd p)"
    by (rule os_path_abspath_isabs)
  ultimately show ?thesis
    by (simp add: os_path_abspath_def)
qed

section \<open>Properties of the resolver\<close>

definition example_packaged :: runtime where
  "example_packaged =
     \<lparr>meipass = Some ''/tmp/_MEI7'', module_file = ''/tmp/_MEI7/main.py'', getcwd = ''/home/u'',
      existing = {''/tmp/_MEI7/resources/icon.ico''}, argv = [''main'']\<rparr>"

definition example_source :: runtime where
  "example_source =
     \<lparr>meipass = None, module_file = ''/home/u/app/main.py'', getcwd = ''/home/u'',
      existing = {}, argv = [''main.py'']\<rparr>"

lemmas example_defs [model_defs] = example_packaged_def example_source_def

text \<open>
  C3: For a relative argument the result of \<open>get_resource_path\<close> is rooted at the base
  directory of the run mode and ends with the argument: the base directory is a prefix
  of the result and the argument a suffix of it. In a packaged run the base directory is
  \<open>sys._MEIPASS\<close>, in a run from the sources it is the directory of the absolute path
  of \<open>__file__\<close>.
\<close>

theorem get_resource_path_rooted:
  assumes "\<not> startswith_sep rel"
  shows "prefix (base_path rt) (get_resource_path rt rel) \<and>
         suffix rel (get_resource_path rt rel) \<and>
         base_path rt =
           (case meipass rt of
              Some d \<Rightarrow> d
            | None \<Rightarrow> os_path_dirname (os_path_abspath (getcwd rt) (module_file rt)))"
  using os_path_join_relative [OF assms, of "base_path rt"]
  by (simp add: get_resource_path_def base_path_def)

theorem get_resource_path_rooted_witness:
  "\<not> startswith_sep icon_relative_path \<and>
   prefix ''/tmp/_MEI7'' (get_resource_path example_packaged icon_relative_path) \<and>
   suffix icon_relative_path (get_resource_path example_packaged icon_relative_path)"
  using get_resource_path_rooted [of icon_relative_path example_packaged]
  by (simp add: example_packaged_def)

text \<open>
  C27: When the script lies at a path in normal form, \<open>/dir1/.../dirn/name\<close>, a run from
  the sources resolves a relative resource name to the file of that name beside the
  script: \<open>/dir1/.../dirn/rel\<close>, and \<open>/rel\<close> for a script in the root directory. The
  current directory plays no part.
\<close>

theorem get_resource_path_beside_script:
  assumes "meipass rt = None"
    and "module_file rt = sep # sep_join (dirs @ [name])"
    and "plain_comps (dirs @ [name])"
    and "\<not> startswith_sep rel"
  shows "get_resource_path rt rel =
           (if dirs = [] then sep # rel else sep # sep_join dirs @ sep # rel)"
  using assms by (rule resource_beside_script)

theorem get_resource_path_beside_script_witness:
  "get_resource_path example_source icon_relative_path = ''/home/u/app/resources/icon.ico''"
  using get_resource_path_beside_script
    [of example_source "[''home'', ''u'', ''app'']" "''main.py''" icon_relative_path]
  by (simp add: example_source_def icon_relative_path_eq)

text \<open>
  In a packaged run the result is the bundle directory, a separator unless the
  directory is empty or already ends with one, and the relative argument; neither
  \<open>__file__\<close> nor the current directory is read.
\<close>

lemma get_resource_path_bundle:
  assumes "meipass rt = Some d" and "\<not> startswith_sep rel"
  shows "get_resource_path (rt\<lparr>module_file := f, getcwd := c\<rparr>) rel =
           (if d = [] \<or> endswith_sep d then d @ rel else d @ sep # rel)"
  using assms by (simp add: get_resource_path_def base_path_def)

text \<open>
  C39: The result is an absolute path whenever the base directory is: in a packaged run
  when \<open>sys._MEIPASS\<close> is absolute, in a run from the sources when the current
  directory is (as \<open>os.getcwd()\<close> always is).
\<close>

theorem get_resource_path_absolute:
  assumes "case meipass rt of Some d \<Rightarrow> os_path_isabs d | None \<Rightarrow> os_path_isabs (getcwd rt)"
  shows "os_path_isabs (get_resource_path rt rel)"
  using assms by (simp add: get_resource_path_def base_path_isabs os_path_join_isabs
      del: os_path_join.simps)

theorem get_resource_path_absolute_witness:
  "os_path_isabs (get_resource_path (example_source\<lparr>module_file := ''main.py''\<rparr>) ''icon.ico'')"
  using get_resource_path_absolute [of "example_source\<lparr>module_file := ''main.py''\<rparr>" "''icon.ico''"]
  by (simp add: example_source_def os_path_isabs_def)

text \<open>
  C40: An argument that is itself absolute is returned unchanged in either run mode: the
  base directory is dropped, so the resolver confines nothing to the resource
  directory.
\<close>

theorem get_resource_path_absolute_argument:
  assumes "startswith_sep rel"
  shows "get_resource_path rt rel = rel"
  using assms by (simp add: get_resource_path_def)

theorem get_resource_path_absolute_argument_witness:
  "get_resource_path example_packaged ''/etc/passwd'' = ''/etc/passwd''"
  using get_resource_path_absolute_argument [of "''/etc/passwd''" example_packaged]
  by simp

text \<open>
  C28: In a run from the sources, started in a directory with an absolute name, the
  base directory is an absolute path in normal form: \<open>os.path.normpath\<close> leaves it as it
  is, and it ends with a separator only if it consists of separators.
\<close>

theorem base_path_normal:
  assumes "meipass rt = None" and "os_path_isabs (getcwd rt)"
  shows "os_path_normpath (base_path rt) = base_path rt \<and>
         os_path_isabs (base_path rt) \<and>
         (endswith_sep (base_path rt) \<longrightarrow> all_of sep (base_path rt))"
proof -
  from base_path_source_shape [OF assms] obtain s dirs where
    shape: "s = 1 \<or> s = 2" "plain_comps dirs" "base_path rt = replicate s sep @ sep_join dirs"
    by blast
  then have "os_path_normpath (base_path rt) = base_path rt"
    by (simp only: os_path_normpath_normal)
  moreover from assms have "os_path_isabs (base_path rt)"
    by (simp add: base_path_isabs)
  moreover from shape have "all_of sep (base_path rt)" if "endswith_sep (base_path rt)"
    using that normal_endswith_sep [of dirs s] by auto
  ultimately show ?thesis by blast
qed

theorem base_path_normal_witness:
  "os_path_normpath (base_path (example_source\<lparr>module_file := ''app/../main.py''\<rparr>)) =
     base_path (example_source\<lparr>module_file := ''app/../main.py''\<rparr>) \<and>
   os_path_isabs (base_path (example_source\<lparr>module_file := ''app/../main.py''\<rparr>))"
  using base_path_normal [of "example_source\<lparr>module_file := ''app/../main.py''\<rparr>"]
  by (simp add: example_source_def os_path_isabs_def)

text \<open>
  C29: In a run from the sources, started in a directory with an absolute name, the
  directory part of a resolved file name is the base directory again; the resolved
  path of the icon is in normal form and lies two levels below the base directory.
\<close>

theorem resource_dirname_roundtrip:
  assumes "meipass rt = None" and "os_path_isabs (getcwd rt)"
  shows "(sep \<notin> set name \<longrightarrow> os_path_dirname (get_resource_path rt name) = base_path rt) \<and>
         os_path_dirname (os_path_dirname (get_resource_path rt icon_relative_path)) =
           base_path rt \<and>
         os_path_normpath (get_resource_path rt icon_relative_path) =
           get_resource_path rt icon_relative_path"
proof -
  from base_path_source_shape [OF assms] obtain s dirs where
    "s = 1 \<or> s = 2" "plain_comps dirs" "base_path rt = replicate s sep @ sep_join dirs"
    by blast
  from resource_normal [OF this] show ?thesis by blast
qed

theorem resource_dirname_roundtrip_witness:
  "os_path_dirname (get_resource_path example_source ''icon.ico'') = base_path example_source \<and>
   os_path_dirname (os_path_dirname (get_resource_path example_source icon_relative_path)) =
     base_path example_source"
  using resource_dirname_roundtrip [of example_source "''icon.ico''"]
  by (simp add: example_source_def os_path_isabs_def)

text \<open>
  C30: The spelling of \<open>__file__\<close> makes no difference. In a run from the sources,
  started in a directory with an absolute name, the base directory and every resolved
  path are the same whether \<open>__file__\<close> holds the script's name as it was given on the
  command line or its absolute path, as it does from Python 3.9 on.
\<close>

theorem base_path_file_spelling:
  assumes "meipass rt = None" and "os_path_isabs (getcwd rt)"
  shows "base_path (rt\<lparr>module_file := os_path_abspath (getcwd rt) (module_file rt)\<rparr>) =
           base_path rt \<and>
         get_resource_path (rt\<lparr>module_file := os_path_abspath (getcwd rt) (module_file rt)\<rparr>) rel =
           get_resource_path rt rel"
  using assms by (simp add: get_resource_path_def base_path_def os_path_abspath_idem)

theorem base_path_file_spelling_witness:
  "base_path (example_source\<lparr>module_file := ''app/main.py''\<rparr>) = base_path example_source"
proof -
  have "os_path_abspath ''/home/u'' ''app/main.py'' = ''/home/u/app/main.py''"
    using os_path_normpath_plain [of "[''home'', ''u'', ''app'', ''main.py'']"]
    by (simp add: os_path_abspath_def os_path_isabs_def endswith_sep_def)
  with base_path_file_spelling [of "example_source\<lparr>module_file := ''app/main.py''\<rparr>"]
  show ?thesis
    by (simp add: example_source_def os_path_isabs_def)
qed

text \<open>
  C31: In a packaged run with \<open>sys._MEIPASS\<close> an absolute path in normal form, the
  resolved path of the icon is absolute and in normal form, and lies two levels below
  the bundle directory.
\<close>

theorem bundle_path_normal:
  assumes "meipass rt = Some d" and "os_path_isabs d" and "os_path_normpath d = d"
  shows "os_path_normpath (get_resource_path rt icon_relative_path) =
           get_resource_path rt icon_relative_path \<and>
         os_path_isabs (get_resource_path rt icon_relative_path) \<and>
         os_path_dirname (os_path_dirname (get_resource_path rt icon_relative_path)) = d"
proof -
  from assms(2) have abs: "startswith_sep d"
    by (simp add: os_path_isabs_def)
  from os_path_normpath_shape [OF abs] assms(3) obtain comps where
    "plain_comps comps" "d = replicate (initial_slashes d) sep @ sep_join comps"
    by auto
  with assms(1) initial_slashes_range [OF abs]
  have shape: "initial_slashes d = 1 \<or> initial_slashes d = 2" "plain_comps comps"
    "base_path rt = replicate (initial_slashes d) sep @ sep_join comps"
    by simp_all
  from assms(1,2) have "os_path_isabs (get_resource_path rt icon_relative_path)"
    by (simp add: get_resource_path_def os_path_join_isabs del: os_path_join.simps)
  with resource_normal(2,3) [OF shape] assms(1) show ?thesis by simp
qed

theorem bundle_path_normal_witness:
  "os_path_normpath (get_resource_path example_packaged icon_relative_path) =
     get_resource_path example_packaged icon_relative_path \<and>
   os_path_dirname (os_path_dirname (get_resource_path example_packaged icon_relative_path)) =
     ''/tmp/_MEI7''"
proof -
  have "os_path_normpath ''/tmp/_MEI7'' = ''/tmp/_MEI7''"
    using os_path_normpath_plain [of "[''tmp'', ''_MEI7'']"] by simp
  with bundle_path_normal [of example_packaged "''/tmp/_MEI7''"] show ?thesis
    by (simp add: example_packaged_def os_path_isabs_def)
qed

end
