(* ===== verification/Plotter.thy ===== *)
theory Plotter
  imports MCM_Prelude
begin

text \<open>
  The canvas: the PyVista plotter that \<open>pyvistaqt.QtInteractor\<close> embeds in the window.
  It is library code; its state and the meaning of its calls follow the specification's
  data model: the scene is the actors on display (meshes and texts), whether the axis
  indicator is shown, the background colour, the camera, and whether the rendering
  resources have been released.

  \<open>pv_call\<close> lists the methods \<open>src/main.py\<close> calls on \<open>self.plotter\<close>, with the
  arguments it passes, and the one change the plotter makes to the scene without a call
  of the program: \<open>MoveCamera\<close>, the movement by which its interactor answers the mouse
  on the canvas. \<open>pv_exec\<close> is the effect of one call and \<open>pv_run\<close> of a sequence of
  calls, in order. A handler of the window is then a list of calls, and what it does to
  the scene is the run of that list.
  \<^item> \<open>Clear\<close> removes every actor and the axis indicator; background and camera stay.
  \<^item> \<open>AddMesh\<close> and \<open>AddText\<close> add one actor after those present.
  \<^item> \<open>ResetCamera\<close> frames the datasets of the meshes on display.
  \<^item> \<open>MoveCamera\<close> leaves the camera where the user put it (\<open>CameraMoved\<close>); the position
    itself is not modelled, since no code of the program reads it.
  \<^item> \<open>Close\<close> releases the rendering resources. Calls on a closed plotter are given no
    meaning of their own (they update the record like any other): the development
    shows that the program issues none.
  A float literal of the source is the real number it denotes.

  The lemmas: what a run leaves unchanged, when a run closes the plotter, and that a
  run beginning with \<open>Clear\<close> forgets the actors and the axis indicator it started from.
\<close>

section \<open>The scene\<close>

datatype polydata = Sphere real

datatype actor =
    MeshActor polydata pystr bool bool real
  | TextActor pystr pystr pystr

datatype camera = CameraUnset | CameraFramed "polydata list" | CameraMoved

record scene =
  actors :: "actor list"
  axes :: bool
  background :: "pystr option"
  camera :: camera
  closed :: bool

fun datasets :: "actor list \<Rightarrow> polydata list" where
  "datasets [] = []"
| "datasets (MeshActor d c e p o' # as) = d # datasets as"
| "datasets (TextActor t pos c # as) = datasets as"

fun captions :: "actor list \<Rightarrow> pystr list" where
  "captions [] = []"
| "captions (MeshActor d c e p o' # as) = captions as"
| "captions (TextActor t pos c # as) = t # captions as"

definition mesh_count :: "scene \<Rightarrow> nat" where
  "mesh_count s = length (datasets (actors s))"

section \<open>The calls\<close>

datatype pv_call =
    Clear
  | AddAxes
  | SetBackground pystr
  | AddMesh polydata pystr bool bool real
  | AddText pystr pystr pystr
  | ResetCamera
  | MoveCamera
  | Close

fun pv_exec :: "pv_call \<Rightarrow> scene \<Rightarrow> scene" where
  "pv_exec Clear s = s\<lparr>actors := [], axes := False\<rparr>"
| "pv_exec AddAxes s = s\<lparr>axes := True\<rparr>"
| "pv_exec (SetBackground c) s = s\<lparr>background := Some c\<rparr>"
| "pv_exec (AddMesh d c e p o') s = s\<lparr>actors := actors s @ [MeshActor d c e p o']\<rparr>"
| "pv_exec (AddText t pos c) s = s\<lparr>actors := actors s @ [TextActor t pos c]\<rparr>"
| "pv_exec ResetCamera s = s\<lparr>camera := CameraFramed (datasets (actors s))\<rparr>"
| "pv_exec MoveCamera s = s\<lparr>camera := CameraMoved\<rparr>"
| "pv_exec Close s = s\<lparr>closed := True\<rparr>"

abbreviation pv_run :: "pv_call list \<Rightarrow> scene \<Rightarrow> scene" where
  "pv_run \<equiv> fold pv_exec"

text \<open>\<open>QtInteractor(parent)\<close>: a fresh plotter, nothing on display, theme defaults.\<close>

definition QtInteractor :: scene where
  "QtInteractor =
     \<lparr>actors = [], axes = False, background = None, camera = CameraUnset, closed = False\<rparr>"

lemmas plotter_defs [model_defs] = QtInteractor_def mesh_count_def

section \<open>Actors\<close>

lemma datasets_append [simp]: "datasets (as @ bs) = datasets as @ datasets bs"
  by (induction as rule: datasets.induct) simp_all

lemma captions_append [simp]: "captions (as @ bs) = captions as @ captions bs"
  by (induction as rule: captions.induct) simp_all

lemma length_datasets_captions: "length (datasets as) + length (captions as) = length as"
  by (induction as rule: datasets.induct) simp_all

section \<open>What a run changes\<close>

lemma closed_pv_exec [simp]: "closed (pv_exec c s) \<longleftrightarrow> closed s \<or> c = Close"
  by (cases c) simp_all

lemma closed_pv_run [simp]: "closed (pv_run cs s) \<longleftrightarrow> closed s \<or> Close \<in> set cs"
  by (induction cs arbitrary: s) auto

lemma background_pv_exec:
  "background (pv_exec c s) = (case c of SetBackground b \<Rightarrow> Some b | _ \<Rightarrow> background s)"
  by (cases c) simp_all

lemma background_pv_run_keep [frame]:
  "\<forall>b. SetBackground b \<notin> set cs \<Longrightarrow> background (pv_run cs s) = background s"
  by (induction cs arbitrary: s) (auto simp: background_pv_exec split: pv_call.splits)

lemma camera_pv_run_keep [frame]:
  "ResetCamera \<notin> set cs \<Longrightarrow> MoveCamera \<notin> set cs \<Longrightarrow> camera (pv_run cs s) = camera s"
proof (induction cs arbitrary: s)
  case Nil
  then show ?case by simp
next
  case (Cons c cs)
  then show ?case by (cases c) simp_all
qed

lemma pv_exec_Clear_forgets [simp]: "pv_exec Clear (s\<lparr>actors := a, axes := x\<rparr>) = pv_exec Clear s"
  by simp

lemma pv_run_Clear_forgets:
  "pv_run (Clear # cs) (s\<lparr>actors := a, axes := x\<rparr>) = pv_run (Clear # cs) s"
  by simp

text \<open>
  A scene is determined by its five fields; two scenes that agree on background, camera
  and closed become equal after the same run beginning with \<open>Clear\<close> and holding a
  \<open>ResetCamera\<close> or a \<open>MoveCamera\<close>.
\<close>

lemma pv_exec_camera_irrelevant:
  "pv_exec c (s\<lparr>camera := k\<rparr>) =
     (if c = ResetCamera \<or> c = MoveCamera then pv_exec c s else (pv_exec c s)\<lparr>camera := k\<rparr>)"
  by (cases c) simp_all

lemma pv_run_camera_irrelevant:
  "ResetCamera \<in> set cs \<or> MoveCamera \<in> set cs \<Longrightarrow> pv_run cs (s\<lparr>camera := k\<rparr>) = pv_run cs s"
proof (induction cs arbitrary: s)
  case Nil
  then show ?case by simp
next
  case (Cons c cs)
  show ?case
  proof (cases "c = ResetCamera \<or> c = MoveCamera")
    case True
    then show ?thesis by auto
  next
    case False
    with Cons.prems have in_cs: "ResetCamera \<in> set cs \<or> MoveCamera \<in> set cs" by auto
    from False have "pv_exec c (s\<lparr>camera := k\<rparr>) = (pv_exec c s)\<lparr>camera := k\<rparr>"
      by (simp add: pv_exec_camera_irrelevant)
    with Cons.IH [OF in_cs] show ?thesis by simp
  qed
qed

end
