(* ===== verification/Qt_Widgets.thy ===== *)
theory Qt_Widgets
  imports MCM_Prelude
begin

text \<open>
  The Qt objects the program creates and the calls it makes on them. Qt is library
  code; the model keeps what the program sets and what decides which handler a click
  runs.

  Every widget and every layout is a \<open>qobject\<close> in the list \<open>objects\<close> of the window; an
  object is named by its index in that list, which is what a Python variable holding it
  stands for. An object records its class, its text (labels and buttons), the size
  constraints, frame shape and alignment the program sets (\<open>None\<close>: left at the
  default), the layout installed on it (widgets), the items added to it (layouts) and
  the slots connected to its signal \<open>clicked\<close>, in the order of connection. The type of
  slots is a parameter: the window class supplies its own handlers.

  \<open>qmainwindow\<close> is the state of a \<open>QMainWindow\<close>: the objects below it, its title, size,
  icon (the path the \<open>QIcon\<close> was made from), central widget and visibility. A subclass
  extends this record, and the operations below work on every extension.

  The operations are actions of the state monad over the window, so that a constructor
  returns the new object's name as Python's does: \<open>new_object\<close> appends an object,
  \<open>modify_object\<close> changes one in place (nothing happens for a name that denotes no
  object, which the program never produces). The methods of the Qt classes are
  abbreviations of these two with the field they write.

  \<open>wf_objects\<close> is the invariant of the store: its references name objects of the
  store and of the right kind, and no widget is placed twice. The lemmas of the last
  section show that every operation keeps it, the methods that take an object as
  argument under the condition Qt puts on it; they are collected in \<open>inv_keep\<close>.
  \<open>owns\<close> is the ownership between objects that the references induce; in a
  well-formed store it never leaves the store.
\<close>

section \<open>Objects\<close>

datatype qclass =
    QWidget | QFrame | QLabel | QPushButton | QVTKInteractor | QHBoxLayout | QVBoxLayout

datatype frame_shape = NoFrame | Box | Panel | StyledPanel

datatype alignment = AlignLeft | AlignRight | AlignHCenter | AlignCenter

datatype layout_item = WidgetItem nat | StretchItem nat

record 'slot qobject =
  cls :: qclass
  caption :: pystr
  fixed_width :: "nat option"
  fixed_height :: "nat option"
  frame_shape :: "frame_shape option"
  alignment :: "alignment option"
  layout :: "nat option"
  items :: "layout_item list"
  clicked :: "'slot list"

record 'slot qmainwindow =
  objects :: "'slot qobject list"
  window_title :: pystr
  win_size :: "nat \<times> nat"
  window_icon :: "pystr option"
  central_widget :: "nat option"
  visible :: bool

type_synonym ('slot, 'more, 'a) qt = "(('slot, 'more) qmainwindow_scheme, 'a) state"

fun is_layout_class :: "qclass \<Rightarrow> bool" where
  "is_layout_class QHBoxLayout = True"
| "is_layout_class QVBoxLayout = True"
| "is_layout_class _ = False"

text \<open>
  What a layout shows, read off the store: \<open>children\<close> are the items of the layout
  installed on a widget, left to right or top to bottom; \<open>describe\<close> gives class and text
  of the widget behind an item and \<open>None\<close> for a stretch.
\<close>

definition children :: "'slot qobject list \<Rightarrow> nat \<Rightarrow> layout_item list" where
  "children obs i =
     (if i < length obs
      then (case layout (obs ! i) of
              Some l \<Rightarrow> if l < length obs then items (obs ! l) else []
            | None \<Rightarrow> [])
      else [])"

fun describe :: "'slot qobject list \<Rightarrow> layout_item \<Rightarrow> (qclass \<times> pystr) option" where
  "describe obs (WidgetItem i) = Some (cls (obs ! i), caption (obs ! i))"
| "describe obs (StretchItem n) = None"

text \<open>
  A store is well formed when its references make a forest. \<open>widget_ids\<close> are the
  widgets among the items of a layout and \<open>placed\<close> all widgets that are in some layout.
  An object is well formed in a store with classes \<open>cs\<close> when the layout installed on it
  exists, is a layout, and the object is a widget; its items name existing widgets;
  only a layout has items and only a button has slots connected. The store is well
  formed when every object is and no widget is placed twice.
\<close>

fun widget_ids :: "layout_item list \<Rightarrow> nat list" where
  "widget_ids [] = []"
| "widget_ids (WidgetItem i # its) = i # widget_ids its"
| "widget_ids (StretchItem n # its) = widget_ids its"

definition placed :: "'slot qobject list \<Rightarrow> nat list" where
  "placed obs = concat (map (\<lambda>ob. widget_ids (items ob)) obs)"

definition is_widget_at :: "qclass list \<Rightarrow> nat \<Rightarrow> bool" where
  "is_widget_at cs i \<longleftrightarrow> i < length cs \<and> \<not> is_layout_class (cs ! i)"

definition is_layout_at :: "qclass list \<Rightarrow> nat \<Rightarrow> bool" where
  "is_layout_at cs i \<longleftrightarrow> i < length cs \<and> is_layout_class (cs ! i)"

definition wf_object :: "qclass list \<Rightarrow> 'slot qobject \<Rightarrow> bool" where
  "wf_object cs ob \<longleftrightarrow>
     (case layout ob of
        None \<Rightarrow> True
      | Some l \<Rightarrow> is_layout_at cs l \<and> \<not> is_layout_class (cls ob)) \<and>
     list_all (is_widget_at cs) (widget_ids (items ob)) \<and>
     (items ob = [] \<or> is_layout_class (cls ob)) \<and>
     (clicked ob = [] \<or> cls ob = QPushButton)"

definition wf_objects :: "'slot qobject list \<Rightarrow> bool" where
  "wf_objects obs \<longleftrightarrow> list_all (wf_object (map cls obs)) obs \<and> distinct (placed obs)"

text \<open>
  Ownership, read off the store: a widget owns the layout installed on it and, through
  the layout, the widgets among its items. Qt destroys an object with its owner, and
  an object that nothing owns lives only as long as a Python variable holds it.
  \<open>owners\<close> lists the objects that own a given one.
\<close>

definition owns :: "'slot qobject list \<Rightarrow> nat \<Rightarrow> nat \<Rightarrow> bool" where
  "owns obs i j \<longleftrightarrow>
     i < length obs \<and> (layout (obs ! i) = Some j \<or> j \<in> set (widget_ids (items (obs ! i))))"

definition owners :: "'slot qobject list \<Rightarrow> nat \<Rightarrow> nat list" where
  "owners obs j = filter (\<lambda>i. owns obs i j) [0..<length obs]"

section \<open>Construction and update\<close>

definition fresh_object :: "qclass \<Rightarrow> pystr \<Rightarrow> 'slot qobject" where
  "fresh_object c txt =
     \<lparr>cls = c, caption = txt, fixed_width = None, fixed_height = None, frame_shape = None,
      alignment = None, layout = None, items = [], clicked = []\<rparr>"

definition new_object :: "qclass \<Rightarrow> pystr \<Rightarrow> ('slot, 'more, nat) qt" where
  "new_object c txt =
     State (\<lambda>w. (length (objects w), w\<lparr>objects := objects w @ [fresh_object c txt]\<rparr>))"

definition modify_object :: "nat \<Rightarrow> ('slot qobject \<Rightarrow> 'slot qobject) \<Rightarrow> ('slot, 'more, unit) qt" where
  "modify_object i f =
     State (\<lambda>w. ((), if i < length (objects w)
                      then w\<lparr>objects := (objects w)[i := f (objects w ! i)]\<rparr> else w))"

text \<open>\<open>QMainWindow()\<close>: a window with no object below it, hidden, with no title or icon.\<close>

definition QMainWindow :: "'slot qmainwindow" where
  "QMainWindow =
     \<lparr>objects = [], window_title = [], win_size = (0, 0), window_icon = None,
      central_widget = None, visible = False\<rparr>"

section \<open>Methods\<close>

abbreviation setWindowTitle :: "pystr \<Rightarrow> ('slot, 'more, unit) qt" where
  "setWindowTitle t \<equiv> State_Monad.update (\<lambda>w. w\<lparr>window_title := t\<rparr>)"

abbreviation resize :: "nat \<Rightarrow> nat \<Rightarrow> ('slot, 'more, unit) qt" where
  "resize w h \<equiv> State_Monad.update (\<lambda>win. win\<lparr>win_size := (w, h)\<rparr>)"

abbreviation setWindowIcon :: "pystr \<Rightarrow> ('slot, 'more, unit) qt" where
  "setWindowIcon icon_file \<equiv> State_Monad.update (\<lambda>w. w\<lparr>window_icon := Some icon_file\<rparr>)"

abbreviation setCentralWidget :: "nat \<Rightarrow> ('slot, 'more, unit) qt" where
  "setCentralWidget i \<equiv> State_Monad.update (\<lambda>w. w\<lparr>central_widget := Some i\<rparr>)"

abbreviation setLayout :: "nat \<Rightarrow> nat \<Rightarrow> ('slot, 'more, unit) qt" where
  "setLayout i l \<equiv> modify_object i (\<lambda>ob. ob\<lparr>layout := Some l\<rparr>)"

abbreviation setFrameShape :: "nat \<Rightarrow> frame_shape \<Rightarrow> ('slot, 'more, unit) qt" where
  "setFrameShape i sh \<equiv> modify_object i (\<lambda>ob. ob\<lparr>frame_shape := Some sh\<rparr>)"

abbreviation setFixedWidth :: "nat \<Rightarrow> nat \<Rightarrow> ('slot, 'more, unit) qt" where
  "setFixedWidth i n \<equiv> modify_object i (\<lambda>ob. ob\<lparr>fixed_width := Some n\<rparr>)"

abbreviation setFixedHeight :: "nat \<Rightarrow> nat \<Rightarrow> ('slot, 'more, unit) qt" where
  "setFixedHeight i n \<equiv> modify_object i (\<lambda>ob. ob\<lparr>fixed_height := Some n\<rparr>)"

abbreviation setAlignment :: "nat \<Rightarrow> alignment \<Rightarrow> ('slot, 'more, unit) qt" where
  "setAlignment i al \<equiv> modify_object i (\<lambda>ob. ob\<lparr>alignment := Some al\<rparr>)"

abbreviation clicked_connect :: "nat \<Rightarrow> 'slot \<Rightarrow> ('slot, 'more, unit) qt" where
  "clicked_connect i sl \<equiv> modify_object i (\<lambda>ob. ob\<lparr>clicked := clicked ob @ [sl]\<rparr>)"

abbreviation addWidget :: "nat \<Rightarrow> nat \<Rightarrow> ('slot, 'more, unit) qt" where
  "addWidget l i \<equiv> modify_object l (\<lambda>ob. ob\<lparr>items := items ob @ [WidgetItem i]\<rparr>)"

abbreviation addStretch :: "nat \<Rightarrow> ('slot, 'more, unit) qt" where
  "addStretch l \<equiv> modify_object l (\<lambda>ob. ob\<lparr>items := items ob @ [StretchItem 0]\<rparr>)"

lemmas qt_defs [model_defs] = fresh_object_def new_object_def modify_object_def QMainWindow_def

section \<open>Running the operations\<close>

lemma exec_update [simp]: "exec_state (State_Monad.update f) w = f w"
  by (simp add: exec_state_def State_Monad.update_def)

lemma eval_new_object [simp]: "eval_state (new_object c txt) w = length (objects w)"
  by (simp add: new_object_def)

lemma exec_new_object [simp]:
  "exec_state (new_object c txt) w = w\<lparr>objects := objects w @ [fresh_object c txt]\<rparr>"
  by (simp add: new_object_def)

lemma exec_modify_object [simp]:
  "exec_state (modify_object i f) w =
     (if i < length (objects w) then w\<lparr>objects := (objects w)[i := f (objects w ! i)]\<rparr> else w)"
  by (simp add: modify_object_def)

lemma length_objects_modify [simp]:
  "length (objects (exec_state (modify_object i f) w)) = length (objects w)"
  by simp

lemma modify_object_other:
  "j \<noteq> i \<Longrightarrow> objects (exec_state (modify_object i f) w) ! j = objects w ! j"
  by simp

lemma modify_object_same:
  "i < length (objects w) \<Longrightarrow> objects (exec_state (modify_object i f) w) ! i = f (objects w ! i)"
  by simp

lemma new_object_old:
  "j < length (objects w) \<Longrightarrow> objects (exec_state (new_object c txt) w) ! j = objects w ! j"
  by (simp add: nth_append)

lemma new_object_new:
  "objects (exec_state (new_object c txt) w) ! eval_state (new_object c txt) w = fresh_object c txt"
  by simp

section \<open>Well-formed stores\<close>

lemma widget_ids_append [simp]: "widget_ids (xs @ ys) = widget_ids xs @ widget_ids ys"
  by (induction xs rule: widget_ids.induct) simp_all

lemma placed_simps [simp]:
  "placed [] = []"
  "placed (obs @ obs') = placed obs @ placed obs'"
  "placed (ob # obs) = widget_ids (items ob) @ placed obs"
  by (simp_all add: placed_def)

lemma is_at_map:
  "is_widget_at (map cls obs) i \<longleftrightarrow> i < length obs \<and> \<not> is_layout_class (cls (obs ! i))"
  "is_layout_at (map cls obs) i \<longleftrightarrow> i < length obs \<and> is_layout_class (cls (obs ! i))"
  by (auto simp: is_widget_at_def is_layout_at_def)

lemma is_at_append:
  "is_widget_at cs i \<Longrightarrow> is_widget_at (cs @ cs') i"
  "is_layout_at cs i \<Longrightarrow> is_layout_at (cs @ cs') i"
  by (simp_all add: is_widget_at_def is_layout_at_def nth_append)

lemma wf_object_append: "wf_object cs ob \<Longrightarrow> wf_object (cs @ cs') ob"
  by (auto simp: wf_object_def list_all_iff is_at_append split: option.splits)

lemma wf_object_fresh [simp]: "wf_object cs (fresh_object c txt)"
  by (simp add: wf_object_def fresh_object_def)

lemma map_update_same:
  "i < length xs \<Longrightarrow> g y = g (xs ! i) \<Longrightarrow> map g (xs[i := y]) = map g xs"
  by (simp add: list_eq_iff_nth_eq nth_list_update)

lemma placed_update:
  "i < length obs \<Longrightarrow> items ob = items (obs ! i) \<Longrightarrow> placed (obs[i := ob]) = placed obs"
  by (simp add: placed_def map_update_same)

lemma placed_add:
  assumes "i < length obs" and "items ob = items (obs ! i) @ [WidgetItem j]"
    and "distinct (placed obs)" and "j \<notin> set (placed obs)"
  shows "distinct (placed (obs[i := ob]))"
proof -
  from assms(1) have "obs = take i obs @ [obs ! i] @ drop (Suc i) obs"
    by (simp add: id_take_nth_drop [symmetric])
  then have "placed obs =
      placed (take i obs) @ widget_ids (items (obs ! i)) @ placed (drop (Suc i) obs)"
    by (metis append_Nil2 placed_simps)
  moreover from assms(1) have "obs[i := ob] = take i obs @ [ob] @ drop (Suc i) obs"
    by (simp add: upd_conv_take_nth_drop)
  then have "placed (obs[i := ob]) =
      placed (take i obs) @ widget_ids (items ob) @ placed (drop (Suc i) obs)"
    by (metis append_Nil2 placed_simps)
  ultimately show ?thesis
    using assms(2-4) by auto
qed

lemma placed_bound: "wf_objects obs \<Longrightarrow> i \<in> set (placed obs) \<Longrightarrow> i < length obs"
  by (auto simp: wf_objects_def placed_def list_all_iff is_widget_at_def wf_object_def)

lemma placed_above: "wf_objects obs \<Longrightarrow> length obs \<le> i \<Longrightarrow> i \<notin> set (placed obs)"
  using placed_bound [of obs i] by auto

lemma wf_objects_nth:
  "wf_objects obs \<Longrightarrow> i < length obs \<Longrightarrow> wf_object (map cls obs) (obs ! i)"
  by (simp add: wf_objects_def list_all_length)

text \<open>
  In a well-formed store ownership stays within the store: what an object owns exists,
  and so does everything below an object that exists.
\<close>

lemma owns_bound:
  assumes "wf_objects obs" and "owns obs i j"
  shows "j < length obs"
proof -
  from assms have "wf_object (map cls obs) (obs ! i)"
    by (simp add: owns_def wf_objects_nth)
  with assms(2) show ?thesis
    by (auto simp: owns_def wf_object_def list_all_iff is_at_map)
qed

lemma below_bound:
  assumes "wf_objects obs" and "(owns obs)\<^sup>*\<^sup>* r i" and "r < length obs"
  shows "i < length obs"
  using assms(2,3) by (induction rule: rtranclp_induct) (auto intro: owns_bound [OF assms(1)])

lemma owners_bound: "i \<in> set (owners obs j) \<Longrightarrow> i < length obs"
  by (simp add: owners_def)

lemma owners_iff: "i \<in> set (owners obs j) \<longleftrightarrow> owns obs i j"
  by (auto simp: owners_def owns_def)

text \<open>
  The two primitives keep a store well formed: \<open>new_object\<close> always, \<open>modify_object\<close> when
  the change keeps the class, leaves the object well formed and places no widget a
  second time.
\<close>

lemma wf_new_object [inv_keep]:
  assumes "wf_objects (objects w)"
  shows "wf_objects (objects (exec_state (new_object c txt) w))"
proof -
  from assms have "list_all (wf_object (map cls (objects w) @ [c])) (objects w)"
    by (auto simp: wf_objects_def list_all_iff intro: wf_object_append)
  with assms show ?thesis
    by (simp add: wf_objects_def) (simp add: fresh_object_def)
qed

lemma wf_modify_object:
  assumes "wf_objects (objects w)"
    and "i < length (objects w) \<Longrightarrow> cls (f (objects w ! i)) = cls (objects w ! i)"
    and "i < length (objects w) \<Longrightarrow> wf_object (map cls (objects w)) (f (objects w ! i))"
    and "i < length (objects w) \<Longrightarrow> distinct (placed ((objects w)[i := f (objects w ! i)]))"
  shows "wf_objects (objects (exec_state (modify_object i f) w))"
proof (cases "i < length (objects w)")
  case True
  with assms(2) have "map cls ((objects w)[i := f (objects w ! i)]) = map cls (objects w)"
    by (simp add: map_update_same)
  moreover from assms(1,3) True
  have "list_all (wf_object (map cls (objects w))) ((objects w)[i := f (objects w ! i)])"
    by (auto simp: wf_objects_def list_all_iff dest!: set_update_subset_insert [THEN subsetD])
  ultimately show ?thesis
    using True assms(4) by (simp add: wf_objects_def)
next
  case False
  with assms(1) show ?thesis by simp
qed

text \<open>
  A change of an attribute that the invariant does not read keeps the store well
  formed; so do the methods that install a layout, connect a slot or add an item, each
  under the condition Qt puts on its arguments.
\<close>

lemma wf_modify_attribute:
  assumes "wf_objects (objects w)"
    and "\<And>ob. cls (f ob) = cls ob" and "\<And>ob. layout (f ob) = layout ob"
    and "\<And>ob. items (f ob) = items ob" and "\<And>ob. clicked (f ob) = clicked ob"
  shows "wf_objects (objects (exec_state (modify_object i f) w))"
proof (rule wf_modify_object [OF assms(1)])
  assume i: "i < length (objects w)"
  from wf_objects_nth [OF assms(1) i]
  show "wf_object (map cls (objects w)) (f (objects w ! i))"
    by (simp add: wf_object_def assms(2-5) split: option.splits)
  from assms(1) i show "distinct (placed ((objects w)[i := f (objects w ! i)]))"
    by (simp add: placed_update assms(4) wf_objects_def)
qed (simp add: assms(2))

lemma wf_set_attribute [inv_keep]:
  assumes "wf_objects (objects w)"
  shows "wf_objects (objects (exec_state (setFrameShape i sh) w))"
    and "wf_objects (objects (exec_state (setFixedWidth i n) w))"
    and "wf_objects (objects (exec_state (setFixedHeight i n) w))"
    and "wf_objects (objects (exec_state (setAlignment i al) w))"
  by (rule wf_modify_attribute [OF assms]; simp)+

lemma wf_setLayout [inv_keep]:
  assumes "wf_objects (objects w)"
    and "is_widget_at (map cls (objects w)) i" and "is_layout_at (map cls (objects w)) l"
  shows "wf_objects (objects (exec_state (setLayout i l) w))"
proof (rule wf_modify_object [OF assms(1)])
  assume i: "i < length (objects w)"
  from wf_objects_nth [OF assms(1) i] assms(2,3)
  show "wf_object (map cls (objects w)) ((objects w ! i)\<lparr>layout := Some l\<rparr>)"
    by (simp add: wf_object_def is_widget_at_def split: option.splits)
  from assms(1) i show "distinct (placed ((objects w)[i := (objects w ! i)\<lparr>layout := Some l\<rparr>]))"
    by (simp add: placed_update wf_objects_def)
qed simp

lemma wf_clicked_connect [inv_keep]:
  assumes "wf_objects (objects w)"
    and "i < length (objects w) \<Longrightarrow> cls (objects w ! i) = QPushButton"
  shows "wf_objects (objects (exec_state (clicked_connect i sl) w))"
proof (rule wf_modify_object [OF assms(1)])
  assume i: "i < length (objects w)"
  from wf_objects_nth [OF assms(1) i] assms(2) [OF i]
  show "wf_object (map cls (objects w))
          ((objects w ! i)\<lparr>clicked := clicked (objects w ! i) @ [sl]\<rparr>)"
    by (simp add: wf_object_def split: option.splits)
  from assms(1) i
  show "distinct (placed ((objects w)
          [i := (objects w ! i)\<lparr>clicked := clicked (objects w ! i) @ [sl]\<rparr>]))"
    by (simp add: placed_update wf_objects_def)
qed simp

lemma wf_addStretch [inv_keep]:
  assumes "wf_objects (objects w)" and "is_layout_at (map cls (objects w)) l"
  shows "wf_objects (objects (exec_state (addStretch l) w))"
proof (rule wf_modify_object [OF assms(1)])
  assume l: "l < length (objects w)"
  from wf_objects_nth [OF assms(1) l] assms(2)
  show "wf_object (map cls (objects w))
          ((objects w ! l)\<lparr>items := items (objects w ! l) @ [StretchItem 0]\<rparr>)"
    by (simp add: wf_object_def is_layout_at_def split: option.splits)
  from assms(1) l
  have "placed ((objects w)[l := (objects w ! l)\<lparr>items := items (objects w ! l) @ [StretchItem 0]\<rparr>])
      = placed (objects w)"
    by (simp add: placed_def map_update_same)
  with assms(1)
  show "distinct (placed ((objects w)
          [l := (objects w ! l)\<lparr>items := items (objects w ! l) @ [StretchItem 0]\<rparr>]))"
    by (simp add: wf_objects_def)
qed simp

lemma wf_addWidget [inv_keep]:
  assumes "wf_objects (objects w)" and "is_layout_at (map cls (objects w)) l"
    and "is_widget_at (map cls (objects w)) i" and "i \<notin> set (placed (objects w))"
  shows "wf_objects (objects (exec_state (addWidget l i) w))"
proof (rule wf_modify_object [OF assms(1)])
  assume l: "l < length (objects w)"
  from wf_objects_nth [OF assms(1) l] assms(2,3)
  show "wf_object (map cls (objects w))
          ((objects w ! l)\<lparr>items := items (objects w ! l) @ [WidgetItem i]\<rparr>)"
    by (simp add: wf_object_def is_layout_at_def split: option.splits)
  from assms(1,4) l
  show "distinct (placed ((objects w)
          [l := (objects w ! l)\<lparr>items := items (objects w ! l) @ [WidgetItem i]\<rparr>]))"
    by (intro placed_add [where j = i]) (simp_all add: wf_objects_def)
qed simp

lemma wf_window_attribute [inv_keep]:
  assumes "wf_objects (objects w)"
  shows "wf_objects (objects (exec_state (setCentralWidget i) w))"
    and "wf_objects (objects (exec_state (setWindowTitle t) w))"
    and "wf_objects (objects (exec_state (resize wd ht) w))"
    and "wf_objects (objects (exec_state (setWindowIcon icon_file) w))"
  using assms by simp_all

end
