(* ===== verification/Main_Window.thy ===== *)
theory Main_Window
  imports Resource_Path Plotter Qt_Widgets
begin

text \<open>
  The class \<open>MainWindow\<close> of \<open>src/main.py\<close> (lines 34 to 144).

  \<open>main_window\<close> extends the record of a \<open>QMainWindow\<close>, as the class extends that class,
  by the attributes the methods assign: \<open>sidebar\<close> (\<open>self.sidebar\<close>), \<open>plotter\<close>
  (\<open>self.plotter\<close>, the scene of the canvas) and \<open>interactor\<close> (the widget
  \<open>self.plotter.interactor\<close>). \<open>slot\<close> names the two bound methods that are connected
  to buttons.

  A method is a function from the window to the window after the call and the lines it
  printed. The constructor \<open>MainWindow_init\<close> (\<open>__init__\<close>) takes the process
  environment instead, since it creates the window. \<open>init_ui\<close> turns the state of the
  base class into a \<open>main_window\<close>: \<open>init_ui_widgets\<close> is its sequence of Qt calls, made
  of the three blocks the source marks (\<open>build_central\<close>, \<open>build_sidebar\<close>,
  \<open>build_canvas\<close>), and \<open>init_canvas_calls\<close> the calls on the new plotter.
  \<open>load_window_icon\<close> is the block of \<open>__init__\<close> that looks for the icon file. \<open>plot_sphere\<close>, \<open>clear_plot\<close> and \<open>closeEvent\<close> are the handlers, each
  with the list of plotter calls it makes. The string literals of the source are
  constants, the non-ASCII ones spelt as their UTF-8 bytes.

  \<open>ui_objects\<close> is the object store the constructor is shown to build, \<open>ready_scene\<close> the
  scene it leaves on the canvas. The theorems state the scene after each handler, the
  layout of the window and the connections of the buttons, that the objects form one
  tree of ownership below the central widget, and the two outcomes of looking for the
  icon file.
\<close>

section \<open>Literals of the source\<close>

definition window_title_text :: pystr where
  "window_title_text = ''MCM Visualization Tool (Powered by PySide6 & PyVista)''"

definition default_size :: "nat \<times> nat" where
  "default_size = (1200, 800)"

definition icon_warning :: "pystr \<Rightarrow> pystr" where
  "icon_warning icon_path =
     [CHR 0xE2, CHR 0x9A, CHR 0xA0, CHR 0xEF, CHR 0xB8, CHR 0x8F]
     @ '' Warning: Icon not found at '' @ icon_path"

definition sidebar_width :: nat where
  "sidebar_width = 250"

definition title_label_text :: pystr where
  "title_label_text =
     ''<h2>'' @ [CHR 0xE5, CHR 0xB7, CHR 0xA5, CHR 0xE5, CHR 0x85, CHR 0xB7, CHR 0xE7, CHR 0xAE,
       CHR 0xB1] @ ''</h2>''"

definition btn_sphere_text :: pystr where
  "btn_sphere_text =
     [CHR 0xF0, CHR 0x9F, CHR 0x8C, CHR 0x8D] @ '' ''
     @ [CHR 0xE7, CHR 0xBB, CHR 0x98, CHR 0xE5, CHR 0x88, CHR 0xB6] @ '' 3D ''
     @ [CHR 0xE7, CHR 0x90, CHR 0x83, CHR 0xE4, CHR 0xBD, CHR 0x93]"

definition btn_clear_text :: pystr where
  "btn_clear_text =
     [CHR 0xF0, CHR 0x9F, CHR 0x97, CHR 0x91, CHR 0xEF, CHR 0xB8, CHR 0x8F] @ '' ''
     @ [CHR 0xE6, CHR 0xB8, CHR 0x85, CHR 0xE7, CHR 0xA9, CHR 0xBA, CHR 0xE7, CHR 0x94, CHR 0xBB,
        CHR 0xE5, CHR 0xB8, CHR 0x83]"

definition button_height :: nat where
  "button_height = 40"

definition credits_text :: pystr where
  "credits_text = ''MCM 2026 Toolbox'' @ [CHR 0x0A] @ ''v1.0.0 Build''"

definition ready_text :: pystr where
  "ready_text = ''Ready for Data...''"

definition sphere :: polydata where
  "sphere = Sphere 0.5"

definition sphere_text :: pystr where
  "sphere_text = ''Model: 3D Sphere''"

definition sphere_done_msg :: pystr where
  "sphere_done_msg =
     [CHR 0xE2, CHR 0x9C, CHR 0x85] @ '' ''
     @ [CHR 0xE6, CHR 0x88, CHR 0x90, CHR 0xE5, CHR 0x8A, CHR 0x9F, CHR 0xE7, CHR 0xBB, CHR 0x98,
        CHR 0xE5, CHR 0x88, CHR 0xB6, CHR 0xE7, CHR 0x90, CHR 0x83, CHR 0xE4, CHR 0xBD, CHR 0x93]"

definition cleared_msg :: pystr where
  "cleared_msg =
     [CHR 0xF0, CHR 0x9F, CHR 0xA7, CHR 0xB9] @ '' ''
     @ [CHR 0xE7, CHR 0x94, CHR 0xBB, CHR 0xE5, CHR 0xB8, CHR 0x83, CHR 0xE5, CHR 0xB7, CHR 0xB2,
        CHR 0xE6, CHR 0xB8, CHR 0x85, CHR 0xE7, CHR 0xA9, CHR 0xBA]"

lemmas literal_defs [model_defs] =
  window_title_text_def default_size_def icon_warning_def sidebar_width_def title_label_text_def
  btn_sphere_text_def btn_clear_text_def button_height_def credits_text_def ready_text_def
  sphere_def sphere_text_def sphere_done_msg_def cleared_msg_def

section \<open>The class\<close>

datatype slot = SlotPlotSphere | SlotClearPlot

record main_window = "slot qmainwindow" +
  sidebar :: nat
  interactor :: nat
  plotter :: scene

record close_event =
  accepted :: bool

section \<open>Building the interface\<close>

definition build_central :: "(slot, unit, nat) qt" where
  "build_central = do {
     central_widget \<leftarrow> new_object QWidget [];
     setCentralWidget central_widget;
     main_layout \<leftarrow> new_object QHBoxLayout [];
     setLayout central_widget main_layout;
     State_Monad.return main_layout
   }"

definition build_sidebar :: "(slot, unit, nat) qt" where
  "build_sidebar = do {
     sidebar \<leftarrow> new_object QFrame [];
     setFrameShape sidebar StyledPanel;
     setFixedWidth sidebar sidebar_width;
     sidebar_layout \<leftarrow> new_object QVBoxLayout [];
     setLayout sidebar sidebar_layout;
     title_label \<leftarrow> new_object QLabel title_label_text;
     setAlignment title_label AlignCenter;
     addWidget sidebar_layout title_label;
     btn_sphere \<leftarrow> new_object QPushButton btn_sphere_text;
     setFixedHeight btn_sphere button_height;
     clicked_connect btn_sphere SlotPlotSphere;
     addWidget sidebar_layout btn_sphere;
     btn_clear \<leftarrow> new_object QPushButton btn_clear_text;
     setFixedHeight btn_clear button_height;
     clicked_connect btn_clear SlotClearPlot;
     addWidget sidebar_layout btn_clear;
     addStretch sidebar_layout;
     credits \<leftarrow> new_object QLabel credits_text;
     addWidget sidebar_layout credits;
     State_Monad.return sidebar
   }"

definition build_canvas :: "nat \<Rightarrow> (slot, unit, nat) qt" where
  "build_canvas main_layout = do {
     interactor \<leftarrow> new_object QVTKInteractor [];
     addWidget main_layout interactor;
     State_Monad.return interactor
   }"

definition init_ui_widgets :: "(slot, unit, nat \<times> nat) qt" where
  "init_ui_widgets = do {
     main_layout \<leftarrow> build_central;
     sidebar \<leftarrow> build_sidebar;
     addWidget main_layout sidebar;
     interactor \<leftarrow> build_canvas main_layout;
     State_Monad.return (sidebar, interactor)
   }"

definition init_canvas_calls :: "pv_call list" where
  "init_canvas_calls =
     [SetBackground ''white'', AddAxes, AddText ready_text ''upper_left'' ''black'']"

definition init_ui :: "slot qmainwindow \<Rightarrow> main_window" where
  "init_ui self =
     qmainwindow.extend (exec_state init_ui_widgets self)
       (main_window.fields
          (fst (eval_state init_ui_widgets self))
          (snd (eval_state init_ui_widgets self))
          (pv_run init_canvas_calls QtInteractor))"

section \<open>The constructor\<close>

definition load_window_icon :: "runtime \<Rightarrow> slot qmainwindow \<Rightarrow> slot qmainwindow \<times> console" where
  "load_window_icon rt self =
     (let icon_path = get_resource_path rt icon_relative_path
      in if os_path_exists rt icon_path
         then (exec_state (setWindowIcon icon_path) self, [])
         else (self, [icon_warning icon_path]))"

definition MainWindow_init :: "runtime \<Rightarrow> main_window \<times> console" where
  "MainWindow_init rt =
     (let self = QMainWindow;
          self = exec_state (setWindowTitle window_title_text) self;
          self = exec_state (resize (fst default_size) (snd default_size)) self;
          (self, out) = load_window_icon rt self
      in (init_ui self, out))"

section \<open>The handlers\<close>

definition plot_sphere_calls :: "pv_call list" where
  "plot_sphere_calls =
     [Clear, AddAxes, AddMesh sphere ''orange'' True False 0.8,
      AddText sphere_text ''upper_left'' ''black'', ResetCamera]"

definition plot_sphere :: "main_window \<Rightarrow> main_window \<times> console" where
  "plot_sphere self =
     (self\<lparr>plotter := pv_run plot_sphere_calls (plotter self)\<rparr>, [sphere_done_msg])"

definition clear_plot_calls :: "pv_call list" where
  "clear_plot_calls = [Clear, SetBackground ''white'', AddAxes]"

definition clear_plot :: "main_window \<Rightarrow> main_window \<times> console" where
  "clear_plot self =
     (self\<lparr>plotter := pv_run clear_plot_calls (plotter self)\<rparr>, [cleared_msg])"

definition closeEvent_calls :: "pv_call list" where
  "closeEvent_calls = [Close]"

definition closeEvent :: "main_window \<Rightarrow> close_event \<Rightarrow> main_window \<times> close_event" where
  "closeEvent self event =
     (self\<lparr>plotter := pv_run closeEvent_calls (plotter self)\<rparr>, event\<lparr>accepted := True\<rparr>)"

text \<open>The method a slot stands for, the plotter calls that method makes and the lines it
  prints.\<close>

fun invoke :: "slot \<Rightarrow> main_window \<Rightarrow> main_window \<times> console" where
  "invoke SlotPlotSphere = plot_sphere"
| "invoke SlotClearPlot = clear_plot"

fun slot_calls :: "slot \<Rightarrow> pv_call list" where
  "slot_calls SlotPlotSphere = plot_sphere_calls"
| "slot_calls SlotClearPlot = clear_plot_calls"

fun slot_output :: "slot \<Rightarrow> console" where
  "slot_output SlotPlotSphere = [sphere_done_msg]"
| "slot_output SlotClearPlot = [cleared_msg]"

lemmas window_defs [model_defs] =
  build_central_def build_sidebar_def build_canvas_def init_ui_widgets_def init_canvas_calls_def
  init_ui_def load_window_icon_def MainWindow_init_def
  plot_sphere_calls_def plot_sphere_def clear_plot_calls_def clear_plot_def closeEvent_calls_def
  closeEvent_def qmainwindow.defs main_window.defs

section \<open>The interface the constructor builds\<close>

text \<open>
  The object store after \<open>init_ui\<close>, in the order of creation: central widget, main
  layout, sidebar, sidebar layout, title, the two buttons, credits, canvas widget.
\<close>

definition ui_objects :: "slot qobject list" where
  "ui_objects =
     [(fresh_object QWidget [])\<lparr>layout := Some 1\<rparr>,
      (fresh_object QHBoxLayout [])\<lparr>items := [WidgetItem 2, WidgetItem 8]\<rparr>,
      (fresh_object QFrame [])
        \<lparr>fixed_width := Some sidebar_width, frame_shape := Some StyledPanel, layout := Some 3\<rparr>,
      (fresh_object QVBoxLayout [])
        \<lparr>items := [WidgetItem 4, WidgetItem 5, WidgetItem 6, StretchItem 0, WidgetItem 7]\<rparr>,
      (fresh_object QLabel title_label_text)\<lparr>alignment := Some AlignCenter\<rparr>,
      (fresh_object QPushButton btn_sphere_text)
        \<lparr>fixed_height := Some button_height, clicked := [SlotPlotSphere]\<rparr>,
      (fresh_object QPushButton btn_clear_text)
        \<lparr>fixed_height := Some button_height, clicked := [SlotClearPlot]\<rparr>,
      fresh_object QLabel credits_text,
      fresh_object QVTKInteractor []]"

definition ready_scene :: scene where
  "ready_scene =
     \<lparr>actors = [TextActor ready_text ''upper_left'' ''black''], axes = True,
      background = Some ''white'', camera = CameraUnset, closed = False\<rparr>"

definition sphere_actors :: "actor list" where
  "sphere_actors =
     [MeshActor sphere ''orange'' True False 0.8, TextActor sphere_text ''upper_left'' ''black'']"

lemma exec_init_ui_widgets:
  "objects w = [] \<Longrightarrow>
   exec_state init_ui_widgets w = w\<lparr>objects := ui_objects, central_widget := Some 0\<rparr>"
  by (simp add: init_ui_widgets_def build_central_def build_sidebar_def build_canvas_def
      ui_objects_def fresh_object_def eval_nat_numeral)

lemma eval_init_ui_widgets: "objects w = [] \<Longrightarrow> eval_state init_ui_widgets w = (2, 8)"
  by (simp add: init_ui_widgets_def build_central_def build_sidebar_def build_canvas_def
      eval_nat_numeral)

lemma pv_run_init_canvas_calls: "pv_run init_canvas_calls QtInteractor = ready_scene"
  by (simp add: init_canvas_calls_def QtInteractor_def ready_scene_def)

lemma init_ui_fresh:
  "objects w = [] \<Longrightarrow>
   init_ui w =
     \<lparr>objects = ui_objects, window_title = window_title w, win_size = win_size w,
      window_icon = window_icon w, central_widget = Some 0, visible = visible w,
      sidebar = 2, interactor = 8, plotter = ready_scene\<rparr>"
  by (simp add: init_ui_def exec_init_ui_widgets eval_init_ui_widgets pv_run_init_canvas_calls
      qmainwindow.defs main_window.defs)

lemma MainWindow_init_eq:
  "MainWindow_init rt =
     (let icon_path = get_resource_path rt icon_relative_path;
          found = os_path_exists rt icon_path
      in (\<lparr>objects = ui_objects, window_title = window_title_text, win_size = default_size,
           window_icon = (if found then Some icon_path else None), central_widget = Some 0,
           visible = False, sidebar = 2, interactor = 8, plotter = ready_scene\<rparr>,
          if found then [] else [icon_warning icon_path]))"
  by (simp add: MainWindow_init_def load_window_icon_def Let_def init_ui_fresh QMainWindow_def)

lemma objects_MainWindow_init [simp]: "objects (fst (MainWindow_init rt)) = ui_objects"
  by (simp add: MainWindow_init_eq Let_def)

lemma length_ui_objects [simp]: "length ui_objects = 9"
  by (simp add: ui_objects_def)

lemma slots_ui:
  "i < length ui_objects \<Longrightarrow>
   clicked (ui_objects ! i) =
     (if i = 5 then [SlotPlotSphere] else if i = 6 then [SlotClearPlot] else [])"
  by (simp add: ui_objects_def fresh_object_def nth_Cons split: nat.splits)

lemma captions_ui:
  "i < length ui_objects \<Longrightarrow>
   (caption (ui_objects ! i) = btn_sphere_text \<longleftrightarrow> i = 5) \<and>
   (caption (ui_objects ! i) = btn_clear_text \<longleftrightarrow> i = 6)"
  by (simp add: ui_objects_def fresh_object_def nth_Cons literal_defs split: nat.splits)

section \<open>The store stays well formed\<close>

text \<open>
  Each block of \<open>init_ui\<close> keeps a well-formed store well formed, from whatever store it
  starts: every call meets the condition of its preservation lemma. The conditions are
  evaluated on the objects the block has created so far.
\<close>

lemmas wf_eval = is_widget_at_def is_layout_at_def fresh_object_def nth_append placed_above
lemmas run_bind = exec_state_bind eval_state_bind exec_state_return eval_state_return

lemma wf_build_central [inv_keep]:
  assumes "wf_objects (objects w)"
  shows "wf_objects (objects (exec_state build_central w))"
  unfolding build_central_def
  by (simp only: run_bind, intro inv_keep assms) (simp_all add: assms wf_eval)

lemma wf_build_sidebar [inv_keep]:
  assumes "wf_objects (objects w)"
  shows "wf_objects (objects (exec_state build_sidebar w))"
  unfolding build_sidebar_def
  by (simp only: run_bind, intro inv_keep assms) (simp_all add: assms wf_eval list_update_append)

lemma wf_build_canvas [inv_keep]:
  assumes "wf_objects (objects w)"
    and "l < length (objects w)" and "is_layout_class (cls (objects w ! l))"
  shows "wf_objects (objects (exec_state (build_canvas l) w))"
  unfolding build_canvas_def using assms(2,3)
  by (simp only: run_bind, intro inv_keep assms(1)) (simp_all add: assms(1) wf_eval)

lemma wf_init_ui_widgets:
  assumes "objects w = []"
  shows "wf_objects (objects (exec_state init_ui_widgets w))"
  unfolding init_ui_widgets_def
  by (simp only: run_bind, intro inv_keep)
    (simp_all add: assms build_central_def build_sidebar_def wf_eval wf_objects_def)

lemma wf_ui_objects: "wf_objects ui_objects"
  using wf_init_ui_widgets [of "QMainWindow :: slot qmainwindow"]
  by (simp add: exec_init_ui_widgets QMainWindow_def)

section \<open>The tree of objects\<close>

text \<open>
  Who owns what in the store the constructor builds, and that every object is below
  the central widget.
\<close>

lemma owns_ui:
  "owns ui_objects i j \<longleftrightarrow>
     (i, j) \<in> {(0, 1), (1, 2), (1, 8), (2, 3), (3, 4), (3, 5), (3, 6), (3, 7)}"
proof (cases "i < 9")
  case True
  then consider "i = 0" | "i = 1" | "i = 2" | "i = 3" | "i = 4" | "i = 5" | "i = 6" | "i = 7"
    | "i = 8"
    by linarith
  then show ?thesis
    by cases (auto simp: owns_def ui_objects_def fresh_object_def)
next
  case False
  then show ?thesis by (auto simp: owns_def)
qed

lemma ui_owners:
  "map (owners ui_objects) [0..<9] = [[], [0], [1], [2], [3], [3], [3], [3], [1]]"
  by (simp add: owners_def owns_ui upt_rec)

lemma ui_below: "{i. (owns ui_objects)\<^sup>*\<^sup>* 0 i} = {..<9}"
proof (intro equalityI subsetI)
  fix i assume "i \<in> {i. (owns ui_objects)\<^sup>*\<^sup>* 0 i}"
  with below_bound [OF wf_ui_objects, of 0 i] show "i \<in> {..<9}" by simp
next
  fix i :: nat assume "i \<in> {..<9}"
  then consider "i = 0" | "i = 1" | "i = 2" | "i = 3" | "i = 4" | "i = 5" | "i = 6" | "i = 7"
    | "i = 8"
    by fastforce
  moreover have o1: "(owns ui_objects)\<^sup>*\<^sup>* 0 1"
    by (rule r_into_rtranclp) (simp add: owns_ui)
  then have o2: "(owns ui_objects)\<^sup>*\<^sup>* 0 2"
    by (rule rtranclp.rtrancl_into_rtrancl) (simp add: owns_ui)
  then have o3: "(owns ui_objects)\<^sup>*\<^sup>* 0 3"
    by (rule rtranclp.rtrancl_into_rtrancl) (simp add: owns_ui)
  have "(owns ui_objects)\<^sup>*\<^sup>* 0 j" if "j \<in> {4, 5, 6, 7}" for j
  proof -
    from that have "owns ui_objects 3 j" by (auto simp: owns_ui)
    with o3 show ?thesis by (rule rtranclp.rtrancl_into_rtrancl)
  qed
  moreover from o1 have "(owns ui_objects)\<^sup>*\<^sup>* 0 8"
    by (rule rtranclp.rtrancl_into_rtrancl) (simp add: owns_ui)
  ultimately show "i \<in> {i. (owns ui_objects)\<^sup>*\<^sup>* 0 i}"
    using o1 o2 o3 by cases auto
qed

section \<open>What the handlers do to the scene\<close>

lemma pv_run_plot_sphere_calls:
  "pv_run plot_sphere_calls s =
     s\<lparr>actors := sphere_actors, axes := True, camera := CameraFramed [sphere]\<rparr>"
  by (simp add: plot_sphere_calls_def sphere_actors_def)

lemma pv_run_clear_plot_calls:
  "pv_run clear_plot_calls s = s\<lparr>actors := [], axes := True, background := Some ''white''\<rparr>"
  by (simp add: clear_plot_calls_def)

lemma pv_run_closeEvent_calls: "pv_run closeEvent_calls s = s\<lparr>closed := True\<rparr>"
  by (simp add: closeEvent_calls_def)

lemmas handler_runs = pv_run_plot_sphere_calls pv_run_clear_plot_calls pv_run_closeEvent_calls

lemma invoke_slot_calls:
  "fst (invoke sl w) = w\<lparr>plotter := pv_run (slot_calls sl) (plotter w)\<rparr>"
  by (cases sl) (simp_all add: plot_sphere_def clear_plot_def)

lemma snd_invoke: "snd (invoke sl w) = slot_output sl"
  by (cases sl) (simp_all add: plot_sphere_def clear_plot_def)

lemma objects_invoke [simp, frame]: "objects (fst (invoke sl w)) = objects w"
  by (simp add: invoke_slot_calls)

lemma visible_invoke [simp, frame]: "visible (fst (invoke sl w)) = visible w"
  by (simp add: invoke_slot_calls)

lemma Close_not_in_slot_calls [simp]: "Close \<notin> set (slot_calls sl)"
  by (cases sl) (simp_all add: plot_sphere_calls_def clear_plot_calls_def)

lemma mesh_count_sphere_actors [simp]: "datasets sphere_actors = [sphere]"
  by (simp add: sphere_actors_def)

section \<open>Properties of the window\<close>

text \<open>
  C1: \<open>plot_sphere\<close> replaces whatever the canvas showed by one sphere of radius 0.5,
  orange, with edges, without physically based rendering, at opacity 0.8, and the text
  \<open>Model: 3D Sphere\<close> at the upper left; it shows the axis indicator and frames the
  sphere with the camera. Background colour and the rest of the window stay as they
  were, and one line is printed.
\<close>

theorem plot_sphere_scene:
  "plot_sphere w =
     (w\<lparr>plotter := (plotter w)
          \<lparr>actors := [MeshActor (Sphere 0.5) ''orange'' True False 0.8,
                      TextActor ''Model: 3D Sphere'' ''upper_left'' ''black''],
           axes := True, camera := CameraFramed [Sphere 0.5]\<rparr>\<rparr>,
      [sphere_done_msg])"
  by (simp add: plot_sphere_def plot_sphere_calls_def sphere_def sphere_text_def)

text \<open>
  C7: Drawing the sphere is idempotent: any number of further calls of \<open>plot_sphere\<close>
  leaves the window as the first call left it, with exactly one mesh on the canvas.
\<close>

theorem plot_sphere_idempotent:
  "((fst \<circ> plot_sphere) ^^ Suc n) w = fst (plot_sphere w) \<and>
   mesh_count (plotter (((fst \<circ> plot_sphere) ^^ Suc n) w)) = 1"
proof -
  have once: "fst (plot_sphere (fst (plot_sphere v))) = fst (plot_sphere v)" for v
    by (simp add: plot_sphere_def plot_sphere_calls_def)
  have "((fst \<circ> plot_sphere) ^^ Suc n) w = fst (plot_sphere w)"
    by (induction n) (simp_all add: once)
  then show ?thesis
    by (simp add: plot_sphere_def plot_sphere_calls_def mesh_count_def)
qed

text \<open>
  C2: \<open>clear_plot\<close> after \<open>plot_sphere\<close>, and after anything else, leaves no mesh and no
  other actor on the canvas, with the background white and the axis indicator shown;
  the rest of the window stays as it was, and one line is printed.
\<close>

theorem clear_plot_scene:
  "clear_plot w =
     (w\<lparr>plotter := (plotter w)\<lparr>actors := [], axes := True, background := Some ''white''\<rparr>\<rparr>,
      [cleared_msg]) \<and>
   mesh_count (plotter (fst (clear_plot (fst (plot_sphere w))))) = 0 \<and>
   axes (plotter (fst (clear_plot (fst (plot_sphere w))))) \<and>
   background (plotter (fst (clear_plot (fst (plot_sphere w))))) = Some ''white''"
  by (simp add: clear_plot_def plot_sphere_def clear_plot_calls_def plot_sphere_calls_def
      mesh_count_def)

text \<open>
  C26: The window the constructor returns shows the canvas in its initial state: white
  background, axis indicator, the text \<open>Ready for Data...\<close> at the upper left, no mesh,
  camera untouched, resources held. It has the title and the size 1200 by 800 of the
  source and is not yet shown.
\<close>

theorem MainWindow_init_canvas:
  "plotter (fst (MainWindow_init rt)) =
     \<lparr>actors = [TextActor ''Ready for Data...'' ''upper_left'' ''black''], axes = True,
      background = Some ''white'', camera = CameraUnset, closed = False\<rparr> \<and>
   window_title (fst (MainWindow_init rt)) =
     ''MCM Visualization Tool (Powered by PySide6 & PyVista)'' \<and>
   win_size (fst (MainWindow_init rt)) = (1200, 800) \<and>
   \<not> visible (fst (MainWindow_init rt))"
  by (simp add: MainWindow_init_eq Let_def ready_scene_def ready_text_def window_title_text_def
      default_size_def)

text \<open>
  C8: A missing icon file is not fatal. When no file exists at the resolved path, the
  constructor prints one warning naming that path, sets no window icon, and returns
  the window it returns when the file exists, apart from the icon.
\<close>

theorem MainWindow_init_missing_icon:
  assumes "\<not> os_path_exists rt (get_resource_path rt icon_relative_path)"
  shows "snd (MainWindow_init rt) =
           [icon_warning (get_resource_path rt icon_relative_path)] \<and>
         window_icon (fst (MainWindow_init rt)) = None \<and>
         fst (MainWindow_init rt) =
           (fst (MainWindow_init
              (rt\<lparr>existing := insert (get_resource_path rt icon_relative_path) (existing rt)\<rparr>)))
           \<lparr>window_icon := None\<rparr>"
  using assms
  by (simp add: MainWindow_init_def load_window_icon_def Let_def init_ui_fresh QMainWindow_def
      os_path_exists_def frame)

theorem MainWindow_init_missing_icon_witness:
  "snd (MainWindow_init (example_packaged\<lparr>existing := {}\<rparr>)) =
     [[CHR 0xE2, CHR 0x9A, CHR 0xA0, CHR 0xEF, CHR 0xB8, CHR 0x8F]
      @ '' Warning: Icon not found at /tmp/_MEI7/resources/icon.ico''] \<and>
   window_icon (fst (MainWindow_init (example_packaged\<lparr>existing := {}\<rparr>))) = None"
  using MainWindow_init_missing_icon [of "example_packaged\<lparr>existing := {}\<rparr>"]
  by (simp add: example_packaged_def os_path_exists_def get_resource_path_def
      icon_relative_path_eq endswith_sep_def icon_warning_def)

text \<open>
  When the icon file exists, the constructor makes the window icon from the
  resolved path and prints nothing.
\<close>

lemma MainWindow_init_icon:
  assumes "os_path_exists rt (get_resource_path rt icon_relative_path)"
  shows "window_icon (fst (MainWindow_init rt)) = Some (get_resource_path rt icon_relative_path) \<and>
         snd (MainWindow_init rt) = []"
  using assms by (simp add: MainWindow_init_eq Let_def)

text \<open>
  C37: The central widget lays out the sidebar and the canvas widget side by side, the
  sidebar on the left. The sidebar is a styled frame 250 wide; the canvas widget has no
  fixed width or height, so it takes the remaining space.
\<close>

theorem window_layout:
  "central_widget (fst (MainWindow_init rt)) = Some c \<Longrightarrow>
   (let w = fst (MainWindow_init rt); obs = objects w in
      children obs c = [WidgetItem (sidebar w), WidgetItem (interactor w)] \<and>
      cls (obs ! the (layout (obs ! c))) = QHBoxLayout \<and>
      cls (obs ! sidebar w) = QFrame \<and>
      frame_shape (obs ! sidebar w) = Some StyledPanel \<and>
      fixed_width (obs ! sidebar w) = Some 250 \<and>
      cls (obs ! interactor w) = QVTKInteractor \<and>
      fixed_width (obs ! interactor w) = None \<and>
      fixed_height (obs ! interactor w) = None)"
  by (auto simp: MainWindow_init_eq Let_def children_def ui_objects_def fresh_object_def
      sidebar_width_def)

theorem window_layout_witness:
  "central_widget (fst (MainWindow_init example_source)) = Some 0 \<and>
   children (objects (fst (MainWindow_init example_source))) 0 = [WidgetItem 2, WidgetItem 8]"
  using window_layout [of example_source 0]
  by (simp add: MainWindow_init_eq Let_def)

text \<open>
  C38: The sidebar holds, from top to bottom: the title label, the button that draws the
  sphere, the button that clears the canvas, a stretch, and the credits label. The
  title is centred and both buttons are 40 high.
\<close>

theorem sidebar_contents:
  "(let w = fst (MainWindow_init rt); obs = objects w in
      map (describe obs) (children obs (sidebar w)) =
        [Some (QLabel, title_label_text), Some (QPushButton, btn_sphere_text),
         Some (QPushButton, btn_clear_text), None, Some (QLabel, credits_text)] \<and>
      cls (obs ! the (layout (obs ! sidebar w))) = QVBoxLayout \<and>
      [alignment ob. ob \<leftarrow> obs, cls ob = QLabel] = [Some AlignCenter, None] \<and>
      [fixed_height ob. ob \<leftarrow> obs, cls ob = QPushButton] = [Some 40, Some 40])"
  by (simp add: MainWindow_init_eq Let_def children_def ui_objects_def fresh_object_def
      button_height_def)

text \<open>
  C15: Exactly two objects of the window have a slot connected to their signal
  \<open>clicked\<close>: the button that draws the sphere, connected to \<open>plot_sphere\<close> only, and the
  button that clears the canvas, connected to \<open>clear_plot\<close> only.
\<close>

theorem buttons_wired:
  "[(cls ob, caption ob, clicked ob). ob \<leftarrow> objects (fst (MainWindow_init rt)), clicked ob \<noteq> []] =
     [(QPushButton, btn_sphere_text, [SlotPlotSphere]),
      (QPushButton, btn_clear_text, [SlotClearPlot])]"
  by (simp add: ui_objects_def fresh_object_def)

text \<open>
  A handler changes nothing of the window but the plotter. The handlers of the two
  buttons never release the plotter's resources; \<open>closeEvent\<close> releases them, changes
  nothing else of the scene, and accepts the event whatever state it arrived in.
\<close>

lemma handlers_frame:
  "(fst (invoke sl w))\<lparr>plotter := plotter w\<rparr> = w \<and>
   closed (plotter (fst (invoke sl w))) = closed (plotter w) \<and>
   fst (closeEvent w ev) = w\<lparr>plotter := (plotter w)\<lparr>closed := True\<rparr>\<rparr> \<and>
   accepted (snd (closeEvent w ev)) \<and>
   (fold (\<lambda>sl w. fst (invoke sl w)) sls w)\<lparr>plotter := plotter w\<rparr> = w"
proof -
  have "(fold (\<lambda>sl w. fst (invoke sl w)) sls w)\<lparr>plotter := plotter w\<rparr> = w"
    by (induction sls arbitrary: w rule: rev_induct) (simp_all add: invoke_slot_calls)
  then show ?thesis
    by (simp add: invoke_slot_calls closeEvent_def closeEvent_calls_def)
qed

text \<open>
  C20: The object store of the constructed window is well formed: every layout installed
  on a widget and every widget added to a layout exists and has the right kind, only
  layouts hold items, only buttons have slots connected, and no widget is placed in two
  layouts. Every widget but the central one is placed. The objects form one tree below
  the central widget: each of them is reached from it through layouts and their items,
  the central widget has no owner in the store and every other object exactly one, so
  that no object is left to the garbage collector when \<open>init_ui\<close> returns.
\<close>

theorem ui_well_formed:
  "wf_objects (objects (fst (MainWindow_init rt))) \<and>
   (let w = fst (MainWindow_init rt); obs = objects w in
      sort (placed obs @ [c. c \<leftarrow> [0..<length obs], central_widget w = Some c]) =
        [i. i \<leftarrow> [0..<length obs], \<not> is_layout_class (cls (obs ! i))] \<and>
      central_widget w = Some 0 \<and>
      {i. (owns obs)\<^sup>*\<^sup>* 0 i} = {..<length obs} \<and>
      map (owners obs) [0..<length obs] = [[], [0], [1], [2], [3], [3], [3], [3], [1]])"
proof -
  have "placed ui_objects = [2, 8, 4, 5, 6, 7]"
    by (simp add: ui_objects_def fresh_object_def)
  moreover have "[i. i \<leftarrow> [0..<9], \<not> is_layout_class (cls (ui_objects ! i))] =
      [0, 2, 4, 5, 6, 7, 8]"
    by (simp add: ui_objects_def fresh_object_def upt_rec)
  moreover have "[c. c \<leftarrow> [0..<9], Some (0::nat) = Some c] = [0]"
    by (simp add: upt_rec)
  moreover note ui_below ui_owners
  ultimately show ?thesis
    by (simp add: wf_ui_objects MainWindow_init_eq Let_def)
qed

end
