(* ===== verification/Application.thy ===== *)
theory Application
  imports Main_Window
begin

text \<open>
  The block under \<open>__main__\<close> of \<open>src/main.py\<close> (lines 149 to 164) and the event loop it
  enters.

  \<open>process\<close> is the state of the running program: what it has printed, the
  \<open>QApplication\<close>, the window, and the status it exited with (\<open>None\<close> while it runs).
  \<open>create_app\<close> is the block that creates the application and sets its style and
  icon, \<open>startup\<close> the block up to \<open>window.show()\<close>; \<open>main\<close> is the whole block, given the
  events the user produces while the loop runs.

  The loop is Qt's. It is single-threaded: \<open>deliver\<close> hands one event to the window and
  runs the handlers to completion, \<open>app_exec\<close> delivers the events in order for as long
  as the window is shown, and returns when the last window (the only one) is closed or
  the events run out. An event is a click on an object, a drag of the mouse on an
  object, or the request to close the window. A click runs the slots connected to the
  object's signal \<open>clicked\<close>, in the order of connection (\<open>click\<close>). A drag runs no code
  of the program: on the canvas, the widget \<open>self.plotter\<close>, the plotter's interactor
  answers it by moving the camera, and every other object ignores it. A close request calls \<open>closeEvent\<close> with a fresh event, which Qt creates
  accepted, and hides the window if the handler leaves it accepted.
  \<open>sys.exit\<close> receives the value \<open>app.exec()\<close> returns, which is 0 after the last window
  closed.

  \<open>reachable\<close> are the states the program can be in; \<open>issued\<close> is the sequence of calls
  a sequence of events makes the plotter receive and \<open>event_output\<close> the lines an
  event makes the program print. The theorems show the invariant \<open>process_inv\<close> in every
  reachable state, that the scenes the program can show are exactly the seven of
  \<open>open_scenes\<close>, which handler a click runs, that scene and output after a run are
  those of the calls and lines of its events, that the plotter is released exactly once,
  and when the program exits.
\<close>

section \<open>The process\<close>

record qapplication =
  app_args :: "pystr list"
  app_style :: "pystr option"
  app_icon :: "pystr option"

record process =
  stdout :: console
  app :: qapplication
  window :: main_window
  exit_status :: "int option"

definition QApplication :: "pystr list \<Rightarrow> qapplication" where
  "QApplication args = \<lparr>app_args = args, app_style = None, app_icon = None\<rparr>"

definition app_style_name :: pystr where
  "app_style_name = ''Fusion''"

definition create_app :: "runtime \<Rightarrow> qapplication" where
  "create_app rt =
     (let app = QApplication (argv rt);
          app = app\<lparr>app_style := Some app_style_name\<rparr>;
          app_icon_path = get_resource_path rt icon_relative_path
      in if os_path_exists rt app_icon_path then app\<lparr>app_icon := Some app_icon_path\<rparr> else app)"

definition startup :: "runtime \<Rightarrow> process" where
  "startup rt =
     (let app = create_app rt;
          (window, out) = MainWindow_init rt;
          window = window\<lparr>visible := True\<rparr>
      in \<lparr>stdout = out, app = app, window = window, exit_status = None\<rparr>)"

section \<open>The event loop\<close>

datatype event = Click nat | Drag nat | CloseRequest

definition run_slot :: "slot \<Rightarrow> main_window \<times> console \<Rightarrow> main_window \<times> console" where
  "run_slot sl st = (case invoke sl (fst st) of (w, out) \<Rightarrow> (w, snd st @ out))"

definition click :: "nat \<Rightarrow> main_window \<Rightarrow> main_window \<times> console" where
  "click i w =
     (if i < length (objects w) then fold run_slot (clicked (objects w ! i)) (w, []) else (w, []))"

fun deliver :: "event \<Rightarrow> process \<Rightarrow> process" where
  "deliver (Click i) p =
     (case click i (window p) of (w, out) \<Rightarrow> p\<lparr>window := w, stdout := stdout p @ out\<rparr>)"
| "deliver (Drag i) p =
     (if i = interactor (window p)
      then p\<lparr>window := (window p)\<lparr>plotter := pv_exec MoveCamera (plotter (window p))\<rparr>\<rparr>
      else p)"
| "deliver CloseRequest p =
     (case closeEvent (window p) \<lparr>accepted = True\<rparr> of
        (w, ev) \<Rightarrow> p\<lparr>window := (if accepted ev then w\<lparr>visible := False\<rparr> else w)\<rparr>)"

fun app_exec :: "event list \<Rightarrow> process \<Rightarrow> process" where
  "app_exec [] p = p"
| "app_exec (e # es) p = (if visible (window p) then app_exec es (deliver e p) else p)"

definition main :: "runtime \<Rightarrow> event list \<Rightarrow> process" where
  "main rt events =
     (let p = app_exec events (startup rt)
      in if visible (window p) then p else p\<lparr>exit_status := Some 0\<rparr>)"

inductive reachable :: "runtime \<Rightarrow> process \<Rightarrow> bool" for rt where
  start: "reachable rt (startup rt)"
| step: "reachable rt p \<Longrightarrow> visible (window p) \<Longrightarrow> reachable rt (deliver e p)"

text \<open>The calls a sequence of events makes the plotter receive, given the slots
  connected to each object.\<close>

fun event_calls :: "main_window \<Rightarrow> event \<Rightarrow> pv_call list" where
  "event_calls w (Click i) =
     (if i < length (objects w) then concat (map slot_calls (clicked (objects w ! i))) else [])"
| "event_calls w (Drag i) = (if i = interactor w then [MoveCamera] else [])"
| "event_calls w CloseRequest = closeEvent_calls"

fun issued :: "main_window \<Rightarrow> event list \<Rightarrow> pv_call list" where
  "issued w [] = []"
| "issued w (e # es) = event_calls w e @ (if e = CloseRequest then [] else issued w es)"

text \<open>The lines an event makes the handlers print.\<close>

fun event_output :: "main_window \<Rightarrow> event \<Rightarrow> console" where
  "event_output w (Click i) = snd (click i w)"
| "event_output w (Drag i) = []"
| "event_output w CloseRequest = []"

text \<open>
  What holds of the scene and of the process in every state the program reaches: the
  scene is one of the three the program ever composes (the initial text, the sphere
  with its text, nothing) on a white background with the axis indicator, and the
  camera is where the user moved it or, when the user has not moved it since, where
  the library put it at the start or where the last \<open>reset_camera\<close> put it, framing
  the sphere; the window is the one the constructor built, up to the
  scene and to being shown; the plotter's resources are released exactly when the
  window is no longer shown. \<open>open_scenes\<close> are the seven scenes this leaves for a
  plotter that is not released.
\<close>

definition scene_inv :: "scene \<Rightarrow> bool" where
  "scene_inv s \<longleftrightarrow>
     background s = Some ''white'' \<and> axes s \<and>
     (camera s = CameraMoved \<and> actors s \<in> {actors ready_scene, sphere_actors, []} \<or>
      actors s = actors ready_scene \<and> camera s = CameraUnset \<or>
      actors s = sphere_actors \<and> camera s = CameraFramed [sphere] \<or>
      actors s = [] \<and> (camera s = CameraUnset \<or> camera s = CameraFramed [sphere]))"

definition open_scenes :: "scene list" where
  "open_scenes =
     [ready_scene,
      ready_scene\<lparr>actors := []\<rparr>,
      ready_scene\<lparr>actors := sphere_actors, camera := CameraFramed [sphere]\<rparr>,
      ready_scene\<lparr>actors := [], camera := CameraFramed [sphere]\<rparr>,
      ready_scene\<lparr>camera := CameraMoved\<rparr>,
      ready_scene\<lparr>actors := sphere_actors, camera := CameraMoved\<rparr>,
      ready_scene\<lparr>actors := [], camera := CameraMoved\<rparr>]"

definition process_inv :: "runtime \<Rightarrow> process \<Rightarrow> bool" where
  "process_inv rt p \<longleftrightarrow>
     (window p)\<lparr>plotter := ready_scene, visible := True\<rparr> = window (startup rt) \<and>
     app p = app (startup rt) \<and>
     exit_status p = None \<and>
     prefix (stdout (startup rt)) (stdout p) \<and>
     scene_inv (plotter (window p)) \<and>
     mesh_count (plotter (window p)) \<le> 1 \<and>
     (closed (plotter (window p)) \<longleftrightarrow> \<not> visible (window p))"

lemmas application_defs [model_defs] =
  QApplication_def app_style_name_def create_app_def startup_def run_slot_def click_def main_def

section \<open>Start\<close>

lemma startup_eq:
  "startup rt =
     \<lparr>stdout = snd (MainWindow_init rt), app = create_app rt,
      window = (fst (MainWindow_init rt))\<lparr>visible := True\<rparr>, exit_status = None\<rparr>"
  by (simp add: startup_def Let_def split: prod.splits)

lemma startup_fields [simp]:
  "stdout (startup rt) = snd (MainWindow_init rt)"
  "app (startup rt) = create_app rt"
  "window (startup rt) = (fst (MainWindow_init rt))\<lparr>visible := True\<rparr>"
  "exit_status (startup rt) = None"
  by (simp_all add: startup_eq)

lemma window_startup:
  "window (startup rt) =
     \<lparr>objects = ui_objects, window_title = window_title_text, win_size = default_size,
      window_icon =
        (if os_path_exists rt (get_resource_path rt icon_relative_path)
         then Some (get_resource_path rt icon_relative_path) else None),
      central_widget = Some 0, visible = True, sidebar = 2, interactor = 8,
      plotter = ready_scene\<rparr>"
  by (simp add: MainWindow_init_eq Let_def)

section \<open>Dispatch\<close>

lemma fst_fold_run_slot:
  "fst (fold run_slot sls st) = fold (\<lambda>sl w. fst (invoke sl w)) sls (fst st)"
  by (induction sls arbitrary: st) (simp_all add: run_slot_def split: prod.splits)

lemma fold_invoke:
  "fold (\<lambda>sl w. fst (invoke sl w)) sls w =
     w\<lparr>plotter := pv_run (concat (map slot_calls sls)) (plotter w)\<rparr>"
  by (induction sls arbitrary: w) (simp_all add: invoke_slot_calls)

lemma click_calls:
  "fst (click i w) = w\<lparr>plotter := pv_run (event_calls w (Click i)) (plotter w)\<rparr>"
  by (simp add: click_def fst_fold_run_slot fold_invoke)

lemma window_deliver:
  "window (deliver e p) =
     (window p)\<lparr>plotter := pv_run (event_calls (window p) e) (plotter (window p)),
               visible := visible (window p) \<and> e \<noteq> CloseRequest\<rparr>"
proof (cases e)
  case (Click i)
  then show ?thesis
    using click_calls [of i "window p"] by (simp add: split_beta del: event_calls.simps)
next
  case (Drag i)
  then show ?thesis by simp
next
  case CloseRequest
  then show ?thesis by (simp add: closeEvent_def)
qed

lemma event_calls_frame [simp, frame]:
  "event_calls (w\<lparr>plotter := s\<rparr>) e = event_calls w e"
  "event_calls (w\<lparr>visible := v\<rparr>) e = event_calls w e"
  by (cases e; simp)+

lemma issued_frame [simp, frame]:
  "issued (w\<lparr>plotter := s\<rparr>) es = issued w es"
  "issued (w\<lparr>visible := v\<rparr>) es = issued w es"
  by (induction es; simp del: event_calls.simps)+

lemma Close_event_calls [simp]: "Close \<in> set (event_calls w e) \<longleftrightarrow> e = CloseRequest"
  by (cases e) (simp_all add: closeEvent_calls_def)

lemma deliver_fields:
  "visible (window (deliver e p)) \<longleftrightarrow> visible (window p) \<and> e \<noteq> CloseRequest"
  "closed (plotter (window (deliver e p))) \<longleftrightarrow> closed (plotter (window p)) \<or> e = CloseRequest"
  "objects (window (deliver e p)) = objects (window p)"
  by (simp_all add: window_deliver del: deliver.simps)

lemma click_ui:
  "objects w = ui_objects \<Longrightarrow>
   click i w = (if i = 5 then plot_sphere w else if i = 6 then clear_plot w else (w, []))"
  by (simp add: click_def slots_ui run_slot_def split: prod.splits)

section \<open>The loop\<close>

lemma window_app_exec:
  "visible (window p) \<Longrightarrow>
   window (app_exec es p) =
     (window p)\<lparr>plotter := pv_run (issued (window p) es) (plotter (window p)),
               visible := CloseRequest \<notin> set es\<rparr>"
proof (induction es arbitrary: p)
  case Nil
  then show ?case by simp
next
  case (Cons e es)
  show ?case
  proof (cases "e = CloseRequest")
    case True
    with Cons.prems show ?thesis
      by (cases es) (simp_all add: window_deliver del: deliver.simps)
  next
    case False
    with Cons.prems have vis: "visible (window (deliver e p))"
      by (simp add: window_deliver del: deliver.simps)
    from Cons.IH [OF vis] Cons.prems False show ?thesis
      by (simp add: window_deliver del: deliver.simps event_calls.simps)
  qed
qed

lemma issued_append:
  "CloseRequest \<notin> set es \<Longrightarrow> issued w (es @ es') = issued w es @ issued w es'"
  by (induction es) auto

lemma Close_issued [simp]: "Close \<in> set (issued w es) \<longleftrightarrow> CloseRequest \<in> set es"
  by (induction es) auto

lemma exit_status_deliver [simp]: "exit_status (deliver e p) = exit_status p"
  by (cases e) (simp_all split: prod.splits)

lemma exit_status_app_exec [simp]: "exit_status (app_exec es p) = exit_status p"
  by (induction es arbitrary: p) (simp_all del: deliver.simps)

lemma exit_status_main:
  "exit_status (main rt es) = (if CloseRequest \<in> set es then Some 0 else None)"
proof -
  have "visible (window (startup rt))" by simp
  from window_app_exec [OF this, of es] show ?thesis
    by (simp add: main_def Let_def)
qed

lemma reachable_app_exec: "reachable rt p \<Longrightarrow> reachable rt (app_exec es p)"
  by (induction es arbitrary: p) (auto intro: reachable.step)

lemma reachable_run:
  "reachable rt p \<Longrightarrow>
   \<exists>es. p = app_exec es (startup rt) \<and> visible (window (app_exec (butlast es) (startup rt)))"
proof (induction rule: reachable.induct)
  case start
  show ?case by (rule exI [of _ "[]"]) simp
next
  case (step p e)
  then obtain es where es: "p = app_exec es (startup rt)" by blast
  have "app_exec (es @ [e]) q = deliver e (app_exec es q)"
    if "visible (window (app_exec es q))" for q
    using that by (induction es arbitrary: q) (auto split: if_splits)
  with step.hyps(2) es show ?case
    by (intro exI [of _ "es @ [e]"]) simp
qed

section \<open>One event\<close>

lemma deliver_eq:
  "deliver e p =
     p\<lparr>window := (window p)
          \<lparr>plotter := pv_run (event_calls (window p) e) (plotter (window p)),
           visible := visible (window p) \<and> e \<noteq> CloseRequest\<rparr>,
       stdout := stdout p @ event_output (window p) e\<rparr>"
proof (cases e)
  case (Click i)
  then show ?thesis
    using click_calls [of i "window p"] by (simp add: split_beta del: event_calls.simps)
next
  case (Drag i)
  then show ?thesis by simp
next
  case CloseRequest
  then show ?thesis by (simp add: closeEvent_def)
qed

lemma event_calls_ui:
  "objects w = ui_objects \<Longrightarrow>
   event_calls w (Click i) =
     (if i = 5 then plot_sphere_calls else if i = 6 then clear_plot_calls else [])"
  by (simp add: slots_ui)

lemma scene_inv_ready [simp]: "scene_inv ready_scene"
  by (simp add: scene_inv_def ready_scene_def)

lemma scene_inv_event:
  assumes "scene_inv s" and "objects w = ui_objects"
  shows "scene_inv (pv_run (event_calls w e) s)"
proof (cases e)
  case (Click i)
  with assms show ?thesis
    by (auto simp: event_calls_ui handler_runs scene_inv_def simp del: event_calls.simps)
next
  case (Drag i)
  with assms show ?thesis by (auto simp: scene_inv_def)
next
  case CloseRequest
  with assms show ?thesis by (simp add: handler_runs scene_inv_def)
qed

lemma mesh_count_event:
  assumes "mesh_count s \<le> 1" and "objects w = ui_objects"
  shows "mesh_count (pv_run (event_calls w e) s) \<le> 1"
proof (cases e)
  case (Click i)
  with assms show ?thesis
    by (simp add: event_calls_ui handler_runs mesh_count_def del: event_calls.simps)
next
  case (Drag i)
  with assms show ?thesis by (simp add: mesh_count_def)
next
  case CloseRequest
  with assms show ?thesis by (simp add: handler_runs mesh_count_def)
qed

lemma process_inv_objects:
  assumes "process_inv rt p"
  shows "objects (window p) = ui_objects"
proof -
  have "objects (window p) = objects ((window p)\<lparr>plotter := ready_scene, visible := True\<rparr>)"
    by simp
  also from assms have "\<dots> = objects (window (startup rt))"
    by (simp only: process_inv_def)
  finally show ?thesis by simp
qed

lemma process_inv_startup: "process_inv rt (startup rt)"
  by (simp add: process_inv_def MainWindow_init_eq Let_def mesh_count_def ready_scene_def
      scene_inv_def)

lemma process_inv_deliver:
  assumes "process_inv rt p" and "visible (window p)"
  shows "process_inv rt (deliver e p)"
proof -
  note obs = process_inv_objects [OF assms(1)]
  from assms have "\<not> closed (plotter (window p))"
    by (simp add: process_inv_def)
  moreover from assms(1) have "scene_inv (plotter (window p))" "mesh_count (plotter (window p)) \<le> 1"
    by (simp_all add: process_inv_def)
  moreover from assms(1)
  have "(window p)\<lparr>plotter := ready_scene, visible := True\<rparr> = window (startup rt)"
    "app p = app (startup rt)" "exit_status p = None" "prefix (stdout (startup rt)) (stdout p)"
    by (simp_all only: process_inv_def)
  ultimately show ?thesis
    using assms(2) scene_inv_event [OF _ obs, of "plotter (window p)" e]
      mesh_count_event [OF _ obs, of "plotter (window p)" e]
    by (simp add: process_inv_def deliver_eq del: deliver.simps event_calls.simps)
qed

lemma reachable_process_inv: "reachable rt p \<Longrightarrow> process_inv rt p"
  by (induction rule: reachable.induct)
    (simp_all add: process_inv_startup process_inv_deliver del: deliver.simps)

section \<open>Properties of the running program\<close>

text \<open>
  C4: Every state the program reaches satisfies the invariant \<open>process_inv\<close>: the window
  is the one the constructor built, up to its scene and to being shown; the scene has a
  white background, the axis indicator and at most one mesh, and is one of the three
  the program composes; application, exit status and the output of the start are
  untouched; the plotter's resources are released exactly when the window is no longer
  shown.
\<close>

theorem reachable_invariant:
  assumes "reachable rt p"
  shows "process_inv rt p"
  using assms
proof (induction rule: reachable.induct)
  case start
  show ?case
    by (simp add: process_inv_def startup_def MainWindow_init_eq Let_def mesh_count_def
        ready_scene_def scene_inv_def)
next
  case (step p e)
  then show ?case by (simp add: process_inv_deliver del: deliver.simps)
qed

theorem reachable_invariant_witness:
  "process_inv example_packaged (deliver (Click 5) (startup example_packaged))"
proof -
  have "reachable example_packaged (deliver (Click 5) (startup example_packaged))"
    by (rule reachable.step [OF reachable.start]) simp
  then show ?thesis by (rule reachable_invariant)
qed

text \<open>
  C14: A click on the button that draws the sphere runs \<open>plot_sphere\<close>, a click on the
  button that clears the canvas runs \<open>clear_plot\<close>, and the line the handler prints is
  added to the output; a click on any other object, or on no object, changes nothing.
  This holds in every state the program reaches.
\<close>

theorem click_dispatch:
  assumes "reachable rt p"
  shows "deliver (Click i) p =
     (if i < length (objects (window p)) \<and> caption (objects (window p) ! i) = btn_sphere_text
      then p\<lparr>window := fst (plot_sphere (window p)), stdout := stdout p @ [sphere_done_msg]\<rparr>
      else if i < length (objects (window p)) \<and> caption (objects (window p) ! i) = btn_clear_text
      then p\<lparr>window := fst (clear_plot (window p)), stdout := stdout p @ [cleared_msg]\<rparr>
      else p)"
proof -
  from assms have obs: "objects (window p) = ui_objects"
    by (intro process_inv_objects reachable_process_inv)
  show ?thesis
  proof (cases "i < length ui_objects")
    case True
    with captions_ui [OF True] obs show ?thesis
      by (auto simp: click_def slots_ui run_slot_def plot_sphere_def clear_plot_def)
  next
    case False
    with obs show ?thesis by (simp add: click_def)
  qed
qed

theorem click_dispatch_witness:
  "stdout (deliver (Click 5) (startup example_packaged)) = [sphere_done_msg] \<and>
   mesh_count (plotter (window (deliver (Click 5) (startup example_packaged)))) = 1"
  using click_dispatch [OF reachable.start, of 5 example_packaged] captions_ui [of 5]
  by (simp add: MainWindow_init_eq Let_def plot_sphere_def handler_runs mesh_count_def
      example_packaged_def os_path_exists_def get_resource_path_def icon_relative_path_eq
      endswith_sep_def del: deliver.simps)

text \<open>
  C22: The scene after a run of the event loop is the scene the calls \<open>issued\<close>, those
  of the handlers and the movements of the camera, produce in order from the scene
  before; the window is otherwise unchanged, and it
  is still shown exactly when no close request was among the events.
\<close>

theorem plotter_replay:
  assumes "visible (window p)"
  shows "window (app_exec es p) =
           (window p)\<lparr>plotter := pv_run (issued (window p) es) (plotter (window p)),
                     visible := CloseRequest \<notin> set es\<rparr>"
  using assms by (rule window_app_exec)

theorem plotter_replay_witness:
  "plotter (window (app_exec [Click 5, Drag 8, Click 6, CloseRequest, Click 5]
     (startup example_packaged))) =
     ready_scene\<lparr>actors := [], camera := CameraMoved, closed := True\<rparr>"
  using plotter_replay
    [of "startup example_packaged" "[Click 5, Drag 8, Click 6, CloseRequest, Click 5]"]
  by (simp add: MainWindow_init_eq Let_def slots_ui handler_runs ready_scene_def)

text \<open>
  C9: The plotter's resources are released exactly once when a close request is among
  the events, as the last call the program issues, and never otherwise: no handler
  calls the plotter after \<open>close\<close>.
\<close>

theorem close_releases_once:
  "count_list (issued w es) Close = (if CloseRequest \<in> set es then 1 else 0) \<and>
   (CloseRequest \<in> set es \<longrightarrow> last (issued w es) = Close)"
proof (induction es)
  case Nil
  show ?case by simp
next
  case (Cons e es)
  have "count_list (event_calls w e) Close = (if e = CloseRequest then 1 else 0)"
    by (cases e) (simp_all add: closeEvent_calls_def count_list_0_iff)
  moreover have "issued w es \<noteq> []" if "CloseRequest \<in> set es"
  proof
    assume "issued w es = []"
    with Close_issued [of w es] that show False by simp
  qed
  moreover have "event_calls w CloseRequest = [Close]"
    by (simp add: closeEvent_calls_def)
  ultimately show ?case
    using Cons.IH by (auto simp del: event_calls.simps)
qed

theorem close_releases_once_witness:
  "count_list (issued (window (startup example_packaged)) [Click 5, CloseRequest, Click 6]) Close = 1 \<and>
   last (issued (window (startup example_packaged)) [Click 5, CloseRequest, Click 6]) = Close"
  using close_releases_once [of "window (startup example_packaged)" "[Click 5, CloseRequest, Click 6]"]
  by simp

text \<open>
  C21: The program exits, with status 0, exactly when a close request is among the
  events; then the window is hidden and the plotter's resources are released. Without
  a close request the loop is still running when the events end: the window is shown
  and the resources are held.
\<close>

theorem main_exit_status:
  "exit_status (main rt es) = (if CloseRequest \<in> set es then Some 0 else None) \<and>
   visible (window (main rt es)) = (CloseRequest \<notin> set es) \<and>
   closed (plotter (window (main rt es))) = (CloseRequest \<in> set es)"
proof -
  have vis: "visible (window (startup rt))" by simp
  then show ?thesis
    by (simp add: main_def Let_def window_app_exec [OF vis] MainWindow_init_eq ready_scene_def
        exit_status_app_exec)
qed

text \<open>
  Events that arrive after a close request are never delivered: a run with events
  after the first close request ends in the state of the run that stops at it.
\<close>

lemma events_after_close_ignored:
  "main rt (es @ CloseRequest # es') = main rt (es @ [CloseRequest])"
proof -
  have "app_exec (es @ CloseRequest # es') p = app_exec (es @ [CloseRequest]) p" for p
  proof (induction es arbitrary: p)
    case Nil
    have "\<not> visible (window (deliver CloseRequest p))" by (simp add: closeEvent_def)
    then show ?case by (cases es') (simp_all del: deliver.simps)
  next
    case (Cons e es)
    then show ?case by (simp del: deliver.simps)
  qed
  then show ?thesis by (simp add: main_def)
qed

text \<open>
  C34: The program starts with the application in style \<open>Fusion\<close>, created from
  \<open>sys.argv\<close>, and the window shown. Application icon and window icon agree: both are
  made from the resolved path when the file exists and both are unset otherwise. A
  missing file is reported by one line, the warning of the window's constructor; the
  check at application level prints nothing.
\<close>

theorem startup_state:
  "app_args (app (startup rt)) = argv rt \<and>
   app_style (app (startup rt)) = Some ''Fusion'' \<and>
   app_icon (app (startup rt)) = window_icon (window (startup rt)) \<and>
   stdout (startup rt) =
     (if os_path_exists rt (get_resource_path rt icon_relative_path) then []
      else [icon_warning (get_resource_path rt icon_relative_path)]) \<and>
   visible (window (startup rt)) \<and> exit_status (startup rt) = None"
  by (simp add: create_app_def QApplication_def app_style_name_def MainWindow_init_eq Let_def)

section \<open>Output\<close>

lemma snd_fold_run_slot:
  "snd (fold run_slot sls st) = snd st @ concat (map slot_output sls)"
  by (induction sls arbitrary: st) (simp_all add: run_slot_def snd_invoke split_beta)

lemma event_output_frame [simp, frame]:
  "event_output (w\<lparr>plotter := s\<rparr>) e = event_output w e"
  "event_output (w\<lparr>visible := v\<rparr>) e = event_output w e"
  by (cases e; simp add: click_def snd_fold_run_slot)+

lemma app_exec_hidden [simp]: "\<not> visible (window p) \<Longrightarrow> app_exec es p = p"
  by (cases es) simp_all

text \<open>
  C35: What the program has printed after a run of the event loop is what it had
  printed before, followed by the lines of the events up to the first close request,
  in the order of the events.
\<close>

theorem stdout_trace:
  assumes "visible (window p)"
  shows "stdout (app_exec es p) =
           stdout p @
           concat (map (event_output (window p)) (takeWhile (\<lambda>e. e \<noteq> CloseRequest) es))"
  using assms
proof (induction es arbitrary: p)
  case Nil
  show ?case by simp
next
  case (Cons e es)
  show ?case
  proof (cases "e = CloseRequest")
    case True
    with Cons.prems show ?thesis by (simp add: deliver_eq del: deliver.simps)
  next
    case False
    with Cons.prems have "visible (window (deliver e p))"
      by (simp add: deliver_eq del: deliver.simps)
    from Cons.IH [OF this] Cons.prems False show ?thesis
      by (simp add: deliver_eq del: deliver.simps event_calls.simps event_output.simps)
  qed
qed

theorem stdout_trace_witness:
  "stdout (app_exec [Click 5, Click 0, Drag 8, Click 6, CloseRequest, Click 5]
     (startup example_packaged)) =
     [sphere_done_msg, cleared_msg]"
  using stdout_trace
    [of "startup example_packaged" "[Click 5, Click 0, Drag 8, Click 6, CloseRequest, Click 5]"]
  by (simp add: MainWindow_init_eq Let_def click_ui plot_sphere_def clear_plot_def
      example_packaged_def os_path_exists_def get_resource_path_def icon_relative_path_eq
      endswith_sep_def)

section \<open>The scenes the program shows\<close>

lemma scene_inv_open_scenes: "scene_inv s \<longleftrightarrow> s\<lparr>closed := False\<rparr> \<in> set open_scenes"
  by (cases s) (auto simp: scene_inv_def open_scenes_def ready_scene_def)

lemma scene_after_events:
  "visible (window (app_exec es (startup rt))) = (CloseRequest \<notin> set es) \<and>
   plotter (window (app_exec es (startup rt))) =
     pv_run (issued (window (startup rt)) es) ready_scene"
proof -
  have "visible (window (startup rt))" by simp
  from window_app_exec [OF this, of es] show ?thesis
    by (simp add: MainWindow_init_eq Let_def)
qed

lemma open_scene_reachable:
  assumes "s \<in> set open_scenes"
  shows "\<exists>es. CloseRequest \<notin> set es \<and> plotter (window (app_exec es (startup rt))) = s"
proof -
  have
    "plotter (window (app_exec [] (startup rt))) = ready_scene"
    "plotter (window (app_exec [Click 6] (startup rt))) = ready_scene\<lparr>actors := []\<rparr>"
    "plotter (window (app_exec [Click 5] (startup rt))) =
       ready_scene\<lparr>actors := sphere_actors, camera := CameraFramed [sphere]\<rparr>"
    "plotter (window (app_exec [Click 5, Click 6] (startup rt))) =
       ready_scene\<lparr>actors := [], camera := CameraFramed [sphere]\<rparr>"
    "plotter (window (app_exec [Drag 8] (startup rt))) = ready_scene\<lparr>camera := CameraMoved\<rparr>"
    "plotter (window (app_exec [Click 5, Drag 8] (startup rt))) =
       ready_scene\<lparr>actors := sphere_actors, camera := CameraMoved\<rparr>"
    "plotter (window (app_exec [Click 6, Drag 8] (startup rt))) =
       ready_scene\<lparr>actors := [], camera := CameraMoved\<rparr>"
    by (simp_all only: scene_after_events)
      (simp_all add: MainWindow_init_eq Let_def slots_ui handler_runs ready_scene_def)
  with assms show ?thesis
    unfolding open_scenes_def
    by (auto intro: exI [of _ "[]"] exI [of _ "[Click 6]"] exI [of _ "[Click 5]"]
        exI [of _ "[Click 5, Click 6]"] exI [of _ "[Drag 8]"]
        exI [of _ "[Click 5, Drag 8]"] exI [of _ "[Click 6, Drag 8]"])
qed

text \<open>
  C18: The scenes the program can show are exactly seven, each with the plotter open or
  released: the initial text with the camera as the library set it, the sphere framed
  by the camera, the empty canvas with the camera in either of these two positions,
  and each of the three contents with the camera where the user moved it. Each of them
  is reached by some sequence of events, and no run reaches another.
\<close>

theorem reachable_scenes:
  "(\<exists>p. reachable rt p \<and> plotter (window p) = s) \<longleftrightarrow> s\<lparr>closed := False\<rparr> \<in> set open_scenes"
proof
  assume "\<exists>p. reachable rt p \<and> plotter (window p) = s"
  then obtain p where "reachable rt p" and "plotter (window p) = s" by blast
  with reachable_process_inv [of rt p] show "s\<lparr>closed := False\<rparr> \<in> set open_scenes"
    by (simp add: process_inv_def scene_inv_open_scenes)
next
  assume "s\<lparr>closed := False\<rparr> \<in> set open_scenes"
  from open_scene_reachable [OF this, of rt] obtain es
    where es: "CloseRequest \<notin> set es"
      "plotter (window (app_exec es (startup rt))) = s\<lparr>closed := False\<rparr>"
    by blast
  let ?es = "if closed s then es @ [CloseRequest] else es"
  from es scene_after_events [of es rt] scene_after_events [of "es @ [CloseRequest]" rt]
  have "plotter (window (app_exec ?es (startup rt))) = s"
    by (cases s) (auto simp: issued_append closeEvent_calls_def)
  moreover have "reachable rt (app_exec ?es (startup rt))"
    by (intro reachable_app_exec reachable.start)
  ultimately show "\<exists>p. reachable rt p \<and> plotter (window p) = s" by blast
qed

section \<open>The step relation and the loop\<close>


text \<open>
  A reachable state with the window hidden is the result of a close request delivered
  in a reachable state with the window shown: nothing but \<open>closeEvent\<close> hides the
  window, and nothing is delivered after it.
\<close>

lemma hidden_after_close:
  assumes "reachable rt p" and "\<not> visible (window p)"
  shows "\<exists>q. reachable rt q \<and> visible (window q) \<and> p = deliver CloseRequest q"
  using assms
proof (cases rule: reachable.cases)
  case start
  with assms(2) show ?thesis by simp
next
  case (step q e)
  with assms(2) have "e = CloseRequest"
    by (simp add: deliver_eq del: deliver.simps)
  with step show ?thesis by blast
qed

end
