(* ===== verification/Plotter_Errors.thy ===== *)
theory Plotter_Errors
  imports Plotter
begin

text \<open>
  The calls of the plotter as calls that may raise. \<open>Plotter\<close> gives the effect of a call
  that succeeds; this theory adds when a call succeeds at all, so that the claim of the
  program's specification, that its calls use fixed and always valid inputs, becomes a
  statement that can be proved.

  A call raises for one of two reasons. The plotter has been released: every call but
  \<open>close\<close> on a closed plotter raises \<open>PlotterClosed\<close>, and \<open>close\<close> may be repeated.
  Or an argument is outside the domain the library accepts (\<open>pv_check\<close>): a colour name
  that is not in the library's colour table, an opacity outside the interval from 0 to
  1, a text position that is not one of the eight corner and edge names. The colour
  table is a parameter of the check: the development needs of it only that it holds
  the names the program passes.

  \<open>pv_try\<close> is one call and \<open>pv_try_run\<close> a sequence of calls, as Python runs a sequence
  of statements: it stops at the first call that raises and returns the scene reached
  by then together with the error, or the final scene and no error.

  The lemmas relate the two semantics (a run that raises nothing is the run of
  \<open>Plotter\<close>), decompose runs over appended call lists, locate the call at which a run
  raises, and characterise the runs that raise nothing by the checks of their calls.
\<close>

section \<open>Errors and argument checks\<close>

datatype pv_error =
    PlotterClosed
  | BadColor pystr
  | BadOpacity real
  | BadPosition pystr

definition text_positions :: "pystr list" where
  "text_positions =
     [''lower_left'', ''lower_right'', ''upper_left'', ''upper_right'',
      ''lower_edge'', ''upper_edge'', ''right_edge'', ''left_edge'']"

fun pv_check :: "pystr set \<Rightarrow> pv_call \<Rightarrow> pv_error option" where
  "pv_check colors (SetBackground c) = (if c \<in> colors then None else Some (BadColor c))"
| "pv_check colors (AddMesh d c e p o') =
     (if c \<notin> colors then Some (BadColor c)
      else if o' < 0 \<or> 1 < o' then Some (BadOpacity o')
      else None)"
| "pv_check colors (AddText t pos c) =
     (if pos \<notin> set text_positions then Some (BadPosition pos)
      else if c \<notin> colors then Some (BadColor c)
      else None)"
| "pv_check colors c = None"

section \<open>Calls that may raise\<close>

definition pv_try :: "pystr set \<Rightarrow> pv_call \<Rightarrow> scene \<Rightarrow> pv_error + scene" where
  "pv_try colors c s =
     (if closed s \<and> c \<noteq> Close then Inl PlotterClosed
      else case pv_check colors c of
             Some e \<Rightarrow> Inl e
           | None \<Rightarrow> Inr (pv_exec c s))"

fun pv_try_run :: "pystr set \<Rightarrow> pv_call list \<Rightarrow> scene \<Rightarrow> scene \<times> pv_error option" where
  "pv_try_run colors [] s = (s, None)"
| "pv_try_run colors (c # cs) s =
     (case pv_try colors c s of
        Inl e \<Rightarrow> (s, Some e)
      | Inr s' \<Rightarrow> pv_try_run colors cs s')"

lemmas plotter_error_defs [model_defs] = text_positions_def pv_try_def

section \<open>Runs that raise nothing\<close>

lemma pv_try_Inr:
  "pv_try colors c s = Inr s' \<longleftrightarrow>
     (closed s \<longrightarrow> c = Close) \<and> pv_check colors c = None \<and> s' = pv_exec c s"
  by (auto simp: pv_try_def split: option.splits)

lemma pv_try_closed: "closed s \<Longrightarrow> c \<noteq> Close \<Longrightarrow> pv_try colors c s = Inl PlotterClosed"
  by (simp add: pv_try_def)

lemma pv_try_run_append:
  "pv_try_run colors (cs @ ds) s =
     (case pv_try_run colors cs s of
        (s', None) \<Rightarrow> pv_try_run colors ds s'
      | (s', Some e) \<Rightarrow> (s', Some e))"
  by (induction cs arbitrary: s) (simp_all split: sum.splits)

text \<open>
  A run that raises ends at one call: the calls before it raised nothing, and the scene
  returned is the scene that call was made on.
\<close>

lemma pv_try_run_raisedI:
  assumes "pv_try_run colors as s = (t, None)" and "pv_try colors c t = Inl e"
  shows "pv_try_run colors (as @ c # bs) s = (t, Some e)"
  using assms by (simp add: pv_try_run_append)

lemma pv_try_run_raisedD:
  assumes "pv_try_run colors cs s = (t, Some e)"
  shows "\<exists>as c bs. cs = as @ c # bs \<and> pv_try_run colors as s = (t, None) \<and>
           pv_try colors c t = Inl e"
  using assms
proof (induction cs arbitrary: s)
  case Nil
  then show ?case by simp
next
  case (Cons d ds)
  show ?case
  proof (cases "pv_try colors d s")
    case (Inl e')
    with Cons.prems have "d # ds = [] @ d # ds" "pv_try_run colors [] s = (t, None)"
      "pv_try colors d t = Inl e"
      by simp_all
    then show ?thesis by blast
  next
    case (Inr s')
    with Cons.prems have "pv_try_run colors ds s' = (t, Some e)" by simp
    from Cons.IH [OF this] obtain as c bs
      where "ds = as @ c # bs" "pv_try_run colors as s' = (t, None)" "pv_try colors c t = Inl e"
      by blast
    with Inr have "d # ds = (d # as) @ c # bs" "pv_try_run colors (d # as) s = (t, None)"
      "pv_try colors c t = Inl e"
      by simp_all
    then show ?thesis by blast
  qed
qed

lemma pv_try_run_raised:
  "pv_try_run colors cs s = (t, Some e) \<longleftrightarrow>
     (\<exists>as c bs. cs = as @ c # bs \<and> pv_try_run colors as s = (t, None) \<and>
        pv_try colors c t = Inl e)"
proof
  assume "pv_try_run colors cs s = (t, Some e)"
  then show "\<exists>as c bs. cs = as @ c # bs \<and> pv_try_run colors as s = (t, None) \<and>
      pv_try colors c t = Inl e"
    by (rule pv_try_run_raisedD)
next
  assume "\<exists>as c bs. cs = as @ c # bs \<and> pv_try_run colors as s = (t, None) \<and>
      pv_try colors c t = Inl e"
  then show "pv_try_run colors cs s = (t, Some e)"
    by (auto intro: pv_try_run_raisedI)
qed

text \<open>
  A run on an open plotter raises nothing exactly when every call passes its check and
  nothing follows a \<open>close\<close>; it then is the run of \<open>Plotter\<close>.
\<close>

fun close_last :: "pv_call list \<Rightarrow> bool" where
  "close_last [] = True"
| "close_last (c # cs) = (if c = Close then list_all (\<lambda>d. d = Close) cs else close_last cs)"

lemma pv_try_run_all_close:
  "list_all (\<lambda>d. d = Close) cs \<Longrightarrow> pv_try_run colors cs s = (pv_run cs s, None)"
  by (induction cs arbitrary: s) (simp_all add: pv_try_def)

lemma pv_try_run_ok:
  assumes "\<not> closed s" and "list_all (\<lambda>c. pv_check colors c = None) cs" and "close_last cs"
  shows "pv_try_run colors cs s = (pv_run cs s, None)"
  using assms
proof (induction cs arbitrary: s)
  case Nil
  show ?case by simp
next
  case (Cons c cs)
  show ?case
  proof (cases "c = Close")
    case True
    with Cons.prems pv_try_run_all_close [of cs colors "pv_exec Close s"] show ?thesis
      by (simp add: pv_try_def)
  next
    case False
    with Cons.prems have "\<not> closed (pv_exec c s)" by simp
    with Cons.prems False Cons.IH [of "pv_exec c s"] show ?thesis
      by (simp add: pv_try_def)
  qed
qed

lemma pv_try_run_raises_closed:
  assumes "closed s" and "cs \<noteq> []" and "hd cs \<noteq> Close"
  shows "pv_try_run colors cs s = (s, Some PlotterClosed)"
  using assms by (cases cs) (simp_all add: pv_try_def)

lemma pv_try_run_sound:
  "snd (pv_try_run colors cs s) = None \<Longrightarrow> fst (pv_try_run colors cs s) = pv_run cs s"
  by (induction cs arbitrary: s) (auto simp: pv_try_def split: option.splits if_splits)

lemma pv_try_run_ok_iff:
  assumes "\<not> closed s"
  shows "snd (pv_try_run colors cs s) = None \<longleftrightarrow>
           list_all (\<lambda>c. pv_check colors c = None) cs \<and> close_last cs"
  using assms
proof (induction cs arbitrary: s)
  case Nil
  show ?case by simp
next
  case (Cons c cs)
  have closed_run: "snd (pv_try_run colors ds t) = None \<longleftrightarrow> list_all (\<lambda>d. d = Close) ds"
    if "closed t" for ds t
    using that by (induction ds arbitrary: t) (auto simp: pv_try_def)
  have checks: "list_all (\<lambda>c. pv_check colors c = None) ds" if "list_all (\<lambda>d. d = Close) ds" for ds
    using that by (induction ds) auto
  show ?case
  proof (cases "c = Close")
    case True
    with Cons.prems closed_run [of "pv_exec Close s" cs] checks [of cs] show ?thesis
      by (auto simp: pv_try_def)
  next
    case False
    with Cons.prems have "\<not> closed (pv_exec c s)" by simp
    from Cons.IH [OF this] Cons.prems False show ?thesis
      by (auto simp: pv_try_def split: option.splits)
  qed
qed

end
