(* ===== verification/Py_Console.thy ===== *)
theory Py_Console
  imports MCM_Prelude
begin

text \<open>
  Python's \<open>print\<close> and the stream it writes to. \<open>src/main.py\<close> prints three messages and
  one warning, each with characters outside ASCII; whether a \<open>print\<close> succeeds depends on
  \<open>sys.stdout\<close>, which the program does not choose.

  \<open>sys.stdout\<close> is \<open>None\<close> in a process started without a console (\<open>NoStdout\<close>): \<open>print\<close>
  then returns at once and writes nothing. Otherwise it is a text stream with an
  encoding and the error handler \<open>strict\<close> (\<open>Stdout\<close>): \<open>print\<close> encodes the whole string
  before it writes, so a string the encoding cannot represent raises
  \<open>UnicodeEncodeError\<close> and nothing of it appears. An encoding is given by the strings it
  can encode (\<open>codec\<close>); \<open>utf8_codec\<close> encodes all of them, \<open>ascii_codec\<close> those whose
  bytes are below 128, since a \<open>pystr\<close> holds the UTF-8 bytes of the string.

  \<open>py_exception\<close> are the exceptions of the development: the one \<open>print\<close> raises, the
  two an import statement raises (for a module that is not found, and for a name a
  module does not define), and those of a library, whose type is a parameter. \<open>py_print\<close> is one call of \<open>print\<close> with
  one argument. \<open>accepts\<close> says that a call raises nothing, and \<open>shown\<close> and \<open>refused\<close>
  split the lines a program tries to print, when every exception of \<open>print\<close> is caught,
  into those that appear and those that raise; \<open>raised\<close> is the exception of the first
  line that raises.
\<close>

section \<open>Streams and exceptions\<close>

type_synonym codec = "pystr \<Rightarrow> bool"

datatype py_stdout = NoStdout | Stdout codec

datatype 'e py_exception =
    UnicodeEncodeError pystr
  | ModuleNotFoundError pystr
  | ImportError pystr pystr
  | LibraryError 'e

definition py_print :: "py_stdout \<Rightarrow> pystr \<Rightarrow> 'e py_exception + console" where
  "py_print out s =
     (case out of
        NoStdout \<Rightarrow> Inr []
      | Stdout enc \<Rightarrow> if enc s then Inr [s] else Inl (UnicodeEncodeError s))"

definition utf8_codec :: codec where
  "utf8_codec s = True"

definition ascii_codec :: codec where
  "ascii_codec s = list_all (\<lambda>c. of_char c < (128 :: nat)) s"

section \<open>What appears and what raises\<close>

fun accepts :: "py_stdout \<Rightarrow> pystr \<Rightarrow> bool" where
  "accepts NoStdout s = True"
| "accepts (Stdout enc) s = enc s"

fun shown :: "py_stdout \<Rightarrow> console \<Rightarrow> console" where
  "shown NoStdout ls = []"
| "shown (Stdout enc) ls = filter enc ls"

definition refused :: "py_stdout \<Rightarrow> console \<Rightarrow> console" where
  "refused out ls = filter (\<lambda>s. \<not> accepts out s) ls"

text \<open>
  \<open>raised\<close> is the exception that ends a block whose only fallible statements are the
  \<open>print\<close>s of the given lines, and \<open>reports\<close> turns the exception a block ended with, if
  any, into the list of exceptions a caller that catches them has seen.
\<close>

definition raised :: "py_stdout \<Rightarrow> console \<Rightarrow> 'e py_exception option" where
  "raised out ls = map_option UnicodeEncodeError (find (\<lambda>s. \<not> accepts out s) ls)"

fun reports :: "'a option \<Rightarrow> 'a list" where
  "reports None = []"
| "reports (Some e) = [e]"

lemmas console_defs [model_defs] =
  py_print_def utf8_codec_def ascii_codec_def refused_def raised_def

lemma py_print_eq:
  "py_print out s = (if accepts out s then Inr (shown out [s]) else Inl (UnicodeEncodeError s))"
  by (cases out) (simp_all add: py_print_def)

lemma py_print_Inr: "py_print out s = Inr ls \<longleftrightarrow> accepts out s \<and> ls = shown out [s]"
  by (auto simp: py_print_eq)

lemma py_print_Inl:
  "py_print out s = Inl e \<longleftrightarrow> \<not> accepts out s \<and> e = UnicodeEncodeError s"
  by (auto simp: py_print_eq)

lemma shown_simps [simp]:
  "shown out [] = []"
  "shown out (ls @ ls') = shown out ls @ shown out ls'"
  "shown out (s # t # ls) = shown out [s] @ shown out (t # ls)"
  by (cases out; simp)+

lemma refused_simps [simp]:
  "refused out [] = []"
  "refused out (ls @ ls') = refused out ls @ refused out ls'"
  "refused out (s # ls) = (if accepts out s then refused out ls else s # refused out ls)"
  by (simp_all add: refused_def)

lemma raised_simps [simp]:
  "raised out [] = None"
  "raised out (s # ls) = (if accepts out s then raised out ls else Some (UnicodeEncodeError s))"
  by (simp_all add: raised_def)

lemma reports_raised: "reports (raised out [s]) = map UnicodeEncodeError (refused out [s])"
  by simp

lemma raised_None: "raised out ls = None \<longleftrightarrow> list_all (accepts out) ls"
  by (induction ls) simp_all

lemma shown_refused [simp]: "\<not> accepts out s \<Longrightarrow> shown out [s] = []"
  by (cases out) simp_all

text \<open>
  A stream that accepts every line of a console shows all of it, unless there is no
  stream; no line is both shown and refused, and with a stream none is lost.
\<close>

lemma shown_all: "list_all enc ls \<Longrightarrow> shown (Stdout enc) ls = ls"
  by (simp add: list_all_iff)

lemma refused_none: "list_all (accepts out) ls \<longleftrightarrow> refused out ls = []"
  by (induction ls) simp_all

lemma shown_refused_length:
  "length (shown (Stdout enc) ls) + length (refused (Stdout enc) ls) = length ls"
  by (simp add: refused_def sum_length_filter_compl)

lemma shown_refused_disjoint: "set (shown out ls) \<inter> set (refused out ls) = {}"
  by (cases out) (auto simp: refused_def)

lemma utf8_accepts [simp]: "accepts (Stdout utf8_codec) s"
  by (simp add: utf8_codec_def)

lemma ascii_codec_simps [simp]:
  "ascii_codec []"
  "ascii_codec (c # s) \<longleftrightarrow> of_char c < (128 :: nat) \<and> ascii_codec s"
  "ascii_codec (s @ t) \<longleftrightarrow> ascii_codec s \<and> ascii_codec t"
  by (simp_all add: ascii_codec_def)

end
