(* ===== verification/Window_Errors.thy ===== *)
theory Window_Errors
  imports Main_Window Plotter_Errors Py_Console
begin

text \<open>
  The methods of \<open>MainWindow\<close> as Python runs them when a statement raises: the
  statements before it have taken effect, the rest of the method is skipped, and the
  exception leaves the method. Two kinds of statement can raise: a call of the plotter
  (\<open>Plotter_Errors\<close>) and a \<open>print\<close> (\<open>Py_Console\<close>). The colour table of the library and
  the stream \<open>sys.stdout\<close> are parameters.

  A handler with exceptions returns the window, the lines that appeared and the
  exception, if any. \<open>plot_sphere_try\<close>, \<open>clear_plot_try\<close> and \<open>closeEvent_try\<close> are the
  three handlers and \<open>invoke_try\<close> is the method a slot stands for.
  \<open>init_canvas_try\<close> is the part of \<open>init_ui\<close> that calls the plotter (lines 105 to 111)
  and \<open>init_ui_try\<close> the method; \<open>load_window_icon_try\<close> is the icon block of \<open>__init__\<close>
  with its \<open>print\<close>, and \<open>MainWindow_init_try\<close> the constructor, which returns the lines
  that appeared and the window or the exception that ended it.

  The theorems show that every argument the program passes to the plotter lies in the
  domain of its call; that a handler called on an open plotter, with a colour table
  that knows the three colours the program names (\<open>needed_colors\<close>), does to the window
  what the method of \<open>Main_Window\<close> does, whatever the stream is, because the \<open>print\<close> is
  its last statement; that the constructor builds the window of \<open>Main_Window\<close> unless
  the warning about the icon cannot be printed; and what is left behind when a call
  raises.
\<close>

section \<open>Methods with exceptions\<close>

type_synonym py_error = "pv_error py_exception"

definition init_canvas_try :: "pystr set \<Rightarrow> scene \<times> pv_error option" where
  "init_canvas_try colors = pv_try_run colors init_canvas_calls QtInteractor"

definition init_ui_try :: "pystr set \<Rightarrow> slot qmainwindow \<Rightarrow> py_error + main_window" where
  "init_ui_try colors self =
     (case init_canvas_try colors of
        (s, None) \<Rightarrow> Inr ((init_ui self)\<lparr>plotter := s\<rparr>)
      | (s, Some e) \<Rightarrow> Inl (LibraryError e))"

definition load_window_icon_try ::
  "py_stdout \<Rightarrow> runtime \<Rightarrow> slot qmainwindow \<Rightarrow> py_error + slot qmainwindow \<times> console" where
  "load_window_icon_try out rt self =
     (let icon_path = get_resource_path rt icon_relative_path
      in if os_path_exists rt icon_path
         then Inr (exec_state (setWindowIcon icon_path) self, [])
         else (case py_print out (icon_warning icon_path) of
                 Inl e \<Rightarrow> Inl e
               | Inr lines \<Rightarrow> Inr (self, lines)))"

definition MainWindow_init_try ::
  "pystr set \<Rightarrow> py_stdout \<Rightarrow> runtime \<Rightarrow> console \<times> (py_error + main_window)" where
  "MainWindow_init_try colors out rt =
     (let self = QMainWindow;
          self = exec_state (setWindowTitle window_title_text) self;
          self = exec_state (resize (fst default_size) (snd default_size)) self
      in case load_window_icon_try out rt self of
           Inl e \<Rightarrow> ([], Inl e)
         | Inr (self, lines) \<Rightarrow> (lines, init_ui_try colors self))"

definition plot_sphere_try ::
  "pystr set \<Rightarrow> py_stdout \<Rightarrow> main_window \<Rightarrow> main_window \<times> console \<times> py_error option" where
  "plot_sphere_try colors out self =
     (case pv_try_run colors plot_sphere_calls (plotter self) of
        (s, Some e) \<Rightarrow> (self\<lparr>plotter := s\<rparr>, [], Some (LibraryError e))
      | (s, None) \<Rightarrow>
          (case py_print out sphere_done_msg of
             Inl e \<Rightarrow> (self\<lparr>plotter := s\<rparr>, [], Some e)
           | Inr lines \<Rightarrow> (self\<lparr>plotter := s\<rparr>, lines, None)))"

definition clear_plot_try ::
  "pystr set \<Rightarrow> py_stdout \<Rightarrow> main_window \<Rightarrow> main_window \<times> console \<times> py_error option" where
  "clear_plot_try colors out self =
     (case pv_try_run colors clear_plot_calls (plotter self) of
        (s, Some e) \<Rightarrow> (self\<lparr>plotter := s\<rparr>, [], Some (LibraryError e))
      | (s, None) \<Rightarrow>
          (case py_print out cleared_msg of
             Inl e \<Rightarrow> (self\<lparr>plotter := s\<rparr>, [], Some e)
           | Inr lines \<Rightarrow> (self\<lparr>plotter := s\<rparr>, lines, None)))"

definition closeEvent_try ::
  "pystr set \<Rightarrow> main_window \<Rightarrow> close_event \<Rightarrow> main_window \<times> close_event \<times> py_error option"
  where
  "closeEvent_try colors self event =
     (case pv_try_run colors closeEvent_calls (plotter self) of
        (s, Some e) \<Rightarrow> (self\<lparr>plotter := s\<rparr>, event, Some (LibraryError e))
      | (s, None) \<Rightarrow> (self\<lparr>plotter := s\<rparr>, event\<lparr>accepted := True\<rparr>, None))"

fun invoke_try ::
  "pystr set \<Rightarrow> py_stdout \<Rightarrow> slot \<Rightarrow> main_window \<Rightarrow> main_window \<times> console \<times> py_error option"
  where
  "invoke_try colors out SlotPlotSphere = plot_sphere_try colors out"
| "invoke_try colors out SlotClearPlot = clear_plot_try colors out"

text \<open>The colours the program names, and all plotter calls it can issue.\<close>

definition needed_colors :: "pystr set" where
  "needed_colors = {''white'', ''black'', ''orange''}"

definition program_calls :: "pv_call list" where
  "program_calls = init_canvas_calls @ plot_sphere_calls @ clear_plot_calls @ closeEvent_calls"

lemmas window_error_defs [model_defs] =
  init_canvas_try_def init_ui_try_def load_window_icon_try_def MainWindow_init_try_def
  plot_sphere_try_def clear_plot_try_def closeEvent_try_def needed_colors_def program_calls_def

section \<open>The calls pass their checks\<close>

lemma pv_check_mono:
  "colors \<subseteq> colors' \<Longrightarrow> pv_check colors c = None \<Longrightarrow> pv_check colors' c = None"
  by (cases c) (auto split: if_splits)

lemma checks_needed:
  "list_all (\<lambda>c. pv_check needed_colors c = None) init_canvas_calls"
  "list_all (\<lambda>c. pv_check needed_colors c = None) plot_sphere_calls"
  "list_all (\<lambda>c. pv_check needed_colors c = None) clear_plot_calls"
  "list_all (\<lambda>c. pv_check needed_colors c = None) closeEvent_calls"
  by (simp_all add: init_canvas_calls_def plot_sphere_calls_def clear_plot_calls_def
      closeEvent_calls_def needed_colors_def text_positions_def)

lemma checks_mono:
  "needed_colors \<subseteq> colors \<Longrightarrow> list_all (\<lambda>c. pv_check needed_colors c = None) cs \<Longrightarrow>
   list_all (\<lambda>c. pv_check colors c = None) cs"
  by (auto simp: list_all_iff intro: pv_check_mono)

lemma close_last_calls [simp]:
  "close_last init_canvas_calls" "close_last plot_sphere_calls" "close_last clear_plot_calls"
  "close_last closeEvent_calls"
  by (simp_all add: init_canvas_calls_def plot_sphere_calls_def clear_plot_calls_def
      closeEvent_calls_def)

lemma slot_calls_ok:
  assumes "needed_colors \<subseteq> colors" and "\<not> closed s"
  shows "pv_try_run colors (slot_calls sl) s = (pv_run (slot_calls sl) s, None)"
  using assms by (cases sl) (simp_all add: pv_try_run_ok checks_mono checks_needed)

lemma slot_calls_closed:
  assumes "closed s"
  shows "pv_try_run colors (slot_calls sl) s = (s, Some PlotterClosed)"
  using assms
  by (cases sl) (simp_all add: plot_sphere_calls_def clear_plot_calls_def pv_try_def)

lemma init_canvas_try_ok:
  assumes "needed_colors \<subseteq> colors"
  shows "init_canvas_try colors = (pv_run init_canvas_calls QtInteractor, None)"
  unfolding init_canvas_try_def
  by (rule pv_try_run_ok) (simp_all add: QtInteractor_def checks_mono [OF assms] checks_needed)

section \<open>The handlers\<close>

text \<open>
  A handler is its plotter calls followed by the \<open>print\<close> of its message: when a call
  raises, nothing is printed; when none does, the window is the one the calls leave,
  and the stream decides whether the message appears or the \<open>print\<close> raises.
\<close>

lemma invoke_try_eq:
  "invoke_try colors out sl w =
     (case pv_try_run colors (slot_calls sl) (plotter w) of
        (s, Some e) \<Rightarrow> (w\<lparr>plotter := s\<rparr>, [], Some (LibraryError e))
      | (s, None) \<Rightarrow> (w\<lparr>plotter := s\<rparr>, shown out (slot_output sl), raised out (slot_output sl)))"
  by (cases sl)
    (simp_all add: plot_sphere_try_def clear_plot_try_def py_print_eq
      split: prod.splits option.splits)

lemma invoke_try_result:
  assumes "needed_colors \<subseteq> colors"
  shows "invoke_try colors out sl w =
           (if closed (plotter w) then (w, [], Some (LibraryError PlotterClosed))
            else (fst (invoke sl w), shown out (slot_output sl), raised out (slot_output sl)))"
  using slot_calls_ok [OF assms, of "plotter w" sl] slot_calls_closed [of "plotter w" colors sl]
  by (simp add: invoke_try_eq invoke_slot_calls)

lemma closeEvent_try_result:
  "closeEvent_try colors w ev = (fst (closeEvent w ev), snd (closeEvent w ev), None)"
  by (simp add: closeEvent_try_def closeEvent_def closeEvent_calls_def pv_try_def)

section \<open>The constructor\<close>

text \<open>
  The icon block raises exactly when the icon file is missing and the stream does not
  accept the warning; the constructor then ends before \<open>init_ui\<close> is called. Otherwise
  the constructor builds the window of \<open>Main_Window\<close>, provided the colour table knows
  the colours \<open>init_ui\<close> names.
\<close>

definition warns :: "py_stdout \<Rightarrow> runtime \<Rightarrow> bool" where
  "warns out rt \<longleftrightarrow>
     os_path_exists rt (get_resource_path rt icon_relative_path) \<or>
     accepts out (icon_warning (get_resource_path rt icon_relative_path))"

lemma load_window_icon_try_eq:
  "load_window_icon_try out rt self =
     (if warns out rt
      then Inr (fst (load_window_icon rt self), shown out (snd (load_window_icon rt self)))
      else Inl (UnicodeEncodeError (icon_warning (get_resource_path rt icon_relative_path))))"
  by (simp add: load_window_icon_try_def load_window_icon_def warns_def Let_def py_print_eq)

lemma init_ui_try_ok:
  "needed_colors \<subseteq> colors \<Longrightarrow> init_ui_try colors self = Inr (init_ui self)"
  by (simp add: init_ui_try_def init_canvas_try_ok init_ui_def main_window.defs
      qmainwindow.defs)

lemma MainWindow_init_try_eq:
  assumes "needed_colors \<subseteq> colors"
  shows "MainWindow_init_try colors out rt =
           (if warns out rt
            then (shown out (snd (MainWindow_init rt)), Inr (fst (MainWindow_init rt)))
            else ([], Inl (UnicodeEncodeError
                             (icon_warning (get_resource_path rt icon_relative_path)))))"
  by (simp add: MainWindow_init_try_def MainWindow_init_def load_window_icon_try_eq
      init_ui_try_ok [OF assms] Let_def split: prod.splits)

section \<open>Properties\<close>

text \<open>
  C17: Every argument the program passes to the plotter lies in the domain of its call:
  the radius of the sphere is positive, the opacity lies between 0 and 1, the text
  positions are among the eight the library names, and the colours are \<open>white\<close>,
  \<open>black\<close> and \<open>orange\<close>. No call follows a \<open>close\<close> within a method.
\<close>

theorem program_calls_in_domain:
  "list_all (\<lambda>c. pv_check needed_colors c = None) program_calls \<and>
   list_all (\<lambda>c. case c of
               AddMesh (Sphere r) col e p o' \<Rightarrow> 0 < r \<and> 0 \<le> o' \<and> o' \<le> 1
             | AddText t pos col \<Rightarrow> pos \<in> set text_positions
             | _ \<Rightarrow> True) program_calls \<and>
   list_all close_last [init_canvas_calls, plot_sphere_calls, clear_plot_calls, closeEvent_calls]"
  by (simp add: program_calls_def init_canvas_calls_def plot_sphere_calls_def
      clear_plot_calls_def closeEvent_calls_def needed_colors_def text_positions_def sphere_def)

text \<open>
  C25: The constructor's calls on the new plotter raise nothing and leave the initial
  scene, when the colour table knows \<open>white\<close> and \<open>black\<close>. When it does not know
  \<open>white\<close>, the first call raises and the canvas stays as the library created it.
\<close>

theorem init_canvas_try_result:
  "init_canvas_try colors =
     (if ''white'' \<notin> colors then (QtInteractor, Some (BadColor ''white''))
      else if ''black'' \<notin> colors
      then (QtInteractor\<lparr>background := Some ''white'', axes := True\<rparr>, Some (BadColor ''black''))
      else (plotter (fst (MainWindow_init rt)), None))"
  by (simp add: init_canvas_try_def init_canvas_calls_def pv_try_def QtInteractor_def
      text_positions_def MainWindow_init_eq Let_def ready_scene_def)

text \<open>
  C24: An exception in \<open>plot_sphere\<close> leaves the canvas changed. When the colour table
  does not know \<open>orange\<close>, \<open>plot_sphere\<close> on an open plotter raises at \<open>add_mesh\<close>: by
  then the old content is cleared and the axis indicator shown, nothing is drawn and
  nothing printed, whatever the stream is.
\<close>

theorem plot_sphere_partial_effect:
  assumes "''orange'' \<notin> colors" and "\<not> closed (plotter w)"
  shows "plot_sphere_try colors out w =
           (w\<lparr>plotter := (plotter w)\<lparr>actors := [], axes := True\<rparr>\<rparr>, [],
            Some (LibraryError (BadColor ''orange'')))"
  using assms by (simp add: plot_sphere_try_def plot_sphere_calls_def pv_try_def)

theorem plot_sphere_partial_effect_witness:
  "plot_sphere_try {''white'', ''black''} (Stdout utf8_codec)
     (fst (plot_sphere (fst (MainWindow_init example_source)))) =
     ((fst (MainWindow_init example_source))
        \<lparr>plotter := ready_scene\<lparr>actors := [], camera := CameraFramed [sphere]\<rparr>\<rparr>,
      [], Some (LibraryError (BadColor ''orange'')))"
  using plot_sphere_partial_effect
    [of "{''white'', ''black''}" "fst (plot_sphere (fst (MainWindow_init example_source)))"
      "Stdout utf8_codec"]
  by (simp add: plot_sphere_def pv_run_plot_sphere_calls MainWindow_init_eq Let_def
      ready_scene_def)

end
