(* ===== verification/Program_Errors.thy ===== *)
theory Program_Errors
  imports Application Window_Errors
begin

text \<open>
  The block under \<open>__main__\<close> and the event loop with exceptions, for a given colour
  table of the plotting library and a given stream \<open>sys.stdout\<close>.

  An exception that leaves the constructor of the window is caught by nothing: the
  interpreter prints the traceback and exits with status 1 before the loop is entered.
  \<open>startup_try\<close> is the block up to \<open>window.show()\<close>; it returns the process, or the
  lines that had appeared and the exception. An exception that leaves a slot or an
  event handler does not end the loop: the Qt binding reports it on the error stream
  and the loop goes on with the next event. \<open>deliver_try\<close> hands one event to the
  window and adds the exceptions of its handlers to those reported so far (a drag of
  the mouse runs none),
  \<open>app_exec_try\<close> is the loop and \<open>main_try\<close> the whole block; \<open>exit_code\<close> is the status
  the process exits with.

  The theorems relate this program to the program without exceptions (\<open>main\<close> of
  \<open>Application\<close>): when the colour table knows the colours the program names, the two
  end with the same window, application and exit status for every stream; the lines
  that appear are those the program without exceptions prints and the stream accepts,
  and the exceptions reported are those of the lines it refuses. The one exception
  that ends the program is that of the warning about a missing icon file.
\<close>

section \<open>The program with exceptions\<close>

definition startup_try ::
  "pystr set \<Rightarrow> py_stdout \<Rightarrow> runtime \<Rightarrow> console \<times> py_error + process" where
  "startup_try colors out rt =
     (let app = create_app rt
      in case MainWindow_init_try colors out rt of
           (lines, Inl e) \<Rightarrow> Inl (lines, e)
         | (lines, Inr win) \<Rightarrow>
             Inr \<lparr>stdout = lines, app = app, window = win\<lparr>visible := True\<rparr>,
                  exit_status = None\<rparr>)"

definition run_slot_try ::
  "pystr set \<Rightarrow> py_stdout \<Rightarrow> slot \<Rightarrow> main_window \<times> console \<times> py_error list \<Rightarrow>
   main_window \<times> console \<times> py_error list" where
  "run_slot_try colors out sl st =
     (case st of (w, ls, errs) \<Rightarrow>
        (case invoke_try colors out sl w of
           (w', ls', err) \<Rightarrow> (w', ls @ ls', errs @ reports err)))"

fun deliver_try ::
  "pystr set \<Rightarrow> py_stdout \<Rightarrow> event \<Rightarrow> process \<times> py_error list \<Rightarrow> process \<times> py_error list"
  where
  "deliver_try colors out (Click i) (p, errs) =
     (if i < length (objects (window p))
      then (case fold (run_slot_try colors out) (clicked (objects (window p) ! i))
                   (window p, [], []) of
              (w, ls, es) \<Rightarrow> (p\<lparr>window := w, stdout := stdout p @ ls\<rparr>, errs @ es))
      else (p, errs))"
| "deliver_try colors out (Drag i) (p, errs) = (deliver (Drag i) p, errs)"
| "deliver_try colors out CloseRequest (p, errs) =
     (case closeEvent_try colors (window p) \<lparr>accepted = True\<rparr> of
        (w, ev, err) \<Rightarrow>
          (p\<lparr>window := (if accepted ev then w\<lparr>visible := False\<rparr> else w)\<rparr>,
           errs @ reports err))"

fun app_exec_try ::
  "pystr set \<Rightarrow> py_stdout \<Rightarrow> event list \<Rightarrow> process \<times> py_error list \<Rightarrow>
   process \<times> py_error list" where
  "app_exec_try colors out [] st = st"
| "app_exec_try colors out (e # es) st =
     (if visible (window (fst st)) then app_exec_try colors out es (deliver_try colors out e st)
      else st)"

definition main_try ::
  "pystr set \<Rightarrow> py_stdout \<Rightarrow> runtime \<Rightarrow> event list \<Rightarrow>
   (console \<times> py_error + process) \<times> py_error list" where
  "main_try colors out rt events =
     (case startup_try colors out rt of
        Inl crash \<Rightarrow> (Inl crash, [])
      | Inr p \<Rightarrow>
          (case app_exec_try colors out events (p, []) of
             (q, errs) \<Rightarrow>
               (Inr (if visible (window q) then q else q\<lparr>exit_status := Some 0\<rparr>), errs)))"

fun exit_code :: "console \<times> py_error + process \<Rightarrow> int option" where
  "exit_code (Inl crash) = Some 1"
| "exit_code (Inr p) = exit_status p"

text \<open>
  \<open>on_stream out p\<close> is the state of the program with exceptions that corresponds to
  the state \<open>p\<close> of the program without: the same process with the lines the stream
  shows, and the exceptions of the lines it refuses.
\<close>

definition on_stream :: "py_stdout \<Rightarrow> process \<Rightarrow> process \<times> py_error list" where
  "on_stream out p =
     (p\<lparr>stdout := shown out (stdout p)\<rparr>, map UnicodeEncodeError (refused out (stdout p)))"

lemmas program_error_defs [model_defs] =
  startup_try_def run_slot_try_def main_try_def on_stream_def

section \<open>One event\<close>

lemma reports_raised_slot:
  "reports (raised out (slot_output sl)) = map UnicodeEncodeError (refused out (slot_output sl))"
  by (cases sl) simp_all

lemma fold_run_slot_try:
  assumes "needed_colors \<subseteq> colors" and "\<not> closed (plotter w)"
  shows "fold (run_slot_try colors out) sls (w, ls, errs) =
           (fold (\<lambda>sl w. fst (invoke sl w)) sls w,
            ls @ shown out (concat (map slot_output sls)),
            errs @ map UnicodeEncodeError (refused out (concat (map slot_output sls))))"
  using assms(2)
proof (induction sls arbitrary: w ls errs)
  case Nil
  show ?case by simp
next
  case (Cons sl sls)
  from Cons.prems have "\<not> closed (plotter (fst (invoke sl w)))"
    by (simp add: invoke_slot_calls)
  from Cons.IH [OF this] Cons.prems show ?case
    by (simp add: run_slot_try_def invoke_try_result [OF assms(1)] reports_raised_slot)
qed

lemma deliver_stdout:
  "deliver e (p\<lparr>stdout := ls\<rparr>) = (deliver e p)\<lparr>stdout := ls @ event_output (window p) e\<rparr>"
  by (simp add: deliver_eq del: deliver.simps)

lemma deliver_try_eq:
  assumes "needed_colors \<subseteq> colors" and "\<not> closed (plotter (window p))"
  shows "deliver_try colors out e (p, errs) =
           ((deliver e p)\<lparr>stdout := stdout p @ shown out (event_output (window p) e)\<rparr>,
            errs @ map UnicodeEncodeError (refused out (event_output (window p) e)))"
proof (cases e)
  case (Click i)
  with fold_run_slot_try [OF assms, of out _ "[]" "[]"] show ?thesis
    by (simp add: click_def fst_fold_run_slot snd_fold_run_slot split_beta)
next
  case (Drag i)
  then show ?thesis by simp
next
  case CloseRequest
  then show ?thesis
    by (simp add: closeEvent_try_result closeEvent_def)
qed

lemma deliver_try_on_stream:
  assumes "needed_colors \<subseteq> colors" and "\<not> closed (plotter (window p))"
  shows "deliver_try colors out e (on_stream out p) = on_stream out (deliver e p)"
  using deliver_try_eq [OF assms(1), of "p\<lparr>stdout := shown out (stdout p)\<rparr>" out e] assms(2)
  by (simp add: on_stream_def deliver_stdout)
    (simp add: deliver_eq del: deliver.simps)

section \<open>The loop\<close>

lemma window_on_stream [simp]: "window (fst (on_stream out p)) = window p"
  by (simp add: on_stream_def)

lemma app_exec_try_on_stream:
  assumes "needed_colors \<subseteq> colors"
    and "visible (window p) \<longrightarrow> \<not> closed (plotter (window p))"
  shows "app_exec_try colors out es (on_stream out p) = on_stream out (app_exec es p)"
  using assms(2)
proof (induction es arbitrary: p)
  case Nil
  show ?case by simp
next
  case (Cons e es)
  show ?case
  proof (cases "visible (window p)")
    case True
    with Cons.prems have opened: "\<not> closed (plotter (window p))" by simp
    then have "visible (window (deliver e p)) \<longrightarrow> \<not> closed (plotter (window (deliver e p)))"
      by (simp add: window_deliver del: deliver.simps)
    from Cons.IH [OF this] True show ?thesis
      by (simp add: deliver_try_on_stream [OF assms(1) opened] del: deliver.simps)
  next
    case False
    then show ?thesis by simp
  qed
qed

section \<open>The start\<close>

lemma refused_startup: "warns out rt \<Longrightarrow> refused out (stdout (startup rt)) = []"
  by (auto simp: warns_def MainWindow_init_eq Let_def)

lemma startup_try_eq:
  assumes "needed_colors \<subseteq> colors"
  shows "startup_try colors out rt =
           (if warns out rt then Inr ((startup rt)\<lparr>stdout := shown out (stdout (startup rt))\<rparr>)
            else Inl ([], UnicodeEncodeError
                            (icon_warning (get_resource_path rt icon_relative_path))))"
  by (simp add: startup_try_def MainWindow_init_try_eq [OF assms] startup_eq)

lemma on_stream_startup:
  "warns out rt \<Longrightarrow>
   on_stream out (startup rt) = ((startup rt)\<lparr>stdout := shown out (stdout (startup rt))\<rparr>, [])"
  by (simp add: on_stream_def refused_startup del: startup_fields)

lemma on_stream_exit:
  "on_stream out (p\<lparr>exit_status := x\<rparr>) =
     ((fst (on_stream out p))\<lparr>exit_status := x\<rparr>, snd (on_stream out p))"
  by (simp add: on_stream_def)

section \<open>The whole block\<close>

lemma main_try_eq:
  assumes "needed_colors \<subseteq> colors"
  shows "main_try colors out rt es =
           (if warns out rt
            then (Inr ((main rt es)\<lparr>stdout := shown out (stdout (main rt es))\<rparr>),
                  map UnicodeEncodeError (refused out (stdout (main rt es))))
            else (Inl ([], UnicodeEncodeError
                             (icon_warning (get_resource_path rt icon_relative_path))), []))"
proof (cases "warns out rt")
  case True
  have "visible (window (startup rt)) \<longrightarrow> \<not> closed (plotter (window (startup rt)))"
    by (simp add: MainWindow_init_eq Let_def ready_scene_def)
  from app_exec_try_on_stream [OF assms this, of out es]
  have "app_exec_try colors out es ((startup rt)\<lparr>stdout := shown out (stdout (startup rt))\<rparr>, []) =
          on_stream out (app_exec es (startup rt))"
    by (simp only: on_stream_startup [OF True])
  with True show ?thesis
    by (simp add: main_try_def startup_try_eq [OF assms] main_def Let_def on_stream_def
        del: startup_fields)
next
  case False
  then show ?thesis
    by (simp add: main_try_def startup_try_eq [OF assms])
qed

lemma exit_code_main_try:
  assumes "needed_colors \<subseteq> colors"
  shows "exit_code (fst (main_try colors out rt es)) =
           (if warns out rt then (if CloseRequest \<in> set es then Some 0 else None) else Some 1)"
  by (simp add: main_try_eq [OF assms] exit_status_main)

text \<open>
  An ASCII stream refuses each of the four lines the program prints: the warning,
  whatever the path in it, and the messages of the two handlers.
\<close>

lemma ascii_refuses:
  "\<not> accepts (Stdout ascii_codec) (icon_warning icon_path)"
  "\<not> accepts (Stdout ascii_codec) sphere_done_msg"
  "\<not> accepts (Stdout ascii_codec) cleared_msg"
  by (simp_all add: icon_warning_def sphere_done_msg_def cleared_msg_def)

end
