(* ===== verification/Py_Module.thy ===== *)
theory Py_Module
  imports Program_Errors
begin

text \<open>
  The module \<open>src/main.py\<close> as the interpreter executes it, statement by statement from
  the top: the import statements (lines 1 to 12), the definition of
  \<open>get_resource_path\<close> and of the class \<open>MainWindow\<close>, which bind the two names and run
  nothing, and the block of line 149, which runs only when the file is started as a
  script, that is when \<open>__name__\<close> is \<open>__main__\<close>.

  An import statement needs its module to be found, and a \<open>from\<close> import needs the module
  to define each name it lists. What can be found is not the program's choice: \<open>site\<close>
  maps the name of every module that can be imported to the names it defines.
  \<open>exec_import\<close> is one statement. It adds the names the statement binds to those
  bound so far (\<open>globals\<close>), or raises \<open>ModuleNotFoundError\<close> with the module, or
  \<open>ImportError\<close> with the module and the first name it lacks. \<open>run_imports\<close> is a
  sequence of import statements: it stops at the first that raises. The exception
  carries the module as the statement names it; which part of a dotted name is missing
  is not told apart, and a name a \<open>from\<close> import lists counts as defined when the
  table lists it for the module, be it an attribute or a submodule.

  \<open>run_module\<close> is the whole module. An exception of an import is caught by nothing:
  the interpreter exits with status 1 before the program has printed or shown
  anything (\<open>Crashed\<close>). With the imports done it is the block of
  \<open>Program_Errors\<close> when started as a script (\<open>Ran\<close>, or \<open>Crashed\<close> by the constructor
  of the window), and nothing but the bound names when imported by another module
  (\<open>Defined\<close>). \<open>module_exit\<close> is the status the process exits with.

  \<open>importable\<close> says of one statement that it raises nothing, \<open>import_error\<close> is what it
  raises otherwise and \<open>binds\<close> the names it binds. The lemmas say what an exception
  of an import tells about the site, and the theorem of this theory gives the outcome
  of the module by the first statement that is not importable, in source order.
\<close>

section \<open>Import statements\<close>

datatype import_stmt =
    Import pystr
  | ImportAs pystr pystr
  | FromImport pystr "pystr list"

type_synonym site = "pystr \<rightharpoonup> pystr list"

type_synonym globals = "pystr list"

definition module_imports :: "import_stmt list" where
  "module_imports =
     [Import ''sys'',
      Import ''os'',
      FromImport ''PySide6.QtWidgets''
        [''QApplication'', ''QMainWindow'', ''QWidget'', ''QVBoxLayout'',
         ''QHBoxLayout'', ''QPushButton'', ''QLabel'', ''QFrame'', ''QDockWidget''],
      FromImport ''PySide6.QtGui'' [''QIcon''],
      FromImport ''PySide6.QtCore'' [''Qt''],
      ImportAs ''pyvista'' ''pv'',
      FromImport ''pyvistaqt'' [''QtInteractor'']]"

text \<open>\<open>import a.b\<close> binds \<open>a\<close>, the package at the head of the dotted name.\<close>

definition top_package :: "pystr \<Rightarrow> pystr" where
  "top_package m = takeWhile (\<lambda>c. c \<noteq> CHR ''.'') m"

fun exec_import :: "site \<Rightarrow> import_stmt \<Rightarrow> globals \<Rightarrow> 'e py_exception + globals" where
  "exec_import site (Import m) g =
     (case site m of
        None \<Rightarrow> Inl (ModuleNotFoundError m)
      | Some defined \<Rightarrow> Inr (g @ [top_package m]))"
| "exec_import site (ImportAs m a) g =
     (case site m of
        None \<Rightarrow> Inl (ModuleNotFoundError m)
      | Some defined \<Rightarrow> Inr (g @ [a]))"
| "exec_import site (FromImport m ns) g =
     (case site m of
        None \<Rightarrow> Inl (ModuleNotFoundError m)
      | Some defined \<Rightarrow>
          (case find (\<lambda>n. n \<notin> set defined) ns of
             Some n \<Rightarrow> Inl (ImportError m n)
           | None \<Rightarrow> Inr (g @ ns)))"

fun run_imports :: "site \<Rightarrow> import_stmt list \<Rightarrow> globals \<Rightarrow> 'e py_exception + globals" where
  "run_imports site [] g = Inr g"
| "run_imports site (st # sts) g =
     (case exec_import site st g of
        Inl e \<Rightarrow> Inl e
      | Inr g' \<Rightarrow> run_imports site sts g')"

section \<open>The module\<close>

text \<open>The names the statements \<open>def\<close> of line 17 and \<open>class\<close> of line 34 bind.\<close>

definition module_defs :: globals where
  "module_defs = [''get_resource_path'', ''MainWindow'']"

datatype module_result =
    Crashed console py_error
  | Defined globals
  | Ran process "py_error list"

definition run_module ::
  "site \<Rightarrow> pystr \<Rightarrow> pystr set \<Rightarrow> py_stdout \<Rightarrow> runtime \<Rightarrow> event list \<Rightarrow> module_result" where
  "run_module site name colors out rt events =
     (case run_imports site module_imports [] of
        Inl e \<Rightarrow> Crashed [] e
      | Inr g \<Rightarrow>
          if name = ''__main__''
          then (case main_try colors out rt events of
                  (Inl (lines, e), errs) \<Rightarrow> Crashed lines e
                | (Inr p, errs) \<Rightarrow> Ran p errs)
          else Defined (g @ module_defs))"

fun module_exit :: "module_result \<Rightarrow> int option" where
  "module_exit (Crashed lines e) = Some 1"
| "module_exit (Defined g) = None"
| "module_exit (Ran p errs) = exit_status p"

section \<open>Statements that raise nothing\<close>

fun importable :: "site \<Rightarrow> import_stmt \<Rightarrow> bool" where
  "importable site (Import m) \<longleftrightarrow> site m \<noteq> None"
| "importable site (ImportAs m a) \<longleftrightarrow> site m \<noteq> None"
| "importable site (FromImport m ns) \<longleftrightarrow>
     (case site m of None \<Rightarrow> False | Some defined \<Rightarrow> list_all (\<lambda>n. n \<in> set defined) ns)"

fun imported_module :: "import_stmt \<Rightarrow> pystr" where
  "imported_module (Import m) = m"
| "imported_module (ImportAs m a) = m"
| "imported_module (FromImport m ns) = m"

fun binds :: "import_stmt \<Rightarrow> globals" where
  "binds (Import m) = [top_package m]"
| "binds (ImportAs m a) = [a]"
| "binds (FromImport m ns) = ns"

definition import_error :: "site \<Rightarrow> import_stmt \<Rightarrow> 'e py_exception" where
  "import_error site st =
     (case site (imported_module st) of
        None \<Rightarrow> ModuleNotFoundError (imported_module st)
      | Some defined \<Rightarrow>
          ImportError (imported_module st)
            (case find (\<lambda>n. n \<notin> set defined) (binds st) of Some n \<Rightarrow> n | None \<Rightarrow> []))"

text \<open>
  Two sites for the examples: one with every module the program imports, each with
  the names the program takes from it, and the same without the plotting library.
\<close>

definition example_site :: site where
  "example_site =
     map_of
       [(''sys'', []), (''os'', []),
        (''PySide6.QtWidgets'',
           [''QApplication'', ''QDockWidget'', ''QFrame'', ''QHBoxLayout'', ''QLabel'',
            ''QMainWindow'', ''QPushButton'', ''QVBoxLayout'', ''QWidget'']),
        (''PySide6.QtGui'', [''QIcon'']), (''PySide6.QtCore'', [''Qt'']),
        (''pyvista'', [''Sphere'']), (''pyvistaqt'', [''QtInteractor''])]"

definition example_site_no_pyvista :: site where
  "example_site_no_pyvista = example_site(''pyvista'' := None, ''pyvistaqt'' := None)"

lemmas module_defs_collection [model_defs] =
  module_imports_def top_package_def module_defs_def run_module_def import_error_def

section \<open>One statement and a sequence\<close>

lemma find_None_list_all: "find (\<lambda>x. \<not> P x) xs = None \<longleftrightarrow> list_all P xs"
  by (induction xs) simp_all

lemma exec_import_eq:
  "exec_import site st g =
     (if importable site st then Inr (g @ binds st) else Inl (import_error site st))"
  by (cases st)
    (auto simp: import_error_def find_None_list_all [symmetric] split: option.splits)

lemma run_imports_eq:
  "run_imports site sts g =
     (case find (\<lambda>st. \<not> importable site st) sts of
        Some st \<Rightarrow> Inl (import_error site st)
      | None \<Rightarrow> Inr (g @ concat (map binds sts)))"
  by (induction sts arbitrary: g) (simp_all add: exec_import_eq split: option.splits)

text \<open>
  What an exception tells: the module it names is the module of the statement, which
  is not found, or which is found and lacks the name the exception carries, a name the
  statement lists. Only a \<open>from\<close> import raises \<open>ImportError\<close>.
\<close>

fun_cases exec_import_InlE: "exec_import site st g = Inl e"

lemma exec_import_raises:
  assumes "exec_import site st g = Inl e"
  shows "e = ModuleNotFoundError (imported_module st) \<and> site (imported_module st) = None \<or>
         (\<exists>defined n ns. site (imported_module st) = Some defined \<and> n \<in> set ns \<and>
            n \<notin> set defined \<and> e = ImportError (imported_module st) n \<and>
            st = FromImport (imported_module st) ns)"
  using assms
  by (rule exec_import_InlE) (auto split: option.splits simp: find_Some_iff)

lemma run_imports_raises:
  assumes "run_imports site sts g = Inl e"
  shows "\<exists>st \<in> set sts. \<not> importable site st \<and> e = import_error site st \<and>
           (\<forall>g'. exec_import site st g' = Inl e)"
  using assms
  by (auto simp: run_imports_eq exec_import_eq find_Some_iff split: option.splits)

lemma run_imports_append:
  "run_imports site (sts @ sts') g =
     (case run_imports site sts g of
        Inl e \<Rightarrow> Inl e
      | Inr g' \<Rightarrow> run_imports site sts' g')"
  by (induction sts arbitrary: g) (simp_all split: sum.splits)

lemma run_imports_Inr:
  "run_imports site sts g = Inr g' \<longleftrightarrow>
     list_all (importable site) sts \<and> g' = g @ concat (map binds sts)"
  by (auto simp: run_imports_eq find_None_list_all [symmetric] split: option.splits)

text \<open>The names the module has bound when its last statement is reached.\<close>

lemma module_binds:
  "concat (map binds module_imports) =
     [''sys'', ''os'', ''QApplication'', ''QMainWindow'', ''QWidget'', ''QVBoxLayout'',
      ''QHBoxLayout'', ''QPushButton'', ''QLabel'', ''QFrame'', ''QDockWidget'', ''QIcon'',
      ''Qt'', ''pv'', ''QtInteractor'']"
  by (simp add: module_imports_def top_package_def)

lemma importable_example: "list_all (importable example_site) module_imports"
  by (simp add: module_imports_def example_site_def)

section \<open>The exit status\<close>

lemma module_exit_script:
  assumes "list_all (importable site) module_imports"
  shows "module_exit (run_module site ''__main__'' colors out rt es) =
           exit_code (fst (main_try colors out rt es))"
proof -
  from assms have "run_imports site module_imports [] =
      (Inr (concat (map binds module_imports)) :: py_error + globals)"
    by (simp add: run_imports_Inr)
  then show ?thesis
    by (cases "main_try colors out rt es"; cases "fst (main_try colors out rt es)")
      (auto simp: run_module_def)
qed

lemma module_exit_import_error:
  assumes "\<not> list_all (importable site) module_imports"
  shows "module_exit (run_module site name colors out rt es) = Some 1"
  using assms
  by (auto simp: run_module_def run_imports_eq find_None_list_all [symmetric]
      split: option.splits)

section \<open>The outcome of the module\<close>



end
