(* ===== verification/App_Spec.thy ===== *)
theory App_Spec
  imports Application
begin

text \<open>
  What the window promises, as a transition system of its own, and the proof that the
  program of \<open>Application\<close> implements it.

  The specification of the program describes the window as a machine with two views,
  \<open>Empty\<close> and \<open>ShowingSphere\<close>, that the two buttons switch between, and a shutdown
  that releases the rendering resources of the canvas. \<open>app_state\<close> are the states of
  that machine: a view while the window is shown, and \<open>Released\<close> after the shutdown.
  \<open>action\<close> is what a user can do, \<open>spec_step\<close> the transition relation and \<open>spec_run\<close> a
  sequence of transitions. The machine knows no actor, no camera, no object store and
  no console.

  The program is related to it by an abstraction. \<open>view_of\<close> reads the view off a scene:
  no mesh on the canvas is \<open>Empty\<close>. \<open>abs_state\<close> reads the state of the machine off a
  process: \<open>Released\<close> once the plotter has been closed. \<open>action_of\<close> reads the action off
  an event, given the slots the window has connected: a click is the action of the
  last slot it runs, since each slot sets the view whatever it was; a click that runs
  no slot and a drag of the mouse are \<open>Other\<close>. \<open>delivered\<close> are the events of a sequence
  that the loop hands to the window, those up to the first close request.

  The lemmas give rule inversion and functional form of the machine, the view after
  handlers and events, and the simulation in both directions: every event the program
  handles is a transition of the machine, and every transition of the machine is an
  event the program handles. The theorem \<open>spec_traces\<close> lifts both to runs.
\<close>

section \<open>The specification\<close>

datatype view = Empty | ShowingSphere

datatype action = DrawSphere | ClearCanvas | Other | CloseWindow

datatype app_state = Shown view | Released

inductive spec_step :: "app_state \<Rightarrow> action \<Rightarrow> app_state \<Rightarrow> bool" where
  draw: "spec_step (Shown v) DrawSphere (Shown ShowingSphere)"
| clear: "spec_step (Shown v) ClearCanvas (Shown Empty)"
| other: "spec_step (Shown v) Other (Shown v)"
| close: "spec_step (Shown v) CloseWindow Released"

inductive spec_run :: "app_state \<Rightarrow> action list \<Rightarrow> app_state \<Rightarrow> bool" where
  stay: "spec_run s [] s"
| move: "spec_step s a t \<Longrightarrow> spec_run t as u \<Longrightarrow> spec_run s (a # as) u"

code_pred spec_step .

code_pred spec_run .

text \<open>The machine as a function: the state after an action, if the action is possible.\<close>

fun spec_next :: "app_state \<Rightarrow> action \<Rightarrow> app_state option" where
  "spec_next (Shown v) DrawSphere = Some (Shown ShowingSphere)"
| "spec_next (Shown v) ClearCanvas = Some (Shown Empty)"
| "spec_next (Shown v) Other = Some (Shown v)"
| "spec_next (Shown v) CloseWindow = Some Released"
| "spec_next Released a = None"

section \<open>The abstraction\<close>

fun view_step :: "slot \<Rightarrow> view \<Rightarrow> view" where
  "view_step SlotPlotSphere v = ShowingSphere"
| "view_step SlotClearPlot v = Empty"

definition view_of :: "scene \<Rightarrow> view" where
  "view_of s = (if mesh_count s = 0 then Empty else ShowingSphere)"

definition abs_state :: "process \<Rightarrow> app_state" where
  "abs_state p =
     (if closed (plotter (window p)) then Released else Shown (view_of (plotter (window p))))"

fun event_slots :: "main_window \<Rightarrow> event \<Rightarrow> slot list" where
  "event_slots w (Click i) = (if i < length (objects w) then clicked (objects w ! i) else [])"
| "event_slots w (Drag i) = []"
| "event_slots w CloseRequest = []"

fun slot_action :: "slot \<Rightarrow> action" where
  "slot_action SlotPlotSphere = DrawSphere"
| "slot_action SlotClearPlot = ClearCanvas"

fun action_of :: "main_window \<Rightarrow> event \<Rightarrow> action" where
  "action_of w CloseRequest = CloseWindow"
| "action_of w e = (case event_slots w e of [] \<Rightarrow> Other | sl # sls \<Rightarrow> slot_action (last (sl # sls)))"

fun delivered :: "event list \<Rightarrow> event list" where
  "delivered [] = []"
| "delivered (e # es) = e # (if e = CloseRequest then [] else delivered es)"

lemmas spec_defs [model_defs] = view_of_def abs_state_def

section \<open>Rule inversion\<close>

inductive_cases spec_step_ReleasedE [elim!]: "spec_step Released a t"
inductive_cases spec_step_DrawE [elim!]: "spec_step s DrawSphere t"
inductive_cases spec_step_ClearE [elim!]: "spec_step s ClearCanvas t"
inductive_cases spec_step_OtherE [elim!]: "spec_step s Other t"
inductive_cases spec_step_CloseE [elim!]: "spec_step s CloseWindow t"
inductive_cases spec_run_NilE [elim!]: "spec_run s [] t"
inductive_cases spec_run_ConsE [elim!]: "spec_run s (a # as) t"

inductive_simps spec_run_Nil [simp]: "spec_run s [] t"
inductive_simps spec_run_Cons [simp]: "spec_run s (a # as) t"

lemmas spec_intros [intro] = spec_step.intros spec_run.intros

lemma spec_step_iff: "spec_step s a t \<longleftrightarrow> spec_next s a = Some t"
  by (cases s; cases a) auto

lemma spec_step_deterministic: "spec_step s a t \<Longrightarrow> spec_step s a t' \<Longrightarrow> t = t'"
  by (simp add: spec_step_iff)

lemma spec_run_deterministic: "spec_run s as t \<Longrightarrow> spec_run s as t' \<Longrightarrow> t = t'"
proof (induction arbitrary: t' rule: spec_run.induct)
  case (stay s)
  then show ?case by auto
next
  case (move s a t as u)
  from move.prems obtain t'' where "spec_step s a t''" "spec_run t'' as t'" by auto
  with move.hyps(1) move.IH show ?case
    by (auto dest: spec_step_deterministic)
qed

text \<open>
  The machine stops in \<open>Released\<close>, and while the window is shown it accepts every
  action and reaches either view from either view in one step.
\<close>

lemma spec_run_Released: "spec_run Released as t \<longleftrightarrow> as = [] \<and> t = Released"
  by (cases as) auto

lemma spec_step_enabled: "\<exists>t. spec_step (Shown v) a t"
  by (cases a) auto

lemma spec_toggle: "\<exists>a. spec_step (Shown v) a (Shown v')"
  by (cases v') auto

lemma spec_run_append:
  "spec_run s as t \<Longrightarrow> spec_run t bs u \<Longrightarrow> spec_run s (as @ bs) u"
  by (induction rule: spec_run.induct) auto

section \<open>The view after handlers and events\<close>

lemma view_of_slot_calls: "view_of (pv_run (slot_calls sl) s) = view_step sl (view_of s)"
  by (cases sl)
    (simp_all add: plot_sphere_calls_def clear_plot_calls_def view_of_def mesh_count_def)

lemma view_of_slots:
  "view_of (pv_run (concat (map slot_calls sls)) s) = fold view_step sls (view_of s)"
  by (induction sls arbitrary: s) (simp_all add: view_of_slot_calls)

lemma fold_view_step:
  "fold view_step sls v = (case sls of [] \<Rightarrow> v | sl # sls' \<Rightarrow> view_step (last sls) v)"
proof (induction sls rule: rev_induct)
  case Nil
  show ?case by simp
next
  case (snoc sl sls)
  show ?case by (cases sl; cases sls) simp_all
qed

lemma view_of_invoke:
  "view_of (plotter (fst (invoke sl w))) = view_step sl (view_of (plotter w))"
  by (simp add: invoke_slot_calls view_of_slot_calls)

lemma view_of_frame [simp, frame]:
  "view_of (s\<lparr>closed := c\<rparr>) = view_of s"
  "view_of (s\<lparr>camera := k\<rparr>) = view_of s"
  by (simp_all add: view_of_def mesh_count_def)

lemma event_slots_frame [simp, frame]:
  "event_slots (w\<lparr>plotter := s\<rparr>) e = event_slots w e"
  "event_slots (w\<lparr>visible := v\<rparr>) e = event_slots w e"
  by (cases e; simp)+

lemma action_of_frame [simp, frame]:
  "action_of (w\<lparr>plotter := s\<rparr>) e = action_of w e"
  "action_of (w\<lparr>visible := v\<rparr>) e = action_of w e"
  by (cases e; simp)+

lemma view_of_event:
  "view_of (pv_run (event_calls w e) s) = fold view_step (event_slots w e) (view_of s)"
proof (cases e)
  case (Click i)
  then show ?thesis by (simp add: view_of_slots)
next
  case (Drag i)
  then show ?thesis by simp
next
  case CloseRequest
  then show ?thesis by (simp add: closeEvent_calls_def)
qed

text \<open>
  The view after a run of the event loop is where the slots of the clicked objects
  take it, one \<open>view_step\<close> per slot, in the order of the events up to the first close
  request.
\<close>

lemma view_app_exec:
  assumes "visible (window p)"
  shows "view_of (plotter (window (app_exec es p))) =
           fold view_step
             (concat (map (event_slots (window p)) (takeWhile (\<lambda>e. e \<noteq> CloseRequest) es)))
             (view_of (plotter (window p)))"
  using assms
proof (induction es arbitrary: p)
  case Nil
  show ?case by simp
next
  case (Cons e es)
  show ?case
  proof (cases "e = CloseRequest")
    case True
    with Cons.prems show ?thesis
      by (simp add: window_deliver closeEvent_calls_def del: deliver.simps)
  next
    case False
    with Cons.prems have "visible (window (deliver e p))"
      by (simp add: window_deliver del: deliver.simps)
    from Cons.IH [OF this] Cons.prems False show ?thesis
      by (simp add: window_deliver view_of_event
          del: deliver.simps event_calls.simps event_slots.simps)
  qed
qed

lemma spec_step_slot: "spec_step (Shown v) (slot_action sl) (Shown (view_step sl v))"
  by (cases sl) auto

text \<open>The state of the machine after an event, read off the process before it.\<close>

lemma abs_state_deliver:
  assumes "\<not> closed (plotter (window p))"
  shows "abs_state (deliver e p) =
           (if e = CloseRequest then Released
            else Shown (fold view_step (event_slots (window p) e) (view_of (plotter (window p)))))"
  using assms by (simp add: abs_state_def window_deliver view_of_event del: deliver.simps)

lemma action_of_deliver [simp]: "action_of (window (deliver e p)) e' = action_of (window p) e'"
  by (simp add: window_deliver del: deliver.simps)

section \<open>Simulation\<close>

text \<open>
  Forward: an event delivered to a window whose plotter is open is a transition of the
  machine, labelled with the action of the event.
\<close>

lemma spec_step_deliver:
  assumes "\<not> closed (plotter (window p))"
  shows "spec_step (abs_state p) (action_of (window p) e) (abs_state (deliver e p))"
proof (cases "e = CloseRequest")
  case True
  with abs_state_deliver [OF assms, of e] have "abs_state (deliver e p) = Released"
    by simp
  moreover from assms have "abs_state p = Shown (view_of (plotter (window p)))"
    by (simp add: abs_state_def)
  ultimately show ?thesis
    using True by (simp add: spec_step.close del: deliver.simps)
next
  case False
  let ?v = "view_of (plotter (window p))"
  from False have act:
    "action_of (window p) e =
       (case event_slots (window p) e of [] \<Rightarrow> Other | sl # sls \<Rightarrow> slot_action (last (sl # sls)))"
    by (cases e) simp_all
  from assms have "abs_state p = Shown ?v"
    by (simp add: abs_state_def)
  with False assms act spec_step_slot [of ?v] show ?thesis
    by (auto simp: abs_state_deliver fold_view_step split: list.splits)
qed

lemma spec_run_app_exec:
  assumes "visible (window p)" and "\<not> closed (plotter (window p))"
  shows "spec_run (abs_state p) (map (action_of (window p)) (delivered es))
           (abs_state (app_exec es p))"
  using assms
proof (induction es arbitrary: p)
  case Nil
  show ?case by simp
next
  case (Cons e es)
  note step = spec_step_deliver [OF Cons.prems(2), of e]
  show ?case
  proof (cases "e = CloseRequest")
    case True
    then have "\<not> visible (window (deliver e p))"
      by (simp add: deliver_fields del: deliver.simps)
    with True Cons.prems(1) step show ?thesis
      by (auto simp del: deliver.simps)
  next
    case False
    with Cons.prems have "visible (window (deliver e p))" "\<not> closed (plotter (window (deliver e p)))"
      by (simp_all add: deliver_fields del: deliver.simps)
    from Cons.IH [OF this] False Cons.prems(1) step show ?thesis
      by (auto simp del: deliver.simps)
  qed
qed

text \<open>
  Backward: in a window with the two buttons of the program, every transition of the
  machine is the effect of some event.
\<close>

lemma action_of_ui:
  assumes "objects w = ui_objects"
  shows "action_of w (Click 5) = DrawSphere" "action_of w (Click 6) = ClearCanvas"
    "action_of w (Drag i) = Other"
  using assms by (simp_all add: slots_ui)

lemma spec_step_implemented:
  assumes "objects (window p) = ui_objects" and "\<not> closed (plotter (window p))"
    and "spec_step (abs_state p) a t"
  shows "\<exists>e. action_of (window p) e = a \<and> abs_state (deliver e p) = t \<and>
           (e = CloseRequest \<longleftrightarrow> a = CloseWindow)"
proof -
  define e where "e = (case a of DrawSphere \<Rightarrow> Click 5 | ClearCanvas \<Rightarrow> Click 6
                        | Other \<Rightarrow> Drag 0 | CloseWindow \<Rightarrow> CloseRequest)"
  with action_of_ui [OF assms(1)] have act: "action_of (window p) e = a"
    and close: "e = CloseRequest \<longleftrightarrow> a = CloseWindow"
    by (cases a; simp)+
  from spec_step_deliver [OF assms(2), of e] act assms(3)
  have "abs_state (deliver e p) = t"
    by (auto dest: spec_step_deterministic)
  with act close show ?thesis by blast
qed

lemma spec_run_implemented:
  assumes "spec_run s as t"
    and "s = abs_state p" and "objects (window p) = ui_objects"
    and "visible (window p)" and "\<not> closed (plotter (window p))"
  shows "\<exists>es. as = map (action_of (window p)) (delivered es) \<and> t = abs_state (app_exec es p)"
  using assms
proof (induction arbitrary: p rule: spec_run.induct)
  case (stay s)
  then have "[] = map (action_of (window p)) (delivered []) \<and> s = abs_state (app_exec [] p)"
    by simp
  then show ?case ..
next
  case (move s a t as u)
  from spec_step_implemented [OF move.prems(2,4)] move.hyps(1) move.prems(1)
  obtain e where e: "action_of (window p) e = a" "abs_state (deliver e p) = t"
    "e = CloseRequest \<longleftrightarrow> a = CloseWindow"
    by blast
  show ?case
  proof (cases "e = CloseRequest")
    case True
    with e move.hyps(1) move.prems(1,4) have "t = Released"
      by (auto simp: abs_state_def)
    with move.hyps(2) have "as = []" "u = Released"
      by (simp_all add: spec_run_Released)
    with True e \<open>t = Released\<close> move.prems(3)
    have "a # as = map (action_of (window p)) (delivered [e]) \<and> u = abs_state (app_exec [e] p)"
      by (simp del: deliver.simps)
    then show ?thesis ..
  next
    case False
    with move.prems have q: "objects (window (deliver e p)) = ui_objects"
      "visible (window (deliver e p))" "\<not> closed (plotter (window (deliver e p)))"
      by (simp_all add: deliver_fields del: deliver.simps)
    from move.IH [OF e(2) [symmetric] q] obtain es
      where "as = map (action_of (window (deliver e p))) (delivered es)"
        "u = abs_state (app_exec es (deliver e p))"
      by blast
    with False e(1) move.prems(3)
    have "a # as = map (action_of (window p)) (delivered (e # es)) \<and>
          u = abs_state (app_exec (e # es) p)"
      by (simp del: deliver.simps)
    then show ?thesis ..
  qed
qed

section \<open>The program and the machine\<close>

lemma abs_state_startup [simp]: "abs_state (startup rt) = Shown Empty"
  by (simp add: abs_state_def view_of_def mesh_count_def MainWindow_init_eq Let_def
      ready_scene_def)

lemma abs_state_frame [simp, frame]:
  "abs_state (p\<lparr>stdout := ls\<rparr>) = abs_state p"
  "abs_state (p\<lparr>exit_status := x\<rparr>) = abs_state p"
  by (simp_all add: abs_state_def)

lemma abs_state_main: "abs_state (main rt es) = abs_state (app_exec es (startup rt))"
  by (simp add: main_def Let_def del: startup_fields)

lemma spec_run_main:
  "spec_run (Shown Empty) (map (action_of (window (startup rt))) (delivered es))
     (abs_state (main rt es))"
proof -
  have "visible (window (startup rt))" "\<not> closed (plotter (window (startup rt)))"
    by (simp_all add: MainWindow_init_eq Let_def ready_scene_def)
  from spec_run_app_exec [OF this, of es] show ?thesis
    by (simp only: abs_state_main abs_state_startup)
qed

text \<open>
  C5: The program implements the machine of its specification, and nothing less. The
  runs of the machine from the view \<open>Empty\<close> are exactly what the runs of the program
  look like through the abstraction: for every sequence of events the actions of the
  delivered events are a run of the machine that ends in the state of the process,
  and every run of the machine is that of some sequence of events.
\<close>

theorem spec_traces:
  "spec_run (Shown Empty) as t \<longleftrightarrow>
     (\<exists>es. as = map (action_of (window (startup rt))) (delivered es) \<and>
           t = abs_state (app_exec es (startup rt)))"
proof
  assume "spec_run (Shown Empty) as t"
  then show "\<exists>es. as = map (action_of (window (startup rt))) (delivered es) \<and>
                  t = abs_state (app_exec es (startup rt))"
    by (rule spec_run_implemented)
      (simp_all add: MainWindow_init_eq Let_def ready_scene_def)
next
  assume "\<exists>es. as = map (action_of (window (startup rt))) (delivered es) \<and>
               t = abs_state (app_exec es (startup rt))"
  then obtain es where "as = map (action_of (window (startup rt))) (delivered es)"
    "t = abs_state (app_exec es (startup rt))"
    by blast
  with spec_run_main [of rt es] show "spec_run (Shown Empty) as t"
    by (simp only: abs_state_main)
qed

end
