(* ===== verification/Event_Stream.thy ===== *)
theory Event_Stream
  imports Application "HOL-Library.Stream"
begin

text \<open>
  The event loop over a run that need not end. \<open>Application\<close> runs the loop over a finite
  list of events; here the user's input is a stream, an infinite sequence of events,
  and \<open>app.exec()\<close> returns only if the window is closed at some point. \<open>exec_loop\<close> is
  the loop: it delivers the events in order for as long as the window is shown, and its
  value is \<open>None\<close> when it never returns. \<open>main_loop\<close> is the \<open>__main__\<close> block over a
  stream: the statements up to \<open>window.show()\<close>, the loop, and \<open>sys.exit\<close> with the status
  0 that \<open>app.exec()\<close> returns after the last window closed.

  The theorems show that the program terminates exactly for the streams that hold a
  close request, and that it then ends in the state the loop of \<open>Application\<close> reaches
  on any finite prefix that includes a close request.
\<close>

section \<open>The loop\<close>

partial_function (option) exec_loop :: "event stream \<Rightarrow> process \<Rightarrow> process option" where
  "exec_loop evs p =
     (if visible (window p) then exec_loop (stl evs) (deliver (shd evs) p) else Some p)"

definition main_loop :: "runtime \<Rightarrow> event stream \<Rightarrow> process option" where
  "main_loop rt evs =
     map_option (\<lambda>p. p\<lparr>exit_status := Some 0\<rparr>) (exec_loop evs (startup rt))"

section \<open>The loop and its finite prefixes\<close>

lemma exec_loop_hidden [simp]: "\<not> visible (window p) \<Longrightarrow> exec_loop evs p = Some p"
  by (subst exec_loop.simps) simp

lemma exec_loop_visible:
  "visible (window p) \<Longrightarrow> exec_loop evs p = exec_loop (stl evs) (deliver (shd evs) p)"
  by (subst exec_loop.simps) simp

lemma exec_loop_stake:
  "\<not> visible (window (app_exec (stake n evs) p)) \<Longrightarrow>
   exec_loop evs p = Some (app_exec (stake n evs) p)"
proof (induction n arbitrary: evs p)
  case 0
  then show ?case by simp
next
  case (Suc n)
  show ?case
  proof (cases "visible (window p)")
    case True
    with Suc.prems have "\<not> visible (window (app_exec (stake n (stl evs)) (deliver (shd evs) p)))"
      by (simp del: deliver.simps)
    from Suc.IH [OF this] True show ?thesis
      by (simp add: exec_loop_visible del: deliver.simps)
  next
    case False
    then show ?thesis by simp
  qed
qed

lemma app_exec_closes:
  "CloseRequest \<in> set es \<Longrightarrow> \<not> visible (window (app_exec es p))"
  by (cases "visible (window p)") (simp_all add: window_app_exec)

lemma app_exec_hides:
  "visible (window p) \<Longrightarrow> \<not> visible (window (app_exec es p)) \<Longrightarrow> CloseRequest \<in> set es"
  by (simp add: window_app_exec)

lemma exec_loop_returns:
  assumes "exec_loop evs p = Some q"
  shows "\<exists>n. q = app_exec (stake n evs) p \<and> \<not> visible (window q)"
  using assms
proof (induction rule: exec_loop.raw_induct [rotated 1, consumes 1])
  case (1 loop evs p q)
  show ?case
  proof (cases "visible (window p)")
    case True
    with 1(2) have "loop (stl evs) (deliver (shd evs) p) = Some q" by simp
    from 1(1) [OF this] obtain n
      where "q = app_exec (stake n (stl evs)) (deliver (shd evs) p)" "\<not> visible (window q)"
      by blast
    with True show ?thesis
      by (intro exI [of _ "Suc n"]) (simp del: deliver.simps)
  next
    case False
    with 1(2) show ?thesis
      by (intro exI [of _ 0]) simp
  qed
qed

lemma set_stake: "set (stake n s) = snth s ` {..<n}"
  by (induction n) (simp_all add: stake_Suc lessThan_Suc del: stake.simps)

lemma snth_in_stake: "s !! n \<in> set (stake (Suc n) s)"
  by (simp add: stake_Suc del: stake.simps)

lemma exec_loop_Some_iff:
  assumes "visible (window p)"
  shows "(\<exists>q. exec_loop evs p = Some q) \<longleftrightarrow> CloseRequest \<in> sset evs"
proof
  assume "\<exists>q. exec_loop evs p = Some q"
  then obtain q n where "q = app_exec (stake n evs) p" "\<not> visible (window q)"
    using exec_loop_returns by blast
  with assms have "CloseRequest \<in> set (stake n evs)"
    by (auto dest: app_exec_hides)
  then show "CloseRequest \<in> sset evs"
    by (auto simp: set_stake sset_range)
next
  assume "CloseRequest \<in> sset evs"
  then obtain n where "evs !! n = CloseRequest"
    by (metis imageE sset_range)
  with snth_in_stake [of evs n] have "CloseRequest \<in> set (stake (Suc n) evs)"
    by simp
  then have "\<not> visible (window (app_exec (stake (Suc n) evs) p))"
    by (rule app_exec_closes)
  then show "\<exists>q. exec_loop evs p = Some q"
    by (blast dest: exec_loop_stake)
qed

section \<open>Termination\<close>

text \<open>
  C12: The program terminates exactly when the user closes the window. Over an infinite
  sequence of events, \<open>main_loop\<close> returns if and only if a close request is among them;
  a run of clicks alone never ends. When it returns, the exit status is 0, the window
  is hidden and the plotter's resources are released.
\<close>

theorem main_loop_terminates:
  "((\<exists>q. main_loop rt evs = Some q) \<longleftrightarrow> CloseRequest \<in> sset evs) \<and>
   (\<forall>q. main_loop rt evs = Some q \<longrightarrow>
      exit_status q = Some 0 \<and> \<not> visible (window q) \<and> closed (plotter (window q)))"
proof (intro conjI allI impI)
  have vis: "visible (window (startup rt))" by simp
  from exec_loop_Some_iff [OF vis, of evs]
  show "(\<exists>q. main_loop rt evs = Some q) \<longleftrightarrow> CloseRequest \<in> sset evs"
    by (auto simp: main_loop_def)
  fix q assume "main_loop rt evs = Some q"
  then obtain q' where q': "exec_loop evs (startup rt) = Some q'" "q = q'\<lparr>exit_status := Some 0\<rparr>"
    by (auto simp: main_loop_def)
  from exec_loop_returns [OF q'(1)] obtain n
    where n: "q' = app_exec (stake n evs) (startup rt)" "\<not> visible (window q')"
    by blast
  from n app_exec_hides [OF vis, of "stake n evs"] have "CloseRequest \<in> set (stake n evs)"
    by simp
  with n(1) have "closed (plotter (window q'))"
    by (simp add: window_app_exec [OF vis])
  with n(2) q'(2) show "exit_status q = Some 0" "\<not> visible (window q)"
    "closed (plotter (window q))"
    by simp_all
qed

theorem main_loop_terminates_witness:
  "(\<exists>q. main_loop example_packaged (Click 5 ## sconst CloseRequest) = Some q) \<and>
   (\<nexists>q. main_loop example_packaged (sconst (Click 5)) = Some q)"
  using main_loop_terminates [of example_packaged "Click 5 ## sconst CloseRequest"]
    main_loop_terminates [of example_packaged "sconst (Click 5)"]
  by simp

text \<open>
  C23: When the event at position \<open>n\<close> is a close request, the program over the stream
  ends in the state the program over the first \<open>n + 1\<close> events ends in; which close
  request is taken makes no difference, since the loop stops at the first.
\<close>

theorem main_loop_result:
  assumes "evs !! n = CloseRequest"
  shows "main_loop rt evs = Some (main rt (stake (Suc n) evs))"
proof -
  from assms snth_in_stake [of evs n] have close: "CloseRequest \<in> set (stake (Suc n) evs)"
    by simp
  then have hidden: "\<not> visible (window (app_exec (stake (Suc n) evs) (startup rt)))"
    by (rule app_exec_closes)
  from exec_loop_stake [OF this] hidden show ?thesis
    by (simp add: main_loop_def main_def Let_def del: stake.simps)
qed

theorem main_loop_result_witness:
  "main_loop example_packaged (Click 5 ## Click 6 ## sconst CloseRequest) =
     Some (main example_packaged [Click 5, Click 6, CloseRequest])"
  using main_loop_result [of "Click 5 ## Click 6 ## sconst CloseRequest" 2 example_packaged]
  by (simp add: numeral_2_eq_2 numeral_3_eq_3)

end
