(* ===== verification/Spec2Isabelle.thy ===== *)
theory Spec2Isabelle
  imports Py_Module App_Spec Event_Stream
begin

text \<open>
  A verification development for the MCM visualisation tool, \<open>src/main.py\<close>: a desktop
  window with a sidebar of two buttons beside a 3D canvas.

  \<^bold>\<open>The program.\<close> It has four parts. \<open>get_resource_path\<close> computes where a resource
  file lies, from the directory of the script or from the directory a packaged bundle
  was unpacked to. The class \<open>MainWindow\<close> builds the window (\<open>__init__\<close>, \<open>init_ui\<close>) and
  holds the handlers of the two buttons (\<open>plot_sphere\<close>, \<open>clear_plot\<close>) and of the close
  request (\<open>closeEvent\<close>). The block under \<open>__main__\<close> creates the application, sets its
  icon, shows the window and enters the event loop. Everything else is library code the
  program calls: \<open>os.path\<close>, the Qt widgets and event loop, the PyVista plotter. The
  parts interact through three pieces of state: the interpreter state the resolver
  reads, the object store of the window the constructor fills, and the scene of the
  plotter the handlers write.

  \<^bold>\<open>The theories\<close>, in the order they are built.
  \<^item> \<open>MCM_Prelude\<close>: Python strings as byte lists (\<open>pystr\<close>), console output as a list of
    lines (\<open>console\<close>), \<open>strip_right\<close> and \<open>all_of\<close> on lists, the two projections
    \<open>exec_state\<close> and \<open>eval_state\<close> of a run of the state monad with their rules for
    \<open>bind\<close> and \<open>return\<close>, and the fact collections \<open>model_defs\<close>, \<open>frame\<close>, \<open>inv_keep\<close>.
  \<^item> \<open>Os_Path\<close>: \<open>os.path.join\<close>, \<open>dirname\<close>, \<open>normpath\<close>, \<open>abspath\<close>, \<open>isabs\<close> in the
    POSIX flavour, as functions on \<open>pystr\<close>. Its lemmas give \<open>join\<close> on relative and
    absolute arguments, \<open>dirname\<close> of a joined path, that \<open>normpath\<close> and \<open>abspath\<close>
    return absolute paths for absolute input, the round trip of splitting and joining
    at separators, and the normal forms: an absolute path is one or two separators and
    plain components (no separator, not empty, not \<open>.\<close> or \<open>..\<close>), a relative path a
    run of \<open>..\<close> and plain components. \<open>normpath\<close> maps every path to its form and is
    idempotent; \<open>dirname\<close> and \<open>join\<close> stay within the absolute form.
  \<^item> \<open>Resource_Path\<close>: the record \<open>runtime\<close> for \<open>sys._MEIPASS\<close>, \<open>__file__\<close>, the current
    directory, the existing paths and \<open>sys.argv\<close>; \<open>base_path\<close> and \<open>get_resource_path\<close>
    for the function of that name (lines 17 to 29). Its theorems give the result in
    both run modes, show it absolute when the base directory is, show that an
    absolute argument overrides the base directory, and show for a run from the
    sources that the base directory is in normal form, is the directory part of
    every resolved file name and does not depend on how \<open>__file__\<close> is spelled, and for
    a packaged run that a bundle directory in normal form gives an icon path in normal
    form.
  \<^item> \<open>Plotter\<close>: the scene of the plotter as a record (actors, axis indicator,
    background, camera, released or not), the seven methods the program calls and
    the movement of the camera by the user as the datatype \<open>pv_call\<close> with the
    interpreter \<open>pv_exec\<close>, and \<open>pv_run\<close> for a sequence of calls. Its lemmas say which
    calls change which field.
  \<^item> \<open>Qt_Widgets\<close>: widgets and layouts as records in a list, named by their index;
    the state of a \<open>QMainWindow\<close>; \<open>new_object\<close> and \<open>modify_object\<close> as actions of the
    state monad, and the Qt methods the program calls as abbreviations of them. The
    invariant \<open>wf_objects\<close> says that the references of the store name objects of the
    right kind and place no widget twice; its lemmas show that every operation keeps
    it (collection \<open>inv_keep\<close>). \<open>owns\<close> is the ownership the references induce.
  \<^item> \<open>Main_Window\<close>: the class \<open>MainWindow\<close> (lines 34 to 144). The record
    \<open>main_window\<close> extends the window state by the attributes \<open>sidebar\<close>, \<open>interactor\<close>
    and \<open>plotter\<close>. \<open>MainWindow_init\<close> is \<open>__init__\<close>, with \<open>load_window_icon\<close> for its icon
    block; \<open>init_ui\<close> is the method of that name, a sequence of Qt actions in source
    order (\<open>build_central\<close>, \<open>build_sidebar\<close>, \<open>build_canvas\<close>) and the plotter calls
    \<open>init_canvas_calls\<close>. \<open>plot_sphere\<close>, \<open>clear_plot\<close> and \<open>closeEvent\<close> are the handlers;
    each returns the window and what it printed, or the event. Its theorems give the
    scene after each handler, idempotence of drawing, the layout and the signal
    connections the constructor builds, that the store is well formed (each block of
    \<open>init_ui\<close> keeps the invariant, by the lemmas of \<open>Qt_Widgets\<close>) and is one tree of
    ownership below the central widget, and the behaviour with and without icon file.
  \<^item> \<open>Application\<close>: the \<open>__main__\<close> block (lines 149 to 164). \<open>create_app\<close> and
    \<open>startup\<close> are the statements before the loop, \<open>deliver\<close> is the dispatch of one
    event (a click, a drag of the mouse, a close request),
    \<open>app_exec\<close> the loop over a list of events, \<open>main\<close> the block with its exit
    status, \<open>reachable\<close> the states of the running program as an inductive predicate.
    Its theorems: the invariant \<open>process_inv\<close> of all reachable states by rule
    induction, the seven scenes (\<open>open_scenes\<close>) that are exactly the scenes the program
    can show, which handler a click runs, the scene and the output after a run as
    functions of the events, release of the plotter exactly once, the exit status, and
    that the step relation and the loop describe the same states.
  \<^item> \<open>Plotter_Errors\<close>: the plotter's calls as calls that may raise: \<open>pv_check\<close> is
    the domain of the arguments, \<open>pv_try\<close> one call, \<open>pv_try_run\<close> a sequence of calls
    that stops at the first that raises. Its lemmas relate the runs that raise nothing
    to the runs of \<open>Plotter\<close>.
  \<^item> \<open>Py_Console\<close>: \<open>print\<close> and the stream \<open>sys.stdout\<close> it writes to, which may be
    absent or have an encoding that refuses a string (\<open>py_print\<close>), and the exceptions
    of the development (\<open>py_exception\<close>). Its lemmas split the lines a program prints
    into those a stream shows and those it refuses.
  \<^item> \<open>Window_Errors\<close>: the methods of \<open>MainWindow\<close> with exceptions, for a colour
    table and a stream (\<open>MainWindow_init_try\<close> with \<open>load_window_icon_try\<close> and
    \<open>init_ui_try\<close>, \<open>plot_sphere_try\<close>, \<open>clear_plot_try\<close>, \<open>closeEvent_try\<close>): the
    statements before a raising call have taken effect, the rest is skipped. Its
    theorems show the arguments of all calls of the program in their domains, and what
    a raising call leaves behind.
  \<^item> \<open>Program_Errors\<close>: the \<open>__main__\<close> block and the event loop with exceptions
    (\<open>startup_try\<close>, \<open>deliver_try\<close>, \<open>app_exec_try\<close>, \<open>main_try\<close>, \<open>exit_code\<close>). An
    exception in the constructor ends the process with status 1; an exception in a
    slot is reported and the loop goes on. Its lemmas relate each step to the step of
    \<open>Application\<close> (\<open>on_stream\<close>).
  \<^item> \<open>Py_Module\<close>: the module from its first line: the import statements of lines 1
    to 12 (\<open>module_imports\<close>) over a table of the modules that can be found
    (\<open>exec_import\<close>, \<open>run_imports\<close>), the names \<open>def\<close> and \<open>class\<close> bind, and \<open>run_module\<close>,
    which runs the block under \<open>__main__\<close> only when the imports are done and the module
    is started as a script. Its theorem gives the outcome by the first import that
    cannot be done.
  \<^item> \<open>App_Spec\<close>: the window as its specification describes it, a machine with the
    views \<open>Empty\<close> and \<open>ShowingSphere\<close> and the state \<open>Released\<close> after the shutdown
    (\<open>spec_step\<close>, \<open>spec_run\<close>, inductive), and the abstraction that relates the program
    to it (\<open>view_of\<close>, \<open>abs_state\<close>, \<open>action_of\<close>). Its lemmas are the simulation in
    both directions, event by event; its theorem shows that the runs of the machine
    are exactly the runs of the program seen through the abstraction.
  \<^item> \<open>Event_Stream\<close>: the event loop over an infinite stream of events, \<open>exec_loop\<close>,
    as a function that need not return, and \<open>main_loop\<close>, the \<open>__main__\<close> block over a
    stream. Its theorems show that the program terminates exactly when a close
    request occurs, and then agrees with the loop over a finite prefix.
  \<^item> \<open>Spec2Isabelle\<close> (this theory): the theorems that span the components. They
    give the scene after a click in every reachable state, follow the icon from the
    file system through the resolver into window and application, relate the program
    with exceptions to the program without (what a stream changes, when the warning
    about the icon ends the program), show that the program with exceptions
    implements the machine of the specification, and give the status the process
    exits with.

  \<^bold>\<open>Correspondence.\<close> A method is a function from the state before to the state after
  and what the call printed. The methods of \<open>Main_Window\<close> and the program of
  \<open>Application\<close> have no exceptions; those of \<open>Window_Errors\<close> and \<open>Program_Errors\<close>
  have, and \<open>main_try_run\<close> shows that the two programs end in the same window,
  application and exit status for every colour table that knows \<open>white\<close>, \<open>black\<close> and
  \<open>orange\<close> and every stream that accepts the warning about the icon; they differ in
  the lines that appear. \<open>module_exit_status\<close> gives the exit status of the process
  from the first import on. The interpreter state \<open>runtime\<close> is read but never written:
  the file system, the current directory and \<open>sys\<close> do not change while the program
  runs, so the two lookups of the icon see the same files. A local variable that holds
  a Qt object is the index of the object in the store. String literals are constants
  that hold the UTF-8 bytes of the source. The float literals 0.5 and 0.8 are the
  reals they denote; no arithmetic is done on them. All recursion but one is
  structural on lists, so these functions are total and no fuel is used. In
  \<open>Application\<close> the user's input is a finite list of events, and \<open>main\<close> leaves the exit
  status unset when the list ends before a close request, which stands for a loop that
  is still running. In \<open>Event_Stream\<close> the input is infinite and the loop is a
  \<^theory_text>\<open>partial_function\<close> in the option monad: \<open>None\<close> is a run that never ends, and
  \<open>main_loop_terminates\<close> says exactly which runs end. The machine of \<open>App_Spec\<close> is an
  inductive relation, with rule inversion for its proofs and a functional form
  (\<open>spec_next\<close>) to run it.

  \<^bold>\<open>Evaluation.\<close> The construction of the interface is evaluated with the rules for
  \<open>exec_state\<close> and \<open>eval_state\<close> of the prelude and of \<open>Qt_Widgets\<close>, never by unfolding
  the two primitives; \<open>ui_objects\<close> in \<open>Main_Window\<close> is the store this yields, and the
  later theories reason from it. The examples \<open>example_packaged\<close> and \<open>example_source\<close>
  of \<open>Resource_Path\<close> are the inputs at which the theorems with hypotheses are applied.

  \<^bold>\<open>Not modelled.\<close> The Windows flavour of \<open>os.path\<close>; symbolic links and the file
  system beyond the set of existing paths; painting, geometry and styles of Qt; events
  other than clicks, drags of the mouse and close requests, among them resizing and
  the keyboard; where the camera is after the user moved it (one value, \<open>CameraMoved\<close>,
  stands for every such position); the geometry of meshes and rendering in PyVista;
  exceptions of Qt and of the operating system (no display, no memory); the text of a
  traceback and the error stream it is written to; how the interpreter finds a module
  and what a module does while it is loaded, among it the choice of the Qt binding by
  the plotting library. The meaning of a plotter call is taken from the
  specification's data model; that a call on a released plotter raises and that a call
  checks its arguments is the library's documented behaviour, with the colour table
  left open. An encoding is the set of strings it can encode, with no structure
  assumed; that \<open>print\<close> does nothing without a stream and raises on a string the
  stream cannot encode is the behaviour of Python's \<open>print\<close> and text streams, that an
  exception leaving a slot is reported while the loop goes on is that of the Qt
  binding the program imports, and that an import raises for a module that is not
  found or a name it lacks is that of Python's import statement.
\<close>

section \<open>The scene after a click\<close>

definition sphere_scene :: scene where
  "sphere_scene =
     \<lparr>actors = [MeshActor (Sphere 0.5) ''orange'' True False 0.8,
                TextActor ''Model: 3D Sphere'' ''upper_left'' ''black''],
      axes = True, background = Some ''white'', camera = CameraFramed [Sphere 0.5],
      closed = False\<rparr>"

text \<open>
  C19: The scene reflects the most recent click on a button, whatever happened before.
  While the program runs, a click on the button that draws the sphere leaves the scene
  \<open>sphere_scene\<close>: the sphere and its text on a white background with the axis
  indicator, framed by the camera. A click on the button that clears the canvas leaves
  no actor, a white background and the axis indicator; only the camera stays where the
  history left it, be it the last drawing or the user's mouse.
\<close>

theorem scene_reflects_last_click:
  assumes "reachable rt p" and "visible (window p)" and "i < length (objects (window p))"
  shows "(caption (objects (window p) ! i) = btn_sphere_text \<longrightarrow>
            plotter (window (deliver (Click i) p)) = sphere_scene) \<and>
         (caption (objects (window p) ! i) = btn_clear_text \<longrightarrow>
            plotter (window (deliver (Click i) p)) =
              \<lparr>actors = [], axes = True, background = Some ''white'',
               camera = camera (plotter (window p)), closed = False\<rparr>)"
proof -
  note inv = reachable_process_inv [OF assms(1)]
  note obs = process_inv_objects [OF inv]
  from inv assms(2) have s: "background (plotter (window p)) = Some ''white''"
    "\<not> closed (plotter (window p))"
    by (simp_all add: process_inv_def scene_inv_def)
  from assms(3) obs have "i < length ui_objects" by simp
  from captions_ui [OF this] obs s show ?thesis
    by (auto simp: deliver_eq event_calls_ui handler_runs sphere_scene_def sphere_actors_def
        sphere_def sphere_text_def simp del: deliver.simps event_calls.simps)
qed

theorem scene_reflects_last_click_witness:
  "plotter (window (deliver (Click 5) (deliver (Drag 8) (startup example_packaged)))) =
     sphere_scene"
proof -
  have "reachable example_packaged (deliver (Drag 8) (startup example_packaged))"
    by (rule reachable.step [OF reachable.start]) simp
  from scene_reflects_last_click [OF this, of 5] captions_ui [of 5] show ?thesis
    by (simp add: deliver_eq del: deliver.simps event_calls.simps)
qed

section \<open>From the file system to the window\<close>

text \<open>
  C32: In a packaged run the icon is looked for in the bundle directory. With
  \<open>sys._MEIPASS\<close> a non-empty directory name without trailing separator, window and
  application take the icon from \<open>resources/icon.ico\<close> below it when that file exists
  and print nothing; when it does not exist both stay without icon and the output is
  the one warning naming that path. The window is built and shown in both cases.
\<close>

theorem packaged_icon:
  assumes "meipass rt = Some d" and "d \<noteq> []" and "\<not> endswith_sep d"
  shows "(let icon = d @ ''/resources/icon.ico''; p = startup rt in
            window_icon (window p) = (if icon \<in> existing rt then Some icon else None) \<and>
            app_icon (app p) = (if icon \<in> existing rt then Some icon else None) \<and>
            stdout p = (if icon \<in> existing rt then [] else [icon_warning icon]) \<and>
            visible (window p) \<and> objects (window p) = ui_objects)"
  using assms
  by (simp add: Let_def MainWindow_init_eq create_app_def QApplication_def os_path_exists_def
      get_resource_path_def icon_relative_path_eq)

theorem packaged_icon_witness:
  "window_icon (window (startup example_packaged)) = Some ''/tmp/_MEI7/resources/icon.ico'' \<and>
   stdout (startup example_packaged) = []"
  using packaged_icon [of example_packaged "''/tmp/_MEI7''"]
  by (simp add: example_packaged_def endswith_sep_def Let_def)

text \<open>
  C33: In a run from the sources with the script at a path in normal form, the icon is
  looked for beside the script, in \<open>resources/icon.ico\<close> below the script's directory,
  wherever the program was started from.
\<close>

theorem source_icon:
  assumes "meipass rt = None"
    and "module_file rt = sep # sep_join (dirs @ [name])"
    and "plain_comps (dirs @ [name])"
    and "dirs \<noteq> []"
  shows "(let icon = sep # sep_join dirs @ ''/resources/icon.ico''; p = startup rt in
            window_icon (window p) = (if icon \<in> existing rt then Some icon else None) \<and>
            stdout p = (if icon \<in> existing rt then [] else [icon_warning icon]))"
  using resource_beside_script [OF assms(1-3), of icon_relative_path] assms(4)
  by (simp add: Let_def MainWindow_init_eq os_path_exists_def icon_relative_path_eq)

theorem source_icon_witness:
  "stdout (startup example_source) =
     [icon_warning ''/home/u/app/resources/icon.ico'']"
  using source_icon [of example_source "[''home'', ''u'', ''app'']" "''main.py''"]
  by (simp add: example_source_def Let_def)

section \<open>The program on a given stream\<close>

text \<open>
  C10: With a colour table that knows the colours the program names, the program with
  exceptions follows the program without, for every stream \<open>sys.stdout\<close> and every
  sequence of events. Unless the warning about a missing icon ends it at the start, it
  ends in the same window, application and exit status; of the lines the program
  without exceptions prints, the lines the stream accepts appear, in order, and each
  line it refuses is reported as one \<open>UnicodeEncodeError\<close>, in order. In particular no
  handler leaves the scene half drawn: its \<open>print\<close> is its last statement.
\<close>

theorem main_try_run:
  assumes "needed_colors \<subseteq> colors"
  shows "main_try colors out rt es =
           (if warns out rt
            then (Inr ((main rt es)\<lparr>stdout := shown out (stdout (main rt es))\<rparr>),
                  map UnicodeEncodeError (refused out (stdout (main rt es))))
            else (Inl ([], UnicodeEncodeError
                             (icon_warning (get_resource_path rt icon_relative_path))), []))"
  using assms by (rule main_try_eq)

theorem main_try_run_witness:
  "main_try needed_colors (Stdout ascii_codec) example_packaged [Click 5, CloseRequest] =
     (Inr ((main example_packaged [Click 5, CloseRequest])\<lparr>stdout := []\<rparr>),
      [UnicodeEncodeError sphere_done_msg])"
proof -
  have lines: "stdout (main example_packaged [Click 5, CloseRequest]) = [sphere_done_msg]"
    by (simp add: main_def MainWindow_init_eq Let_def click_ui plot_sphere_def closeEvent_def
        example_packaged_def os_path_exists_def get_resource_path_def icon_relative_path_eq
        endswith_sep_def)
  have "warns (Stdout ascii_codec) example_packaged"
    by (simp add: warns_def example_packaged_def os_path_exists_def get_resource_path_def
        base_path_def icon_relative_path_eq endswith_sep_def)
  with main_try_run [of needed_colors "Stdout ascii_codec" example_packaged
      "[Click 5, CloseRequest]"] lines ascii_refuses(2)
  show ?thesis by simp
qed

text \<open>
  C13: A missing icon file ends the program when the stream cannot encode the warning.
  The \<open>print\<close> of the warning raises \<open>UnicodeEncodeError\<close> in the constructor of the
  window, nothing catches it, and the process exits with status 1 before a window is
  shown, whatever the colour table and the events are. An ASCII stream is such a
  stream for every path.
\<close>

theorem missing_icon_fatal:
  assumes "\<not> os_path_exists rt (get_resource_path rt icon_relative_path)"
    and "\<not> accepts out (icon_warning (get_resource_path rt icon_relative_path))"
  shows "main_try colors out rt es =
           (Inl ([], UnicodeEncodeError
                       (icon_warning (get_resource_path rt icon_relative_path))), []) \<and>
         exit_code (fst (main_try colors out rt es)) = Some 1"
  using assms
  by (simp add: main_try_def startup_try_def MainWindow_init_try_def load_window_icon_try_def
      py_print_eq Let_def)

theorem missing_icon_fatal_witness:
  "exit_code (fst (main_try needed_colors (Stdout ascii_codec) example_source [Click 5])) = Some 1"
  using missing_icon_fatal [of example_source "Stdout ascii_codec" needed_colors "[Click 5]"]
    ascii_refuses(1) [of "get_resource_path example_source icon_relative_path"]
  by (simp add: example_source_def os_path_exists_def)

section \<open>The program and its specification\<close>

text \<open>
  C6: The program with exceptions implements the machine of its specification on every
  stream. With a colour table that knows the colours the program names and a stream
  that accepts the warning about the icon, the program starts, and the actions of the
  events it is handed are a run of the machine from the view \<open>Empty\<close> to the state of
  the process it ends in: a line the stream refuses changes neither the view nor the
  release of the plotter.
\<close>

theorem program_refines_spec:
  assumes "needed_colors \<subseteq> colors" and "warns out rt"
  shows "\<exists>q errs. main_try colors out rt es = (Inr q, errs) \<and>
           spec_run (Shown Empty) (map (action_of (window (startup rt))) (delivered es))
             (abs_state q)"
  using assms(2) spec_run_main [of rt es]
  by (simp add: main_try_eq [OF assms(1)])

theorem program_refines_spec_witness:
  "\<exists>q errs. main_try needed_colors (Stdout ascii_codec) example_packaged
              [Click 5, Drag 8, Click 0, CloseRequest, Click 6] = (Inr q, errs) \<and>
            spec_run (Shown Empty) [DrawSphere, Other, Other, CloseWindow] (abs_state q)"
proof -
  have "warns (Stdout ascii_codec) example_packaged"
    by (simp add: warns_def example_packaged_def os_path_exists_def get_resource_path_def
        base_path_def icon_relative_path_eq endswith_sep_def)
  moreover have "objects (window (startup example_packaged)) = ui_objects"
    by (simp add: MainWindow_init_eq Let_def)
  then have "map (action_of (window (startup example_packaged)))
      (delivered [Click 5, Drag 8, Click 0, CloseRequest, Click 6]) =
      [DrawSphere, Other, Other, CloseWindow]"
    by (simp add: action_of_ui slots_ui del: startup_fields)
  ultimately show ?thesis
    using program_refines_spec [of needed_colors "Stdout ascii_codec"
        example_packaged "[Click 5, Drag 8, Click 0, CloseRequest, Click 6]"]
    by simp
qed

section \<open>The module from its first line\<close>

text \<open>
  C11: The status the program exits with, started as a script, for every site, colour
  table that knows the colours the program names, stream and sequence of events. It is
  1 when an import cannot be done or when the warning about a missing icon cannot be
  printed; otherwise it is 0 once a close request has arrived, and none while the loop
  still runs. Nothing else ends the program: no click and no drag does, and no
  exception of a handler.
\<close>

theorem module_exit_status:
  assumes "needed_colors \<subseteq> colors"
  shows "module_exit (run_module site ''__main__'' colors out rt es) =
           (if list_all (importable site) module_imports \<and> warns out rt
            then (if CloseRequest \<in> set es then Some 0 else None)
            else Some 1)"
proof (cases "list_all (importable site) module_imports")
  case True
  then show ?thesis
    by (simp add: module_exit_script exit_code_main_try [OF assms])
next
  case False
  then show ?thesis
    by (simp add: module_exit_import_error)
qed

theorem module_exit_status_witness:
  "module_exit (run_module example_site ''__main__'' needed_colors (Stdout ascii_codec)
     example_packaged [Click 5, Drag 8, CloseRequest]) = Some 0 \<and>
   module_exit (run_module example_site_no_pyvista ''__main__'' needed_colors
     (Stdout ascii_codec) example_packaged [Click 5, Drag 8, CloseRequest]) = Some 1"
proof -
  have "warns (Stdout ascii_codec) example_packaged"
    by (simp add: warns_def example_packaged_def os_path_exists_def get_resource_path_def
        base_path_def icon_relative_path_eq endswith_sep_def)
  moreover have "list_all (importable example_site) module_imports"
    "\<not> list_all (importable example_site_no_pyvista) module_imports"
    by (simp_all add: module_imports_def example_site_def example_site_no_pyvista_def)
  ultimately show ?thesis
    using module_exit_status [of needed_colors example_site "Stdout ascii_codec"
        example_packaged "[Click 5, Drag 8, CloseRequest]"]
      module_exit_status [of needed_colors example_site_no_pyvista "Stdout ascii_codec"
        example_packaged "[Click 5, Drag 8, CloseRequest]"]
    by simp
qed

end
